theory Spec2Isabelle
  imports Main
begin

section \<open>JavaScript values and strings\<close>

text \<open>
  The runtime is the JavaScript class \<open>HomerParser\<close>. Values stored in the variable tables
  are JavaScript values; the embedding covers \<open>undefined\<close>, \<open>null\<close>, booleans, integers and
  strings (floating point numbers and other objects are outside the embedding), and the
  values that every plain object inherits: \<open>JInherited k\<close> is the value of the property \<open>k\<close> of
  \<open>Object.prototype\<close>, a function or, for \<open>__proto__\<close>, \<open>Object.prototype\<close> itself. Strings
  are lists of 8-bit characters, read as code units below 256.
\<close>

datatype jsval = JUndefined | JNull | JBool bool | JNum int | JStr string | JInherited string

fun truthy :: "jsval \<Rightarrow> bool" where
  "truthy JUndefined = False"
| "truthy JNull = False"
| "truthy (JBool b) = b"
| "truthy (JNum n) = (n \<noteq> 0)"
| "truthy (JStr s) = (s \<noteq> [])"
| "truthy (JInherited k) = True"

text \<open>The unary \<open>!\<close> always yields a boolean; \<open>===\<close> never identifies values of different types.\<close>

definition js_not :: "jsval \<Rightarrow> jsval" where
  "js_not v = JBool (\<not> truthy v)"

definition strict_eq :: "jsval \<Rightarrow> jsval \<Rightarrow> bool" where
  "strict_eq a b = (a = b)"

text \<open>\<open>x != null\<close> (loose): false exactly for \<open>null\<close> and \<open>undefined\<close>.\<close>

fun not_nullish :: "jsval \<Rightarrow> bool" where
  "not_nullish JUndefined = False"
| "not_nullish JNull = False"
| "not_nullish _ = True"

definition digit_char :: "nat \<Rightarrow> char" where
  "digit_char d = char_of (48 + d)"

fun digits_acc :: "nat \<Rightarrow> nat \<Rightarrow> string \<Rightarrow> string" where
  "digits_acc 0 n acc = acc"
| "digits_acc (Suc k) n acc =
     (if n < 10 then digit_char n # acc
      else digits_acc k (n div 10) (digit_char (n mod 10) # acc))"

definition nat_to_string :: "nat \<Rightarrow> string" where
  "nat_to_string n = digits_acc (Suc n) n []"

definition int_to_string :: "int \<Rightarrow> string" where
  "int_to_string i = (if i < 0 then CHR ''-'' # nat_to_string (nat (- i)) else nat_to_string (nat i))"

text \<open>String conversion as performed by \<open>+\<close> with a string and by \<open>String.prototype.replace\<close>.
  The text of a built-in function is written as V8 and JavaScriptCore write it.\<close>

fun to_string :: "jsval \<Rightarrow> string" where
  "to_string JUndefined = ''undefined''"
| "to_string JNull = ''null''"
| "to_string (JBool b) = (if b then ''true'' else ''false'')"
| "to_string (JNum n) = int_to_string n"
| "to_string (JStr s) = s"
| "to_string (JInherited k) =
     (if k = ''__proto__'' then ''[object Object]''
      else ''function '' @ (if k = ''constructor'' then ''Object'' else k) @ ''() { [native code] }'')"

subsection \<open>Character classes\<close>

definition code :: "char \<Rightarrow> nat" where
  "code c = of_char c"

definition is_upper :: "char \<Rightarrow> bool" where
  "is_upper c = (65 \<le> code c \<and> code c \<le> 90)"

definition is_lower :: "char \<Rightarrow> bool" where
  "is_lower c = (97 \<le> code c \<and> code c \<le> 122)"

definition is_letter :: "char \<Rightarrow> bool" where
  "is_letter c = (is_upper c \<or> is_lower c)"

definition is_digit :: "char \<Rightarrow> bool" where
  "is_digit c = (48 \<le> code c \<and> code c \<le> 57)"

text \<open>\<open>\w\<close>\<close>

definition is_word :: "char \<Rightarrow> bool" where
  "is_word c = (is_letter c \<or> is_digit c \<or> c = CHR ''_'')"

text \<open>\<open>\s\<close> and the characters removed by \<open>trim\<close> (among code units below 256).\<close>

definition is_space :: "char \<Rightarrow> bool" where
  "is_space c = (code c \<in> {9, 10, 11, 12, 13, 32, 160})"

text \<open>The characters that \<open>.\<close> does not match.\<close>

definition is_line_terminator :: "char \<Rightarrow> bool" where
  "is_line_terminator c = (code c = 10 \<or> code c = 13)"

definition to_lower :: "char \<Rightarrow> char" where
  "to_lower c = (if is_upper c then char_of (code c + 32) else c)"

subsection \<open>String primitives\<close>

definition starts_with :: "string \<Rightarrow> string \<Rightarrow> bool" where
  "starts_with p s = (take (length p) s = p)"

text \<open>Prefix test under the \<open>i\<close> flag.\<close>

definition starts_with_ci :: "string \<Rightarrow> string \<Rightarrow> bool" where
  "starts_with_ci p s = (map to_lower (take (length p) s) = map to_lower p)"

text \<open>\<open>indexOf\<close>: the first position where \<open>p\<close> occurs.\<close>

fun index_of :: "string \<Rightarrow> string \<Rightarrow> nat option" where
  "index_of p [] = (if p = [] then Some 0 else None)"
| "index_of p (c # cs) =
     (if starts_with p (c # cs) then Some 0 else map_option Suc (index_of p cs))"

definition contains :: "string \<Rightarrow> string \<Rightarrow> bool" where
  "contains p s = (index_of p s \<noteq> None)"

text \<open>
  The replacement text of \<open>replace\<close>/\<open>replaceAll\<close> with a string pattern: \<open>$$\<close>, \<open>$&\<close>,
  \<open>$`\<close> and \<open>$'\<close> are expanded; there are no capture groups, so \<open>$1\<close> stays as it is.
\<close>

fun expand_replacement :: "string \<Rightarrow> string \<Rightarrow> string \<Rightarrow> string \<Rightarrow> string" where
  "expand_replacement [] m pre post = []"
| "expand_replacement [c] m pre post = [c]"
| "expand_replacement (c # d # r) m pre post =
     (if c = CHR ''$'' \<and> d = CHR ''$'' then CHR ''$'' # expand_replacement r m pre post
      else if c = CHR ''$'' \<and> d = CHR ''&'' then m @ expand_replacement r m pre post
      else if c = CHR ''$'' \<and> d = CHR 0x60 then pre @ expand_replacement r m pre post
      else if c = CHR ''$'' \<and> d = CHR 0x27 then post @ expand_replacement r m pre post
      else c # expand_replacement (d # r) m pre post)"

text \<open>\<open>s.replace(pat, repl)\<close> with a string pattern: the first occurrence only.\<close>

definition replace_first :: "string \<Rightarrow> string \<Rightarrow> string \<Rightarrow> string" where
  "replace_first pat repl s =
     (case index_of pat s of
        None \<Rightarrow> s
      | Some i \<Rightarrow>
          take i s @ expand_replacement repl pat (take i s) (drop (i + length pat) s)
            @ drop (i + length pat) s)"

text \<open>
  \<open>s.replaceAll(pat, repl)\<close> with a string pattern. \<open>seen\<close> is the text before the current
  position (needed by \<open>$`\<close>). An empty pattern matches before every character and at the end.
\<close>

fun replace_all_from :: "string \<Rightarrow> string \<Rightarrow> string \<Rightarrow> string \<Rightarrow> string" where
  "replace_all_from pat repl seen [] =
     (if pat = [] then expand_replacement repl pat seen [] else [])"
| "replace_all_from pat repl seen (c # cs) =
     (if pat = [] then
        expand_replacement repl pat seen (c # cs) @ c # replace_all_from pat repl (seen @ [c]) cs
      else if starts_with pat (c # cs) then
        expand_replacement repl pat seen (drop (length pat) (c # cs))
          @ replace_all_from pat repl (seen @ pat) (drop (length pat - 1) cs)
      else c # replace_all_from pat repl (seen @ [c]) cs)"

definition replace_all :: "string \<Rightarrow> string \<Rightarrow> string \<Rightarrow> string" where
  "replace_all pat repl s = replace_all_from pat repl [] s"

text \<open>Replacement of every occurrence of a literal by a plain text, as done by a global regular
  expression for a literal (optionally under the \<open>i\<close> flag).\<close>

fun replace_lit :: "bool \<Rightarrow> string \<Rightarrow> string \<Rightarrow> string \<Rightarrow> string" where
  "replace_lit ci pat repl [] = []"
| "replace_lit ci pat repl (c # cs) =
     (if pat \<noteq> [] \<and> (if ci then starts_with_ci pat (c # cs) else starts_with pat (c # cs))
      then repl @ replace_lit ci pat repl (drop (length pat - 1) cs)
      else c # replace_lit ci pat repl cs)"

text \<open>\<open>s.split(sep)\<close> for a non-empty separator.\<close>

fun split_acc :: "string \<Rightarrow> string \<Rightarrow> string \<Rightarrow> string list" where
  "split_acc sep cur [] = [cur]"
| "split_acc sep cur (c # cs) =
     (if sep \<noteq> [] \<and> starts_with sep (c # cs)
      then cur # split_acc sep [] (drop (length sep - 1) cs)
      else split_acc sep (cur @ [c]) cs)"

definition split :: "string \<Rightarrow> string \<Rightarrow> string list" where
  "split sep s = split_acc sep [] s"

definition trim_start :: "string \<Rightarrow> string" where
  "trim_start s = dropWhile is_space s"

definition trim_end :: "string \<Rightarrow> string" where
  "trim_end s = rev (dropWhile is_space (rev s))"

definition trim :: "string \<Rightarrow> string" where
  "trim s = trim_end (trim_start s)"

subsection \<open>The regular expressions of the parser\<close>

text \<open>
  \<open>open(.*?)close\<close>: after the opening literal, the shortest text without line terminator
  that is followed by the closing literal; the result is the length of that text.
\<close>

fun lazy_inner :: "string \<Rightarrow> string \<Rightarrow> nat option" where
  "lazy_inner cls [] = None"
| "lazy_inner cls (c # cs) =
     (if cls \<noteq> [] \<and> starts_with cls (c # cs) then Some 0
      else if is_line_terminator c then None
      else map_option Suc (lazy_inner cls cs))"

text \<open>
  \<open>s.match(/open(.*?)close/gi)\<close>: all matches from left to right, without overlap. The empty
  list stands for \<open>null\<close>: every use in the parser tests \<open>blocks && blocks.length > 0\<close>.
\<close>

fun match_blocks :: "string \<Rightarrow> string \<Rightarrow> string \<Rightarrow> string list" where
  "match_blocks opn cls [] = []"
| "match_blocks opn cls (c # cs) =
     (if opn \<noteq> [] \<and> starts_with_ci opn (c # cs) then
        (case lazy_inner cls (drop (length opn) (c # cs)) of
           Some k \<Rightarrow>
             take (length opn + k + length cls) (c # cs)
               # match_blocks opn cls (drop (length opn + k + length cls - 1) cs)
         | None \<Rightarrow> match_blocks opn cls cs)
      else match_blocks opn cls cs)"

text \<open>\<open>/\[\[(.*?)\]\]/gi\<close>, \<open>/\[IF(.*?)\]/gi\<close>, \<open>/\[TODO(.*?)\]/gi\<close>, \<open>/\{(.*?)\}/gi\<close>,
  \<open>/\[-\]/gi\<close> and \<open>/\[\+\]/gi\<close>.\<close>

definition variationsRegExp :: "string \<Rightarrow> string list" where
  "variationsRegExp s = match_blocks ''[['' '']]'' s"

definition conditionalInsideTextRegExp :: "string \<Rightarrow> string list" where
  "conditionalInsideTextRegExp s = match_blocks ''[IF'' '']'' s"

definition todoRegExp :: "string \<Rightarrow> string list" where
  "todoRegExp s = match_blocks ''[TODO'' '']'' s"

definition variableRegExp :: "string \<Rightarrow> string list" where
  "variableRegExp s = match_blocks ''{'' ''}'' s"

fun match_literal :: "string \<Rightarrow> string \<Rightarrow> string list" where
  "match_literal lit [] = []"
| "match_literal lit (c # cs) =
     (if lit \<noteq> [] \<and> starts_with lit (c # cs)
      then lit # match_literal lit (drop (length lit - 1) cs)
      else match_literal lit cs)"

definition justOnceRegExp :: "string \<Rightarrow> string list" where
  "justOnceRegExp s = match_literal ''[-]'' s"

definition ifNoMoreRegExp :: "string \<Rightarrow> string list" where
  "ifNoMoreRegExp s = match_literal ''[+]'' s"

text \<open>\<open>findGlobalVariables\<close>: \<open>/\$([a-zA-Z]\w+)/gi\<close>, a dollar sign, a letter and at least one
  more word character. The empty list stands for \<open>null\<close>.\<close>

fun findGlobalVariables :: "string \<Rightarrow> string list" where
  "findGlobalVariables [] = []"
| "findGlobalVariables [c] = []"
| "findGlobalVariables (c # d # r) =
     (if c = CHR ''$'' \<and> is_letter d \<and> takeWhile is_word r \<noteq> []
      then (c # d # takeWhile is_word r)
             # findGlobalVariables (drop (length (takeWhile is_word r)) r)
      else findGlobalVariables (d # r))"

text \<open>\<open>findLocalVariables\<close>: \<open>/\%([a-zA-Z0-9\]\w.?()[a-zA-Z]+)/gi\<close>, a percent sign and at least
  one character of the class.\<close>

definition is_local_var_char :: "char \<Rightarrow> bool" where
  "is_local_var_char c =
     (is_word c \<or> c = CHR '']'' \<or> c = CHR ''.'' \<or> c = CHR 0x3F \<or> c = CHR ''(''
        \<or> c = CHR '')'' \<or> c = CHR ''['')"

fun findLocalVariables :: "string \<Rightarrow> string list" where
  "findLocalVariables [] = []"
| "findLocalVariables (c # cs) =
     (if c = CHR ''%'' \<and> takeWhile is_local_var_char cs \<noteq> []
      then (c # takeWhile is_local_var_char cs)
             # findLocalVariables (drop (length (takeWhile is_local_var_char cs)) cs)
      else findLocalVariables cs)"

text \<open>\<open>sanitizeVariables\<close>\<close>

definition sanitizeVariables :: "string \<Rightarrow> string" where
  "sanitizeVariables str =
     replace_lit False ''&nbsp;'' '' ''
       (replace_lit False ''&lt;'' ''<''
         (replace_lit False ''&gt;'' ''>''
           (replace_lit True ''<br>'' [] str)))"

text \<open>\<open>getTextWithoutTags\<close>: \<open>text.replace(/<(?!br\s*\/?)[^>]+>/g, '')\<close>.\<close>

fun getTextWithoutTags :: "string \<Rightarrow> string" where
  "getTextWithoutTags [] = []"
| "getTextWithoutTags (c # cs) =
     (if c = CHR ''<'' \<and> \<not> starts_with ''br'' cs
         \<and> takeWhile (\<lambda>x. x \<noteq> CHR ''>'') cs \<noteq> []
         \<and> length (takeWhile (\<lambda>x. x \<noteq> CHR ''>'') cs) < length cs
      then getTextWithoutTags (drop (Suc (length (takeWhile (\<lambda>x. x \<noteq> CHR ''>'') cs))) cs)
      else c # getTextWithoutTags cs)"

text \<open>
  The quoted results of an inline conditional, \<open>/(["'])(?:(?=(\\?))\2.)*?\1/gi\<close>: an opening
  quote, then characters (a backslash takes the next character with it) up to the first
  closing quote of the same kind. \<open>quoted_body\<close> is the length of the text between the quotes.
\<close>

fun quoted_body :: "char \<Rightarrow> string \<Rightarrow> nat option" where
  "quoted_body q [] = None"
| "quoted_body q [c] = (if c = q then Some 0 else None)"
| "quoted_body q (c # d # r) =
     (if c = q then Some 0
      else if c = CHR 0x5C then
        (if is_line_terminator d then None else map_option (\<lambda>k. k + 2) (quoted_body q r))
      else if is_line_terminator c then None
      else map_option Suc (quoted_body q (d # r)))"

fun resultRegEx :: "string \<Rightarrow> string list" where
  "resultRegEx [] = []"
| "resultRegEx (c # cs) =
     (if c = CHR 0x22 \<or> c = CHR 0x27 then
        (case quoted_body c cs of
           Some k \<Rightarrow> take (k + 2) (c # cs) # resultRegEx (drop (k + 1) cs)
         | None \<Rightarrow> resultRegEx cs)
      else resultRegEx cs)"

text \<open>\<open><br\s*\/?>\<close> at the beginning of a text: the rest after the tag.\<close>

definition br_tag :: "string \<Rightarrow> string option" where
  "br_tag s =
     (if starts_with ''<br'' s then
        (let r = dropWhile is_space (drop 3 s);
             r' = (if starts_with ''/'' r then drop 1 r else r)
         in if starts_with ''>'' r' then Some (drop 1 r') else None)
      else None)"

fun strip_trailing_br :: "string \<Rightarrow> string" where
  "strip_trailing_br [] = []"
| "strip_trailing_br (c # cs) =
     (case br_tag (c # cs) of
        Some r \<Rightarrow> if list_all is_space r then [] else c # strip_trailing_br cs
      | None \<Rightarrow> c # strip_trailing_br cs)"

text \<open>\<open>output.replace(/^\s*<br\s*\/?>|<br\s*\/?>\s*$/g, '')\<close>\<close>

definition strip_outer_br :: "string \<Rightarrow> string" where
  "strip_outer_br s =
     (case br_tag (dropWhile is_space s) of
        Some r \<Rightarrow> strip_trailing_br r
      | None \<Rightarrow> strip_trailing_br s)"

text \<open>
  The final replacement of \<open>getParsedText\<close>,
  \<open>/^(\ ?<br( \/)?>\ ?)+|(\ ?<br( \/)?>\ ?)+$/g\<close>: a run of \<open><br>\<close> or \<open><br />\<close> tags, each with
  at most one blank on either side, at the beginning and at the end.
\<close>

definition br_core :: "string \<Rightarrow> string option" where
  "br_core s =
     (if starts_with ''<br>'' s then Some (drop 4 s)
      else if starts_with ''<br />'' s then Some (drop 6 s)
      else None)"

definition skip_blank :: "string \<Rightarrow> string" where
  "skip_blank s = (if starts_with '' '' s then drop 1 s else s)"

definition br_unit :: "string \<Rightarrow> string option" where
  "br_unit s = map_option skip_blank (br_core (skip_blank s))"

fun strip_br_run :: "nat \<Rightarrow> string \<Rightarrow> string" where
  "strip_br_run 0 s = s"
| "strip_br_run (Suc n) s = (case br_unit s of Some r \<Rightarrow> strip_br_run n r | None \<Rightarrow> s)"

fun all_br_units :: "nat \<Rightarrow> string \<Rightarrow> bool" where
  "all_br_units 0 s = False"
| "all_br_units (Suc n) s =
     (case br_core (skip_blank s) of
        None \<Rightarrow> False
      | Some r \<Rightarrow> r = [] \<or> r = '' '' \<or> all_br_units n r \<or> all_br_units n (skip_blank r))"

fun strip_trailing_run :: "string \<Rightarrow> string" where
  "strip_trailing_run [] = []"
| "strip_trailing_run (c # cs) =
     (if all_br_units (Suc (length cs)) (c # cs) then [] else c # strip_trailing_run cs)"

definition strip_br_runs :: "string \<Rightarrow> string" where
  "strip_br_runs s = strip_trailing_run (strip_br_run (length s) s)"


section \<open>The project model\<close>

text \<open>
  The classes \<open>NodeType\<close>, \<open>CycleType\<close> and the objects of the project file. A field
  \<open>_name\<close> of the source is the record field \<open>x_name\<close>, with a prefix for its object kind.
  \<open>NodeType_other\<close> and \<open>CycleType_none\<close> stand for every value that is none of the listed ones
  (including an absent one).
\<close>

datatype nodeType =
    NodeType_start | NodeType_text | NodeType_note | NodeType_choices | NodeType_variables
  | NodeType_condition | NodeType_failCondition | NodeType_random | NodeType_sequence
  | NodeType_jumpToNode | NodeType_layout | NodeType_subFlow | NodeType_label | NodeType_other

datatype cycleType =
    CycleType_list | CycleType_loop | CycleType_random | CycleType_smartRandom | CycleType_none

record localizedContent =
  lc_localeCode :: string
  lc_text :: string
  lc_notTranslated :: "bool option"

record nodeElement =
  e_id :: string
  e_nodeId :: string
  e_type :: nodeType
  e_localizedContents :: "localizedContent list"
  e_visited :: bool
  e_justOnce :: bool
  e_ifNoMore :: bool
  e_wasHiddenBecauseEmpty :: bool

record connection =
  c_to :: string
  c_type :: nodeType
  c_nodeElementId :: "string option"

record node =
  n_id :: string
  n_type :: nodeType
  n_cycleType :: cycleType
  n_translatable :: bool
  n_elements :: "nodeElement list"
  n_connections :: "connection list"
  n_jumpTo :: "(string \<times> string) option"
  n_previousNodeId :: "string option"

record flow =
  f_id :: string
  f_name :: string
  f_slug :: string
  f_nodes :: "node list"

record variable =
  v_key :: string
  v_value :: jsval
  v_type :: string

record label =
  l_key :: string
  l_localizedContents :: "localizedContent list"

record flowGroup =
  fg_flowIds :: "string list"

record project =
  p_apiVersion :: string
  p_locale :: string
  p_mainLocale :: string
  p_flowGroups :: "flowGroup list"
  p_flows :: "flow list"
  p_variables :: "variable list"
  p_labels :: "label list"

text \<open>An entry of \<open>_variations\<close>. \<open>_values\<close> is the list that rendering consumes.\<close>

record variation =
  var_index :: nat
  var_type :: string
  var_values :: "string list"
  var_elementId :: string

text \<open>
  A variable table is a plain object (\<open>{}\<close>, or \<open>window.HomerVars\<close>): the map holds its own
  properties, and a key that is no own property is looked up in \<open>Object.prototype\<close>. Tables
  whose prototype has been replaced are outside the embedding.
\<close>

type_synonym vars = "string \<rightharpoonup> jsval"

definition object_prototype_keys :: "string list" where
  "object_prototype_keys =
     [''constructor'', ''__defineGetter__'', ''__defineSetter__'', ''hasOwnProperty'',
      ''__lookupGetter__'', ''__lookupSetter__'', ''isPrototypeOf'', ''propertyIsEnumerable'',
      ''toString'', ''valueOf'', ''__proto__'', ''toLocaleString'']"

text \<open>A read \<open>table[key]\<close>: \<open>undefined\<close> when the key is neither an own nor an inherited
  property.\<close>

definition read_var :: "vars \<Rightarrow> string \<Rightarrow> jsval" where
  "read_var m k =
     (case m k of
        Some v \<Rightarrow> v
      | None \<Rightarrow> if k \<in> set object_prototype_keys then JInherited k else JUndefined)"

text \<open>
  An assignment \<open>table[key] = value\<close>. For the key \<open>__proto__\<close> of a table without such an
  own property it calls the setter of \<open>Object.prototype\<close>, which creates no property: it
  ignores a value that is no object, and setting the prototype to \<open>Object.prototype\<close> changes
  nothing (setting it to \<open>null\<close> or to a function is outside the embedding).
\<close>

definition write_var :: "vars \<Rightarrow> string \<Rightarrow> jsval \<Rightarrow> vars" where
  "write_var m k v = (if k = ''__proto__'' \<and> m k = None then m else m(k \<mapsto> v))"

text \<open>
  The state of a \<open>HomerParser\<close> object together with the two static fields of the class:
  \<open>_globalVars\<close> is the very object \<open>HomerParser.globalVariables\<close>, and \<open>activeSubFlows\<close>
  holds the entries \<open>{flowId, nodeId}\<close>, the newest first. \<open>s_random\<close> lists the numbers that
  the coming calls of \<open>Math.random\<close> deliver: a call with \<open>n\<close> alternatives takes the next
  number \<open>r\<close> and selects index \<open>r mod n\<close>.
\<close>

record state =
  s_project :: project
  s_locale :: string
  s_selectedFlowId :: "string option"
  s_selectedNodeId :: "string option"
  s_globalVars :: vars
  s_localVars :: vars
  s_variations :: "variation list"
  s_isJumping :: bool
  s_activeSubFlows :: "(string option \<times> string) list"
  s_random :: "nat list"

text \<open>
  What the browser supplies: \<open>eval\<close> and the tag stripping of \<open>stripHtml\<close> (done there through
  a detached \<open>div\<close> element). \<open>h_eval\<close> receives the expression text and the two variable
  tables (\<open>Homer._globalVars\<close>, \<open>Homer._localVars\<close>) and returns the value with the updated
  tables, or \<open>None\<close> when the evaluation throws. Expressions are taken to read and write
  nothing but the two tables.
\<close>

record host =
  h_eval :: "string \<Rightarrow> vars \<Rightarrow> vars \<Rightarrow> (jsval \<times> vars \<times> vars) option"
  h_stripHtml :: "string \<Rightarrow> string"

datatype error = TypeError | EvalError | OutOfFuel

subsection \<open>References to nodes and elements\<close>

text \<open>
  Objects are shared by reference in the source. A node is addressed by the positions of
  its flow and of itself, an element by these and its own position; a label by its position
  in \<open>_labels\<close>.
\<close>

type_synonym nodeRef = "nat \<times> nat"
type_synonym elementRef = "nat \<times> nat \<times> nat"

datatype target = ElementRef elementRef | LabelRef nat

definition node_at :: "state \<Rightarrow> nodeRef \<Rightarrow> node" where
  "node_at s r = f_nodes (p_flows (s_project s) ! fst r) ! snd r"

definition element_at :: "state \<Rightarrow> elementRef \<Rightarrow> nodeElement" where
  "element_at s r = n_elements (node_at s (fst r, fst (snd r))) ! snd (snd r)"

definition update_node :: "nodeRef \<Rightarrow> (node \<Rightarrow> node) \<Rightarrow> state \<Rightarrow> state" where
  "update_node r g s =
     s\<lparr>s_project := (s_project s)\<lparr>p_flows :=
         (p_flows (s_project s))[fst r :=
            (p_flows (s_project s) ! fst r)\<lparr>f_nodes :=
               (f_nodes (p_flows (s_project s) ! fst r))[snd r := g (node_at s r)]\<rparr>]\<rparr>\<rparr>"

definition update_element :: "elementRef \<Rightarrow> (nodeElement \<Rightarrow> nodeElement) \<Rightarrow> state \<Rightarrow> state" where
  "update_element r g s =
     update_node (fst r, fst (snd r))
       (\<lambda>n. n\<lparr>n_elements := (n_elements n)[snd (snd r) := g (n_elements n ! snd (snd r))]\<rparr>) s"

definition target_contents :: "state \<Rightarrow> target \<Rightarrow> localizedContent list" where
  "target_contents s t =
     (case t of
        ElementRef r \<Rightarrow> e_localizedContents (element_at s r)
      | LabelRef i \<Rightarrow> l_localizedContents (p_labels (s_project s) ! i))"

definition update_target_contents ::
  "target \<Rightarrow> (localizedContent list \<Rightarrow> localizedContent list) \<Rightarrow> state \<Rightarrow> state" where
  "update_target_contents t g s =
     (case t of
        ElementRef r \<Rightarrow>
          update_element r (\<lambda>e. e\<lparr>e_localizedContents := g (e_localizedContents e)\<rparr>) s
      | LabelRef i \<Rightarrow>
          s\<lparr>s_project := (s_project s)\<lparr>p_labels :=
              (p_labels (s_project s))[i :=
                 (p_labels (s_project s) ! i)\<lparr>l_localizedContents :=
                    g (l_localizedContents (p_labels (s_project s) ! i))\<rparr>]\<rparr>\<rparr>)"

text \<open>The \<open>_nodeId\<close> of the object: a label has none (\<open>undefined\<close>).\<close>

definition target_nodeId :: "state \<Rightarrow> target \<Rightarrow> string option" where
  "target_nodeId s t =
     (case t of ElementRef r \<Rightarrow> Some (e_nodeId (element_at s r)) | LabelRef i \<Rightarrow> None)"

text \<open>A loop \<open>forEach(x => { if (P x) found = x })\<close>: the last position that satisfies \<open>P\<close>.\<close>

fun find_last_from :: "('a \<Rightarrow> bool) \<Rightarrow> 'a list \<Rightarrow> nat \<Rightarrow> nat option \<Rightarrow> nat option" where
  "find_last_from P [] i found = found"
| "find_last_from P (x # xs) i found = find_last_from P xs (Suc i) (if P x then Some i else found)"

definition find_last :: "('a \<Rightarrow> bool) \<Rightarrow> 'a list \<Rightarrow> nat option" where
  "find_last P xs = find_last_from P xs 0 None"

text \<open>A string or \<open>null\<close> used as a condition.\<close>

fun is_set :: "string option \<Rightarrow> bool" where
  "is_set None = False"
| "is_set (Some x) = (x \<noteq> [])"

section \<open>Flows and nodes\<close>

definition getFlow :: "state \<Rightarrow> string \<Rightarrow> nat option" where
  "getFlow s flow_identifier =
     (case find_last (\<lambda>f. f_id f = flow_identifier) (p_flows (s_project s)) of
        Some i \<Rightarrow> Some i
      | None \<Rightarrow>
          (case find_last (\<lambda>f. f_name f = flow_identifier) (p_flows (s_project s)) of
             Some i \<Rightarrow> Some i
           | None \<Rightarrow> find_last (\<lambda>f. f_slug f = flow_identifier) (p_flows (s_project s))))"

definition getSelectedFlow :: "state \<Rightarrow> nat option" where
  "getSelectedFlow s =
     find_last (\<lambda>f. Some (f_id f) = s_selectedFlowId s) (p_flows (s_project s))"

text \<open>\<open>getNode(nodeId = null, flowId = null)\<close>; \<open>flow._nodes\<close> of a missing flow throws.\<close>

definition getNode :: "state \<Rightarrow> string option \<Rightarrow> string option \<Rightarrow> error + nodeRef option" where
  "getNode s nodeId flowId =
     (let nodeId' = (if is_set nodeId then nodeId else s_selectedNodeId s);
          flow = (if is_set flowId then getFlow s (the flowId) else getSelectedFlow s)
      in case flow of
           None \<Rightarrow> Inl TypeError
         | Some fi \<Rightarrow>
             Inr (case nodeId' of
                    None \<Rightarrow> None
                  | Some nid \<Rightarrow>
                      map_option (\<lambda>ni. (fi, ni))
                        (find_last (\<lambda>n. n_id n = nid) (f_nodes (p_flows (s_project s) ! fi)))))"

definition getNodesByType :: "state \<Rightarrow> nodeType \<Rightarrow> error + nodeRef list" where
  "getNodesByType s ty =
     (case getSelectedFlow s of
        None \<Rightarrow> Inl TypeError
      | Some fi \<Rightarrow>
          Inr (map (\<lambda>ni. (fi, ni))
                 (filter (\<lambda>ni. n_type (f_nodes (p_flows (s_project s) ! fi) ! ni) = ty)
                    [0 ..< length (f_nodes (p_flows (s_project s) ! fi))])))"

definition nodeExists :: "state \<Rightarrow> string \<Rightarrow> string option \<Rightarrow> bool" where
  "nodeExists s nodeId flowId =
     (case (if is_set flowId then getFlow s (the flowId) else getSelectedFlow s) of
        None \<Rightarrow> False
      | Some fi \<Rightarrow> filter (\<lambda>n. n_id n = nodeId) (f_nodes (p_flows (s_project s) ! fi)) \<noteq> [])"


section \<open>Localized content\<close>

text \<open>
  \<open>getLocalizedContent(nodeElement, localeCode)\<close> for an object that is not \<open>null\<close>. The result
  is the position of the returned content object in \<open>_localizedContents\<close>, \<open>None\<close> for
  \<open>null\<close>. The function calls itself for the main locale; the depth of these calls is
  bounded by the first argument. Both tests for "the main locale is different" are written
  \<open>!Homer._project._mainLocale._code === localeCode\<close> in the source.
\<close>

definition main_locale_differs :: "state \<Rightarrow> string \<Rightarrow> bool" where
  "main_locale_differs s localeCode =
     strict_eq (js_not (JStr (p_mainLocale (s_project s)))) (JStr localeCode)"

definition set_notTranslated :: "target \<Rightarrow> nat \<Rightarrow> bool \<Rightarrow> state \<Rightarrow> state" where
  "set_notTranslated t i b s =
     update_target_contents t (\<lambda>cs. cs[i := (cs ! i)\<lparr>lc_notTranslated := Some b\<rparr>]) s"

fun localizedContents_forEach ::
  "(state \<Rightarrow> error + (nat option \<times> state)) \<Rightarrow> target \<Rightarrow> string \<Rightarrow> nat list \<Rightarrow> nat option
     \<Rightarrow> state \<Rightarrow> error + (nat option \<times> state)" where
  "localizedContents_forEach retry t localeCode [] content s = Inr (content, s)"
| "localizedContents_forEach retry t localeCode (i # is) content s =
     (if lc_localeCode (target_contents s t ! i) = localeCode then
        (if lc_text (target_contents s t ! i) = [] \<and> main_locale_differs s localeCode then
           (case retry s of
              Inl e \<Rightarrow> Inl e
            | Inr (None, s') \<Rightarrow> Inl TypeError
            | Inr (Some j, s') \<Rightarrow>
                localizedContents_forEach retry t localeCode is (Some j)
                  (set_notTranslated t j True s'))
         else localizedContents_forEach retry t localeCode is (Some i)
                (set_notTranslated t i False s))
      else localizedContents_forEach retry t localeCode is content s)"

fun getLocalizedContent_depth ::
  "nat \<Rightarrow> state \<Rightarrow> target \<Rightarrow> string \<Rightarrow> error + (nat option \<times> state)" where
  "getLocalizedContent_depth 0 s t localeCode = Inl OutOfFuel"
| "getLocalizedContent_depth (Suc k) s t localeCode =
     (case getNode s (target_nodeId s t) None of
        Inl e \<Rightarrow> Inl e
      | Inr node \<Rightarrow>
          if node \<noteq> None \<and> \<not> n_translatable (node_at s (the node))
             \<and> main_locale_differs s localeCode
          then getLocalizedContent_depth k s t (p_mainLocale (s_project s))
          else localizedContents_forEach
                 (\<lambda>s'. getLocalizedContent_depth k s' t (p_mainLocale (s_project s')))
                 t localeCode [0 ..< length (target_contents s t)] None s)"

text \<open>One nested call is what the fallback to the main locale needs.\<close>

definition getLocalizedContent :: "state \<Rightarrow> target \<Rightarrow> string \<Rightarrow> error + (nat option \<times> state)" where
  "getLocalizedContent s t localeCode = getLocalizedContent_depth 2 s t localeCode"

text \<open>The two loops that turn \<open>$name\<close> and \<open>%name\<close> into reads of the variable tables: with
  \<open>replace\<close> (first occurrence) and with \<open>replaceAll\<close>.\<close>

definition global_path :: "string \<Rightarrow> string" where
  "global_path v = ''Homer._globalVars.'' @ replace_first ''$'' [] v"

definition local_path :: "string \<Rightarrow> string" where
  "local_path v = ''Homer._localVars.'' @ replace_first ''%'' [] v"

text \<open>\<open>getOriginalText(element, cleaned, resolveVariables, localeCode)\<close>\<close>

definition getOriginalText ::
  "host \<Rightarrow> state \<Rightarrow> target \<Rightarrow> bool \<Rightarrow> bool \<Rightarrow> string \<Rightarrow> error + (string \<times> state)" where
  "getOriginalText h s t cleaned resolveVariables localeCode =
     (case getLocalizedContent s t localeCode of
        Inl e \<Rightarrow> Inl e
      | Inr (None, s') \<Rightarrow> Inl TypeError
      | Inr (Some i, s') \<Rightarrow>
          (let contentText = lc_text (target_contents s' t ! i);
               contentText = (if cleaned then h_stripHtml h contentText else contentText);
               contentText =
                 (if resolveVariables then
                    (let contentText =
                           fold (\<lambda>v. replace_first v (global_path v))
                             (findGlobalVariables contentText) contentText
                     in fold (\<lambda>v. replace_first v (local_path v))
                          (findLocalVariables contentText) contentText)
                  else contentText)
           in Inr (contentText, s')))"

text \<open>\<open>getLabel(key, locale)\<close>: \<open>None\<close> is the result \<open>null\<close> for an unknown key.\<close>

definition getLabel :: "state \<Rightarrow> string \<Rightarrow> string \<Rightarrow> error + (string option \<times> state)" where
  "getLabel s key loc =
     (case find_last (\<lambda>l. l_key l = key) (p_labels (s_project s)) of
        None \<Rightarrow> Inr (None, s)
      | Some li \<Rightarrow>
          (case getLocalizedContent s (LabelRef li) loc of
             Inl e \<Rightarrow> Inl e
           | Inr (None, s') \<Rightarrow> Inl TypeError
           | Inr (Some i, s') \<Rightarrow> Inr (Some (lc_text (target_contents s' (LabelRef li) ! i)), s')))"


section \<open>Variations\<close>

text \<open>The positions in \<open>_variations\<close> of the entries of an element (\<open>getElementVariations\<close>).\<close>

definition getElementVariations :: "state \<Rightarrow> string \<Rightarrow> nat list" where
  "getElementVariations s elementId =
     filter (\<lambda>i. var_elementId (s_variations s ! i) = elementId) [0 ..< length (s_variations s)]"

text \<open>The type and the values written in a block \<open>[[TYPE a|b|c]]\<close>, as both
  \<open>InitializeVariations\<close> and \<open>parsedText\<close> compute them.\<close>

definition variation_body :: "string \<Rightarrow> string" where
  "variation_body variation =
     replace_lit False '' | '' ''|''
       (trim (replace_lit False '']]'' [] (replace_lit False ''[['' [] variation)))"

definition variation_type :: "string \<Rightarrow> string" where
  "variation_type variation = trim (hd (split '' '' (variation_body variation)))"

definition variation_values :: "string \<Rightarrow> string list" where
  "variation_values variation =
     split ''|'' (replace_first (variation_type variation) [] (variation_body variation))"

text \<open>\<open>Math.floor(Math.random() * n)\<close>\<close>

definition random_index :: "nat \<Rightarrow> state \<Rightarrow> nat \<times> state" where
  "random_index n s =
     (case s_random s of
        [] \<Rightarrow> (0, s)
      | r # rs \<Rightarrow> ((if n = 0 then 0 else r mod n), s\<lparr>s_random := rs\<rparr>))"

text \<open>
  The \<open>switch\<close> on the type of the persisted variation: the content (\<open>None\<close> is \<open>undefined\<close>), the
  persisted variation afterwards and the state (for the random numbers consumed).
\<close>

definition nextVariationContent ::
  "variation \<Rightarrow> string list \<Rightarrow> state \<Rightarrow> string option \<times> variation \<times> state" where
  "nextVariationContent pv variations s =
     (if var_type pv = ''LIST'' then
        (case var_values pv of
           [] \<Rightarrow> (Some (last variations), pv, s)
         | x # xs \<Rightarrow> (Some (if x = [] then last variations else x), pv\<lparr>var_values := xs\<rparr>, s))
      else if var_type pv = ''LOOP'' then
        (case var_values pv of
           [] \<Rightarrow> (None, pv\<lparr>var_values := variations\<rparr>, s)
         | x # xs \<Rightarrow> (Some x, pv\<lparr>var_values := (if xs = [] then variations else xs)\<rparr>, s))
      else if var_type pv = ''RND'' then
        (let (rnd, s') = random_index (length variations) s
         in (Some (variations ! rnd), pv, s'))
      else if var_type pv = ''SRND'' then
        (let (srnd, s') = random_index (length (var_values pv)) s;
             rest = take srnd (var_values pv) @ drop (Suc srnd) (var_values pv)
         in ((if srnd < length (var_values pv) then Some (var_values pv ! srnd) else None),
             pv\<lparr>var_values := (if rest = [] then variations else rest)\<rparr>, s'))
      else (Some [], pv, s))"

fun content_to_string :: "string option \<Rightarrow> string" where
  "content_to_string None = ''undefined''"
| "content_to_string (Some x) = x"

text \<open>The loop over the variation blocks of \<open>parsedText\<close>; \<open>idx\<close> counts the blocks. A block
  without persisted variation throws (\<open>persistedVariation._type\<close> of \<open>undefined\<close>).\<close>

fun variations_forEach ::
  "string \<Rightarrow> string list \<Rightarrow> nat \<Rightarrow> string \<Rightarrow> state \<Rightarrow> error + (string \<times> state)" where
  "variations_forEach elementId [] idx output s = Inr (output, s)"
| "variations_forEach elementId (variation # rest) idx output s =
     (let elementVariations = getElementVariations s elementId
      in if idx < length elementVariations then
           (let pos = elementVariations ! idx;
                (variationContent, pv, s1) =
                   nextVariationContent (s_variations s ! pos) (variation_values variation) s;
                s2 = s1\<lparr>s_variations := (s_variations s1)[pos := pv]\<rparr>
            in variations_forEach elementId rest (Suc idx)
                 (replace_all variation
                    (''<variation>'' @ content_to_string variationContent @ ''</variation>'') output)
                 s2)
         else Inl TypeError)"

section \<open>Rendering a text\<close>

text \<open>\<open>eval\<close> inside \<open>try\<close>: the value, or \<open>None\<close> when it throws (the state is then as before).\<close>

definition try_eval :: "host \<Rightarrow> string \<Rightarrow> state \<Rightarrow> jsval option \<times> state" where
  "try_eval h str s =
     (case h_eval h str (s_globalVars s) (s_localVars s) of
        None \<Rightarrow> (None, s)
      | Some (v, g, l) \<Rightarrow> (Some v, s\<lparr>s_globalVars := g, s_localVars := l\<rparr>))"

fun nth_opt :: "'a list \<Rightarrow> nat \<Rightarrow> 'a option" where
  "nth_opt [] i = None"
| "nth_opt (x # xs) 0 = Some x"
| "nth_opt (x # xs) (Suc i) = nth_opt xs i"

text \<open>The expression text of an inline conditional.\<close>

definition conditional_expression :: "string \<Rightarrow> string" where
  "conditional_expression condition =
     sanitizeVariables
       (fold (\<lambda>v. replace_all v (local_path v)) (findLocalVariables condition)
          (fold (\<lambda>v. replace_all v (global_path v)) (findGlobalVariables condition)
             (getTextWithoutTags condition)))"

text \<open>The loop over the blocks \<open>[IF cond ? "a" : "b"]\<close>. A block without question mark
  throws (\<open>split("?")[1]\<close> is \<open>undefined\<close>), and so does a condition with a value when no quoted
  result is there (\<open>possibleResults\<close> is \<open>null\<close>).\<close>

fun conditionals_forEach ::
  "host \<Rightarrow> string list \<Rightarrow> string \<Rightarrow> state \<Rightarrow> error + (string \<times> state)" where
  "conditionals_forEach h [] output s = Inr (output, s)"
| "conditionals_forEach h (conditionalInsideText # rest) output s =
     (case split ''?'' conditionalInsideText of
        [] \<Rightarrow> Inl TypeError
      | [p] \<Rightarrow> Inl TypeError
      | p # q # ps \<Rightarrow>
          (let condition = trim (replace_first ''[IF '' [] p);
               possibleResults = resultRegEx (replace_first '']'' [] q);
               (result, s1) = try_eval h (conditional_expression condition) s
           in if (case result of None \<Rightarrow> False | Some v \<Rightarrow> not_nullish v) \<and> possibleResults = []
              then Inl TypeError
              else
                (let print =
                       (case result of
                          None \<Rightarrow> Some '' --ERROR-- ''
                        | Some v \<Rightarrow>
                            if not_nullish v
                            then (if truthy v then nth_opt possibleResults 0
                                  else nth_opt possibleResults 1)
                            else Some '' --ERROR-- '');
                     print' =
                       (case print of
                          None \<Rightarrow> '' --ERROR-- ''
                        | Some x \<Rightarrow> replace_lit False [CHR 0x22] [] x)
                 in conditionals_forEach h rest
                      (replace_all conditionalInsideText print' output) s1)))"

text \<open>The loop over the blocks \<open>{expr}\<close>.\<close>

definition strip_braces :: "string \<Rightarrow> string" where
  "strip_braces x = replace_first ''}'' [] (replace_first ''{'' [] x)"

fun variableBlocks_forEach ::
  "host \<Rightarrow> nodeType \<Rightarrow> bool \<Rightarrow> string list \<Rightarrow> string \<Rightarrow> state \<Rightarrow> string \<times> state" where
  "variableBlocks_forEach h ty force_eval [] output s = (output, s)"
| "variableBlocks_forEach h ty force_eval (block # rest) output s =
     (let variableBlock = h_stripHtml h block;
          globalVariables = findGlobalVariables variableBlock;
          localVariables = findLocalVariables variableBlock
      in if globalVariables \<noteq> [] \<or> localVariables \<noteq> [] then
           (let tmpString =
                  fold (\<lambda>v. replace_first v (local_path v)) localVariables
                    (fold (\<lambda>v. replace_first v (global_path v)) globalVariables
                       (strip_braces variableBlock));
                (evaluated, s1) =
                  (if force_eval \<or> ty \<noteq> NodeType_choices
                      \<or> (ty = NodeType_choices \<and> \<not> contains ''='' tmpString)
                   then (case try_eval h tmpString s of
                           (None, s') \<Rightarrow> (JStr ''--error--'', s')
                         | (Some v, s') \<Rightarrow> (v, s'))
                   else (JStr ''--error--'', s))
            in if (globalVariables \<noteq> [] \<and> trim (strip_braces variableBlock) = hd globalVariables)
                  \<or> (localVariables \<noteq> [] \<and> trim (strip_braces variableBlock) = hd localVariables)
               then variableBlocks_forEach h ty force_eval rest
                      (replace_first block (to_string evaluated) output) s1
               else variableBlocks_forEach h ty force_eval rest (replace_first block [] output) s1)
         else variableBlocks_forEach h ty force_eval rest output s)"

text \<open>\<open>parsedText(element, force_eval)\<close> for an element that is not \<open>null\<close>.\<close>

definition parsedText_element ::
  "host \<Rightarrow> state \<Rightarrow> elementRef \<Rightarrow> bool \<Rightarrow> error + (string \<times> state)" where
  "parsedText_element h s r force_eval =
     (case getLocalizedContent s (ElementRef r) (s_locale s) of
        Inl e \<Rightarrow> Inl e
      | Inr (None, s0) \<Rightarrow> Inl TypeError
      | Inr (Some i, s0) \<Rightarrow>
          (let content = lc_text (e_localizedContents (element_at s0 r) ! i)
           in case variations_forEach (e_id (element_at s0 r)) (variationsRegExp content) 0 content s0 of
                Inl e \<Rightarrow> Inl e
              | Inr (output1, s1) \<Rightarrow>
                  (case conditionals_forEach h (conditionalInsideTextRegExp content) output1 s1 of
                     Inl e \<Rightarrow> Inl e
                   | Inr (output2, s2) \<Rightarrow>
                       (let output3 = fold (\<lambda>todo. replace_all todo []) (todoRegExp content) output2;
                            s3 = (if justOnceRegExp content \<noteq> []
                                  then update_element r (\<lambda>e. e\<lparr>e_justOnce := True\<rparr>) s2 else s2);
                            output4 = fold (\<lambda>b. replace_all b []) (justOnceRegExp content) output3;
                            s4 = (if ifNoMoreRegExp content \<noteq> []
                                  then update_element r (\<lambda>e. e\<lparr>e_ifNoMore := True\<rparr>) s3 else s3);
                            output5 = fold (\<lambda>b. replace_all b []) (ifNoMoreRegExp content) output4;
                            ty = e_type (element_at s4 r);
                            variableBlocks =
                              (if variableRegExp output5 = []
                                  \<and> (ty = NodeType_condition \<or> ty = NodeType_variables)
                               then [output5] else variableRegExp output5);
                            (output6, s6) = variableBlocks_forEach h ty force_eval variableBlocks output5 s4
                        in Inr (trim (strip_outer_br (trim (replace_lit False ''&nbsp;'' '' '' output6))),
                                s6)))))"

definition parsedText ::
  "host \<Rightarrow> state \<Rightarrow> elementRef option \<Rightarrow> bool \<Rightarrow> error + (string \<times> state)" where
  "parsedText h s element force_eval =
     (case element of
        None \<Rightarrow> Inr ([], s)
      | Some r \<Rightarrow> parsedText_element h s r force_eval)"


section \<open>Selecting an element of a node\<close>

definition unvisited :: "nodeElement list \<Rightarrow> nat list" where
  "unvisited es = filter (\<lambda>i. \<not> e_visited (es ! i)) [0 ..< length es]"

definition set_visited :: "bool \<Rightarrow> nat \<Rightarrow> nodeElement list \<Rightarrow> nodeElement list" where
  "set_visited b i es = es[i := (es ! i)\<lparr>e_visited := b\<rparr>]"

definition reset_visited :: "nodeElement list \<Rightarrow> nodeElement list" where
  "reset_visited es = map (\<lambda>e. e\<lparr>e_visited := False\<rparr>) es"

text \<open>
  The \<open>switch\<close> of \<open>getAvailableNodeElement\<close> on the elements of the node: the position of the
  selected element (\<open>None\<close> for \<open>null\<close>) and the elements afterwards. Selecting in a node
  without elements throws (\<open>element._visited\<close> of \<open>undefined\<close>).
\<close>

definition availableNodeElement ::
  "nodeType \<Rightarrow> cycleType \<Rightarrow> nodeElement list \<Rightarrow> state
     \<Rightarrow> error + (nat option \<times> nodeElement list \<times> state)" where
  "availableNodeElement ty cycle es s =
     (let availableElements = unvisited es
      in if ty = NodeType_text then
           (case cycle of
              CycleType_list \<Rightarrow>
                (if es = [] then Inl TypeError
                 else (let i = (if availableElements \<noteq> [] then hd availableElements
                                else length es - 1)
                       in Inr (Some i, set_visited True i es, s)))
            | CycleType_smartRandom \<Rightarrow>
                (let es' = (if availableElements = [] then reset_visited es else es);
                     candidates = (if availableElements \<noteq> [] then availableElements
                                   else [0 ..< length es]);
                     (sRnd, s') = (if length candidates > 1
                                   then random_index (length candidates) s else (0, s))
                 in if candidates = [] then Inl TypeError
                    else Inr (Some (candidates ! sRnd), set_visited True (candidates ! sRnd) es', s'))
            | CycleType_random \<Rightarrow>
                (let (rnd, s') = (if length es > 1 then random_index (length es) s else (0, s))
                 in if es = [] then Inl TypeError
                    else Inr (Some rnd, set_visited True rnd es, s'))
            | CycleType_loop \<Rightarrow>
                (let es' = (if availableElements = [] then reset_visited es else es);
                     candidates = (if availableElements \<noteq> [] then availableElements
                                   else [0 ..< length es])
                 in if candidates = [] then Inl TypeError
                    else Inr (Some (hd candidates), set_visited True (hd candidates) es', s))
            | CycleType_none \<Rightarrow> Inr (None, es, s))
         else Inr (None, es, s))"

text \<open>\<open>getAvailableNodeElement(nodeId = null)\<close>\<close>

definition getAvailableNodeElement ::
  "state \<Rightarrow> string option \<Rightarrow> error + (elementRef option \<times> state)" where
  "getAvailableNodeElement s nodeId =
     (case getNode s nodeId None of
        Inl e \<Rightarrow> Inl e
      | Inr None \<Rightarrow> Inl TypeError
      | Inr (Some nr) \<Rightarrow>
          (case availableNodeElement (n_type (node_at s nr)) (n_cycleType (node_at s nr))
                  (n_elements (node_at s nr)) s of
             Inl e \<Rightarrow> Inl e
           | Inr (element, es, s') \<Rightarrow>
               Inr (map_option (\<lambda>i. (fst nr, snd nr, i)) element,
                    update_node nr (\<lambda>n. n\<lparr>n_elements := es\<rparr>) s')))"

text \<open>\<open>getNodeElement(nodeId, elementId)\<close>: the first element with that id.\<close>

definition getNodeElement ::
  "state \<Rightarrow> string \<Rightarrow> string option \<Rightarrow> error + elementRef option" where
  "getNodeElement s nodeId elementId =
     (case getNode s (Some nodeId) None of
        Inl e \<Rightarrow> Inl e
      | Inr None \<Rightarrow> Inl TypeError
      | Inr (Some nr) \<Rightarrow>
          (case filter (\<lambda>i. Some (e_id (n_elements (node_at s nr) ! i)) = elementId)
                  [0 ..< length (n_elements (node_at s nr))] of
             [] \<Rightarrow> Inr None
           | i # is \<Rightarrow> Inr (Some (fst nr, snd nr, i))))"

text \<open>\<open>getParsedText(element = null, force_eval = false)\<close>\<close>

definition getParsedText ::
  "host \<Rightarrow> state \<Rightarrow> elementRef option \<Rightarrow> bool \<Rightarrow> error + (string \<times> state)" where
  "getParsedText h s element force_eval =
     (case (case element of
              Some r \<Rightarrow> Inr (Some r, s)
            | None \<Rightarrow> getAvailableNodeElement s None) of
        Inl e \<Rightarrow> Inl e
      | Inr (element', s1) \<Rightarrow>
          (case parsedText h s1 element' force_eval of
             Inl e \<Rightarrow> Inl e
           | Inr (parsed, s2) \<Rightarrow> Inr (strip_br_runs parsed, s2)))"

section \<open>Choices\<close>

text \<open>The callback of the \<open>filter\<close> in \<open>getAvailableChoices\<close>: whether the element is kept,
  and the state afterwards.\<close>

definition availableChoices_callback ::
  "host \<Rightarrow> elementRef \<Rightarrow> state \<Rightarrow> error + (bool \<times> state)" where
  "availableChoices_callback h r s =
     (case getOriginalText h s (ElementRef r) False False (s_locale s) of
        Inl e \<Rightarrow> Inl e
      | Inr (content, s1) \<Rightarrow>
          (case (if e_type (element_at s1 r) = NodeType_text
                    \<or> e_type (element_at s1 r) = NodeType_choices
                 then (case parsedText h s1 (Some r) False of
                         Inl e \<Rightarrow> Inl e
                       | Inr (txt, s2) \<Rightarrow>
                           Inr (if txt = [] \<and> \<not> e_visited (element_at s2 r)
                                then update_element r
                                       (\<lambda>e. e\<lparr>e_visited := True, e_wasHiddenBecauseEmpty := True\<rparr>) s2
                                else if e_wasHiddenBecauseEmpty (element_at s2 r) \<and> txt \<noteq> []
                                then update_element r
                                       (\<lambda>e. e\<lparr>e_visited := False, e_wasHiddenBecauseEmpty := False\<rparr>) s2
                                else s2))
                 else Inr s1) of
             Inl e \<Rightarrow> Inl e
           | Inr s3 \<Rightarrow>
               (let s4 = (if ifNoMoreRegExp content \<noteq> []
                          then update_element r (\<lambda>e. e\<lparr>e_ifNoMore := True, e_visited := True\<rparr>) s3
                          else s3)
                in Inr (\<not> e_visited (element_at s4 r), s4))))"

text \<open>The \<open>filter\<close> over the elements of the node, in order: the positions kept and the state
  afterwards.\<close>

fun availableChoices_filter ::
  "host \<Rightarrow> nodeRef \<Rightarrow> nat list \<Rightarrow> state \<Rightarrow> error + (nat list \<times> state)" where
  "availableChoices_filter h nr [] s = Inr ([], s)"
| "availableChoices_filter h nr (i # is) s =
     (case availableChoices_callback h (fst nr, snd nr, i) s of
        Inl e \<Rightarrow> Inl e
      | Inr (keep, s1) \<Rightarrow>
          (case availableChoices_filter h nr is s1 of
             Inl e \<Rightarrow> Inl e
           | Inr (kept, s') \<Rightarrow> Inr ((if keep then [i] else []) @ kept, s')))"

text \<open>\<open>getAvailableChoices(nodeId)\<close>: the positions of the returned elements in the node.\<close>

definition getAvailableChoices ::
  "host \<Rightarrow> state \<Rightarrow> string option \<Rightarrow> error + (elementRef list \<times> state)" where
  "getAvailableChoices h s nodeId =
     (case getNode s nodeId None of
        Inl e \<Rightarrow> Inl e
      | Inr None \<Rightarrow> Inl TypeError
      | Inr (Some nr) \<Rightarrow>
          (case availableChoices_filter h nr [0 ..< length (n_elements (node_at s nr))] s of
             Inl e \<Rightarrow> Inl e
           | Inr (availableElements, s') \<Rightarrow>
               Inr (map (\<lambda>i. (fst nr, snd nr, i))
                      (if availableElements = []
                       then filter (\<lambda>i. e_ifNoMore (n_elements (node_at s' nr) ! i))
                              [0 ..< length (n_elements (node_at s' nr))]
                       else availableElements),
                    s')))"


section \<open>Connections\<close>

definition getConnectionsByElementId :: "node \<Rightarrow> string option \<Rightarrow> connection option" where
  "getConnectionsByElementId n nodeElementId =
     map_option (\<lambda>i. n_connections n ! i)
       (find_last (\<lambda>c. nodeElementId \<noteq> None \<and> c_nodeElementId c = nodeElementId) (n_connections n))"

definition getFailedConnection :: "node \<Rightarrow> connection option" where
  "getFailedConnection n =
     map_option (\<lambda>i. n_connections n ! i)
       (find_last (\<lambda>c. c_type c = NodeType_failCondition) (n_connections n))"

text \<open>
  What \<open>getAvailableConnections\<close> returns: a connection, \<open>null\<close> or \<open>undefined\<close>
  (\<open>NoConnection\<close>), or the empty array that the sub-flow case leaves in the variable when
  the node has no connection of type \<open>SubFlow\<close>.
\<close>

datatype available = Connection connection | NoConnection | EmptyArray

fun of_option :: "connection option \<Rightarrow> available" where
  "of_option None = NoConnection"
| "of_option (Some c) = Connection c"

text \<open>The loop of the condition case: every element is evaluated, in order; an exception
  of \<open>eval\<close> is not caught here.\<close>

fun condition_forEach ::
  "host \<Rightarrow> nodeRef \<Rightarrow> nat list \<Rightarrow> connection option \<Rightarrow> state
     \<Rightarrow> error + (connection option \<times> state)" where
  "condition_forEach h nr [] availableConnection s = Inr (availableConnection, s)"
| "condition_forEach h nr (i # is) availableConnection s =
     (case getOriginalText h s (ElementRef (fst nr, snd nr, i)) True True (s_locale s) of
        Inl e \<Rightarrow> Inl e
      | Inr (condition, s1) \<Rightarrow>
          (case h_eval h condition (s_globalVars s1) (s_localVars s1) of
             None \<Rightarrow> Inl EvalError
           | Some (result, g, l) \<Rightarrow>
               condition_forEach h nr is
                 (if truthy result \<and> availableConnection = None
                  then getConnectionsByElementId (node_at s1 nr)
                         (Some (e_id (element_at s1 (fst nr, snd nr, i))))
                  else availableConnection)
                 (s1\<lparr>s_globalVars := g, s_localVars := l\<rparr>)))"

text \<open>The loop of the variables case: every element is rendered for its effects.\<close>

fun variables_forEach :: "host \<Rightarrow> nodeRef \<Rightarrow> nat list \<Rightarrow> state \<Rightarrow> error + state" where
  "variables_forEach h nr [] s = Inr s"
| "variables_forEach h nr (i # is) s =
     (case parsedText h s (Some (fst nr, snd nr, i)) False of
        Inl e \<Rightarrow> Inl e
      | Inr (txt, s1) \<Rightarrow> variables_forEach h nr is s1)"

text \<open>The sequence case, by cycle type.\<close>

definition sequenceConnection ::
  "node \<Rightarrow> state \<Rightarrow> error + (connection option \<times> nodeElement list \<times> state)" where
  "sequenceConnection n s =
     (let es = n_elements n; availableElements = unvisited es
      in case n_cycleType n of
           CycleType_list \<Rightarrow>
             (case availableElements of
                i # is \<Rightarrow>
                  Inr (getConnectionsByElementId n (Some (e_id (es ! i))), set_visited True i es, s)
              | [] \<Rightarrow>
                  (case getFailedConnection n of
                     Some c \<Rightarrow> Inr (Some c, es, s)
                   | None \<Rightarrow>
                       if es = [] then Inl TypeError
                       else Inr (getConnectionsByElementId n (Some (e_id (last es))), es, s)))
         | CycleType_loop \<Rightarrow>
             (case availableElements of
                i # is \<Rightarrow>
                  Inr (getConnectionsByElementId n (Some (e_id (es ! i))), set_visited True i es, s)
              | [] \<Rightarrow>
                  Inr ((if es = [] then None
                        else getConnectionsByElementId n (Some (e_id (hd es)))),
                       reset_visited es, s))
         | CycleType_random \<Rightarrow>
             (let (rnd, s') = random_index (length es) s
              in if es = [] then Inl TypeError
                 else Inr (getConnectionsByElementId n (Some (e_id (es ! rnd))), es, s'))
         | CycleType_smartRandom \<Rightarrow>
             (if availableElements = [] \<and> getFailedConnection n \<noteq> None
              then Inr (getFailedConnection n, es, s)
              else
                (let es' = (if availableElements = [] then reset_visited es else es);
                     candidates = (if availableElements = [] then [0 ..< length es]
                                   else availableElements);
                     (sRnd, s') = (if length candidates > 1
                                   then random_index (length candidates) s else (0, s))
                 in if candidates = [] then Inl TypeError
                    else Inr (getConnectionsByElementId n (Some (e_id (es ! (candidates ! sRnd)))),
                              es', s')))
         | CycleType_none \<Rightarrow> Inr (None, es, s))"

text \<open>\<open>getAvailableConnections(elementId = null)\<close>, for the selected node.\<close>

definition getAvailableConnections ::
  "host \<Rightarrow> state \<Rightarrow> string option \<Rightarrow> error + (available \<times> state)" where
  "getAvailableConnections h s elementId =
     (case getNode s None None of
        Inl e \<Rightarrow> Inl e
      | Inr None \<Rightarrow> Inl TypeError
      | Inr (Some nr) \<Rightarrow>
          (let n = node_at s nr
           in if n_type n = NodeType_start \<or> n_type n = NodeType_text
                 \<or> n_type n = NodeType_note \<or> n_type n = NodeType_layout then
                Inr (of_option (nth_opt (n_connections n) 0), s)
              else if n_type n = NodeType_subFlow then
                (if n_connections n \<noteq> [] then
                   (if filter (\<lambda>sf. snd sf = n_id n) (s_activeSubFlows s) = [] then
                      (case filter (\<lambda>c. c_type c = NodeType_subFlow) (n_connections n) of
                         [] \<Rightarrow> Inr (EmptyArray, s)
                       | c # cs \<Rightarrow>
                           Inr (Connection c,
                                s\<lparr>s_activeSubFlows :=
                                     (s_selectedFlowId s, n_id n) # s_activeSubFlows s\<rparr>))
                    else
                      Inr (of_option
                             (nth_opt (filter (\<lambda>c. c_type c \<noteq> NodeType_subFlow) (n_connections n)) 0),
                           s\<lparr>s_activeSubFlows := tl (s_activeSubFlows s)\<rparr>))
                 else Inr (NoConnection, s))
              else if n_type n = NodeType_choices then
                Inr (of_option (getConnectionsByElementId n elementId), s)
              else if n_type n = NodeType_condition then
                (case condition_forEach h nr [0 ..< length (n_elements n)] None s of
                   Inl e \<Rightarrow> Inl e
                 | Inr (Some c, s') \<Rightarrow> Inr (Connection c, s')
                 | Inr (None, s') \<Rightarrow> Inr (of_option (getFailedConnection (node_at s' nr)), s'))
              else if n_type n = NodeType_variables then
                (case variables_forEach h nr [0 ..< length (n_elements n)] s of
                   Inl e \<Rightarrow> Inl e
                 | Inr s' \<Rightarrow> Inr (of_option (nth_opt (n_connections n) 0), s'))
              else if n_type n = NodeType_random then
                (let (rnd, s') = random_index (length (n_connections n)) s
                 in Inr (of_option (nth_opt (n_connections n) rnd), s'))
              else if n_type n = NodeType_sequence then
                (case sequenceConnection n s of
                   Inl e \<Rightarrow> Inl e
                 | Inr (c, es, s') \<Rightarrow>
                     Inr (of_option c, update_node nr (\<lambda>n. n\<lparr>n_elements := es\<rparr>) s'))
              else if n_type n = NodeType_jumpToNode then
                (case n_jumpTo n of
                   None \<Rightarrow> Inl TypeError
                 | Some (flowId, nodeId) \<Rightarrow>
                     Inr (NoConnection,
                          s\<lparr>s_selectedFlowId := Some flowId, s_selectedNodeId := Some nodeId\<rparr>))
              else Inr (NoConnection, s)))"


section \<open>Walking the flow\<close>

text \<open>\<open>start(nodeId = null, flowName = null)\<close>\<close>

definition start :: "state \<Rightarrow> string option \<Rightarrow> string option \<Rightarrow> error + state" where
  "start s nodeId flowName =
     (case (if is_set flowName then Inr (the flowName)
            else (case p_flowGroups (s_project s) of
                    [] \<Rightarrow> Inl TypeError
                  | fg # fgs \<Rightarrow>
                      (case fg_flowIds fg of
                         [] \<Rightarrow> Inl TypeError
                       | flow_id # ids \<Rightarrow>
                           (case getFlow s flow_id of
                              None \<Rightarrow> Inl TypeError
                            | Some fi \<Rightarrow> Inr (f_name (p_flows (s_project s) ! fi)))))) of
        Inl e \<Rightarrow> Inl e
      | Inr flowName' \<Rightarrow>
          (case getFlow s flowName' of
             None \<Rightarrow> Inl TypeError
           | Some fi \<Rightarrow>
               (let s1 = s\<lparr>s_selectedFlowId := Some (f_id (p_flows (s_project s) ! fi))\<rparr>
                in case getNodesByType s1 NodeType_start of
                     Inl e \<Rightarrow> Inl e
                   | Inr starts \<Rightarrow>
                       (case nodeId of
                          Some nid \<Rightarrow> Inr (s1\<lparr>s_selectedNodeId := Some nid\<rparr>)
                        | None \<Rightarrow>
                            (case starts of
                               [] \<Rightarrow> Inl TypeError
                             | nr # nrs \<Rightarrow>
                                 Inr (s1\<lparr>s_selectedNodeId := Some (n_id (node_at s1 nr))\<rparr>))))))"

text \<open>\<open>restart()\<close>\<close>

definition restart :: "state \<Rightarrow> error + state" where
  "restart s =
     (case getNodesByType s NodeType_start of
        Inl e \<Rightarrow> Inl e
      | Inr [] \<Rightarrow> Inl TypeError
      | Inr (nr # nrs) \<Rightarrow> Inr (s\<lparr>s_selectedNodeId := Some (n_id (node_at s nr))\<rparr>))"

text \<open>
  \<open>nextNode\<close> returns \<open>null\<close> (at the end marker), \<open>false\<close> (the flow has just ended) or a
  node. Every call of \<open>nextNode\<close> from its own body is \<open>return this.nextNode()\<close>, without
  argument, so the function is a loop around its body: one round of the body either returns
  or asks for another round.
\<close>

datatype nextResult = ReturnNull | ReturnFalse | ReturnNode nodeRef

datatype round = Return nextResult | Again

definition internal_type :: "nodeType \<Rightarrow> bool" where
  "internal_type ty =
     (ty = NodeType_start \<or> ty = NodeType_note \<or> ty = NodeType_sequence \<or> ty = NodeType_random
        \<or> ty = NodeType_variables \<or> ty = NodeType_layout \<or> ty = NodeType_subFlow
        \<or> ty = NodeType_jumpToNode \<or> ty = NodeType_condition)"

text \<open>The part of the body from \<open>let targetNode = this.getNode(this._selectedNodeId)\<close> on.\<close>

definition enterTarget :: "host \<Rightarrow> nodeRef \<Rightarrow> state \<Rightarrow> error + (round \<times> state)" where
  "enterTarget h current s =
     (case getNode s (s_selectedNodeId s) None of
        Inl e \<Rightarrow> Inl e
      | Inr None \<Rightarrow> Inl TypeError
      | Inr (Some target) \<Rightarrow>
          (let currentId = n_id (node_at s current);
               s1 = update_node target (\<lambda>n. n\<lparr>n_previousNodeId := Some currentId\<rparr>) s
           in case (if n_type (node_at s1 target) = NodeType_choices
                    then (case getAvailableChoices h s1 (Some (n_id (node_at s1 target))) of
                            Inl e \<Rightarrow> Inl e
                          | Inr (availableChoices, s2) \<Rightarrow>
                              Inr (availableChoices = [], s2))
                    else Inr (False, s1)) of
                Inl e \<Rightarrow> Inl e
              | Inr (exhausted, s2) \<Rightarrow>
                  (case (if exhausted then getFailedConnection (node_at s2 target) else None) of
                     Some c \<Rightarrow>
                       (let s3 = s2\<lparr>s_selectedNodeId := Some (c_to c)\<rparr>
                        in case getNode s3 (s_selectedNodeId s3) None of
                             Inl e \<Rightarrow> Inl e
                           | Inr None \<Rightarrow> Inl TypeError
                           | Inr (Some target') \<Rightarrow>
                               Inr (Again,
                                    update_node target'
                                      (\<lambda>n. n\<lparr>n_previousNodeId := Some currentId\<rparr>) s3))
                   | None \<Rightarrow>
                       (let s3 = s2\<lparr>s_isJumping := False\<rparr>
                        in if internal_type (n_type (node_at s3 target))
                           then Inr (Again, s3)
                           else Inr (Return (ReturnNode target), s3)))))"

text \<open>The test \<open>!connection || !connection._to\<close>.\<close>

fun no_destination :: "available \<Rightarrow> bool" where
  "no_destination (Connection c) = (c_to c = [])"
| "no_destination NoConnection = True"
| "no_destination EmptyArray = True"

text \<open>One round of the body of \<open>nextNode(elementId)\<close>.\<close>

definition nextNode_round ::
  "host \<Rightarrow> state \<Rightarrow> string option \<Rightarrow> error + (round \<times> state)" where
  "nextNode_round h s elementId =
     (if s_selectedNodeId s = Some ''THE END'' then Inr (Return ReturnNull, s)
      else
        case (if s_selectedNodeId s = None
              then (case getNodesByType s NodeType_start of
                      Inl e \<Rightarrow> Inl e
                    | Inr [] \<Rightarrow> Inl TypeError
                    | Inr (nr # nrs) \<Rightarrow> Inr (s\<lparr>s_selectedNodeId := Some (n_id (node_at s nr))\<rparr>))
              else Inr s) of
          Inl e \<Rightarrow> Inl e
        | Inr s0 \<Rightarrow>
        (case getNode s0 (s_selectedNodeId s0) (s_selectedFlowId s0) of
          Inl e \<Rightarrow> Inl e
        | Inr None \<Rightarrow> Inl TypeError
        | Inr (Some current) \<Rightarrow>
        (case getNodeElement s0 (n_id (node_at s0 current)) elementId of
          Inl e \<Rightarrow> Inl e
        | Inr nodeElement \<Rightarrow>
        (case getAvailableConnections h s0 elementId of
          Inl e \<Rightarrow> Inl e
        | Inr (available, s1) \<Rightarrow>
        (let connection =
               (if available = NoConnection
                then of_option (getFailedConnection (node_at s1 current)) else available);
             ty = n_type (node_at s1 current)
         in case
              (if ty = NodeType_choices \<and> \<not> s_isJumping s1 then
                 (let s2 = (case nodeElement of
                              Some r \<Rightarrow>
                                if e_justOnce (element_at s1 r)
                                then update_element r (\<lambda>e. e\<lparr>e_visited := True\<rparr>) s1 else s1
                            | None \<Rightarrow> s1)
                  in case getParsedText h s2 nodeElement True of
                       Inl e \<Rightarrow> Inl e
                     | Inr (txt, s3) \<Rightarrow> Inr (False, s3))
               else if ty = NodeType_jumpToNode then
                 (case n_jumpTo (node_at s1 current) of
                    None \<Rightarrow> Inl TypeError
                  | Some (flowId, nodeId) \<Rightarrow>
                      if \<not> nodeExists s1 nodeId (Some flowId) then Inr (True, s1)
                      else Inr (False, s1\<lparr>s_isJumping := True\<rparr>))
               else
                 (case nodeElement of
                    Some r \<Rightarrow> Inr (False, update_element r (\<lambda>e. e\<lparr>e_visited := True\<rparr>) s1)
                  | None \<Rightarrow> Inr (False, s1))) of
              Inl e \<Rightarrow> Inl e
            | Inr (True, s4) \<Rightarrow> Inr (Return (ReturnNode current), s4)
            | Inr (False, s4) \<Rightarrow>
                if no_destination connection \<and> ty \<noteq> NodeType_jumpToNode then
                  (case s_activeSubFlows s4 of
                     subFlow # rest \<Rightarrow>
                       (case (if fst subFlow \<noteq> s_selectedFlowId s4
                              then start s4 (Some (snd subFlow)) (fst subFlow) else Inr s4) of
                          Inl e \<Rightarrow> Inl e
                        | Inr s5 \<Rightarrow> Inr (Again, s5\<lparr>s_selectedNodeId := Some (snd subFlow)\<rparr>))
                   | [] \<Rightarrow> Inr (Return ReturnFalse, s4\<lparr>s_selectedNodeId := Some ''THE END''\<rparr>))
                else
                  enterTarget h current
                    (if \<not> s_isJumping s4
                     then (case connection of
                             Connection c \<Rightarrow> s4\<lparr>s_selectedNodeId := Some (c_to c)\<rparr>
                           | _ \<Rightarrow> s4)
                     else s4))))))"

text \<open>
  \<open>nextNode(elementId)\<close>: the rounds are repeated; only the first one has the argument.
  The source sets no bound to the number of rounds; here the first argument bounds it, and
  \<open>OutOfFuel\<close> says that the bound was reached.
\<close>

fun nextNode :: "nat \<Rightarrow> host \<Rightarrow> state \<Rightarrow> string option \<Rightarrow> error + (nextResult \<times> state)" where
  "nextNode 0 h s elementId = Inl OutOfFuel"
| "nextNode (Suc fuel) h s elementId =
     (case nextNode_round h s elementId of
        Inl e \<Rightarrow> Inl e
      | Inr (Return r, s') \<Rightarrow> Inr (r, s')
      | Inr (Again, s') \<Rightarrow> nextNode fuel h s' None)"


section \<open>Loading a project\<close>

definition all_elementRefs :: "project \<Rightarrow> elementRef list" where
  "all_elementRefs p =
     concat (map (\<lambda>fi.
        concat (map (\<lambda>ni.
           map (\<lambda>ei. (fi, ni, ei))
             [0 ..< length (n_elements (f_nodes (p_flows p ! fi) ! ni))])
          [0 ..< length (f_nodes (p_flows p ! fi))]))
       [0 ..< length (p_flows p)])"

text \<open>The entries that \<open>InitializeVariations\<close> pushes for the blocks of one text. The
  counter \<open>idx\<close> of the source is never incremented there, so \<open>_index\<close> is always 0.\<close>

definition variationObj :: "string \<Rightarrow> string \<Rightarrow> variation" where
  "variationObj elementId variation =
     \<lparr>var_index = 0, var_type = variation_type variation,
      var_values = variation_values variation, var_elementId = elementId\<rparr>"

fun InitializeVariations_forEach :: "elementRef list \<Rightarrow> state \<Rightarrow> error + state" where
  "InitializeVariations_forEach [] s = Inr s"
| "InitializeVariations_forEach (r # rs) s =
     (if e_localizedContents (element_at s r) \<noteq> [] then
        (case getLocalizedContent s (ElementRef r) (s_locale s) of
           Inl e \<Rightarrow> Inl e
         | Inr (contentObj, s1) \<Rightarrow>
             (let content = (case contentObj of
                               Some i \<Rightarrow> lc_text (e_localizedContents (element_at s1 r) ! i)
                             | None \<Rightarrow> [])
              in InitializeVariations_forEach rs
                   (s1\<lparr>s_variations := s_variations s1
                          @ map (variationObj (e_id (element_at s1 r))) (variationsRegExp content)\<rparr>)))
      else InitializeVariations_forEach rs s)"

definition InitializeVariations :: "state \<Rightarrow> error + state" where
  "InitializeVariations s =
     InitializeVariations_forEach (all_elementRefs (s_project s)) (s\<lparr>s_variations := []\<rparr>)"

text \<open>\<open>resetGlobalVariables\<close> and \<open>resetLocalVariables\<close> (\<open>load\<close> calls neither of them).\<close>

definition resetGlobalVariables :: "state \<Rightarrow> state" where
  "resetGlobalVariables s =
     s\<lparr>s_globalVars :=
         fold (\<lambda>v g. if v_type v \<noteq> ''separator''
                      then (let g1 = write_var g (v_key v) (v_value v);
                                g2 = write_var g1 (v_key v)
                                       (if read_var g1 (v_key v) = JStr ''false'' then JBool False
                                        else read_var g1 (v_key v))
                            in write_var g2 (v_key v)
                                 (if read_var g2 (v_key v) = JStr ''true'' then JBool True
                                  else read_var g2 (v_key v)))
                      else g)
           (p_variables (s_project s)) (s_globalVars s)\<rparr>"

definition resetLocalVariables :: "state \<Rightarrow> state" where
  "resetLocalVariables s =
     s\<lparr>s_localVars := (\<lambda>k. map_option (\<lambda>v. JNull) (s_localVars s k))\<rparr>"

text \<open>The loop of \<open>load\<close> over the variables of the project. \<open>eval\<close> of a value that is not a
  string is that value.\<close>

fun load_variables :: "host \<Rightarrow> variable list \<Rightarrow> state \<Rightarrow> error + state" where
  "load_variables h [] s = Inr s"
| "load_variables h (v # vs) s =
     (let s1 = (if v_type v \<noteq> ''separator'' \<and> \<not> truthy (read_var (s_globalVars s) (v_key v))
                then s\<lparr>s_globalVars := write_var (s_globalVars s) (v_key v) (v_value v)\<rparr>
                else s)
      in if v_type v = ''bool'' then
           (case read_var (s_globalVars s1) (v_key v) of
              JStr str \<Rightarrow>
                (case h_eval h str (s_globalVars s1) (s_localVars s1) of
                   None \<Rightarrow> Inl EvalError
                 | Some (x, g, l) \<Rightarrow>
                     load_variables h vs
                       (s1\<lparr>s_globalVars := write_var g (v_key v) x, s_localVars := l\<rparr>))
            | x \<Rightarrow>
                load_variables h vs
                  (s1\<lparr>s_globalVars := write_var (s_globalVars s1) (v_key v) x\<rparr>))
         else load_variables h vs s1)"

definition reset_all_visited :: "project \<Rightarrow> project" where
  "reset_all_visited p =
     p\<lparr>p_flows :=
         map (\<lambda>f. f\<lparr>f_nodes :=
                map (\<lambda>n. n\<lparr>n_elements := reset_visited (n_elements n)\<rparr>) (f_nodes f)\<rparr>)
           (p_flows p)\<rparr>"

text \<open>
  \<open>load(project, flowName = null)\<close> on a parser in state \<open>s\<close>. The project is cloned, so the
  parser owns its copy. The warning about a different \<open>_apiVersion\<close> changes nothing.
\<close>

definition load :: "host \<Rightarrow> state \<Rightarrow> project \<Rightarrow> string option \<Rightarrow> error + state" where
  "load h s proj flowName =
     (let s1 = s\<lparr>s_project := proj\<rparr>
      in case (if is_set flowName then getFlow s1 (the flowName)
               else (if p_flows proj = [] then None else Some 0)) of
           None \<Rightarrow> Inl TypeError
         | Some fi \<Rightarrow>
             (let s2 = s1\<lparr>s_selectedFlowId := Some (f_id (p_flows proj ! fi)),
                         s_locale := p_locale proj\<rparr>
              in case load_variables h (p_variables proj) s2 of
                   Inl e \<Rightarrow> Inl e
                 | Inr s3 \<Rightarrow>
                     (let s4 = s3\<lparr>s_project := reset_all_visited (s_project s3)\<rparr>
                      in case (if s_variations s4 = [] then InitializeVariations s4 else Inr s4) of
                           Inl e \<Rightarrow> Inl e
                         | Inr s5 \<Rightarrow>
                             (case start s5 None (Some (f_name (p_flows proj ! fi))) of
                                Inl e \<Rightarrow> Inl e
                              | Inr s6 \<Rightarrow> Inr (s6\<lparr>s_activeSubFlows := []\<rparr>)))))"

text \<open>
  \<open>new HomerParser(project, flowName)\<close> with a project object. The new parser takes the
  static table \<open>HomerParser.globalVariables\<close> (initially \<open>window.HomerVars || {}\<close>) as its
  \<open>_globalVars\<close>; the static \<open>activeSubFlows\<close> is whatever it was.
\<close>

definition HomerParser_constructor ::
  "host \<Rightarrow> vars \<Rightarrow> (string option \<times> string) list \<Rightarrow> nat list \<Rightarrow> project \<Rightarrow> string option
     \<Rightarrow> error + state" where
  "HomerParser_constructor h globalVariables activeSubFlows rnd proj flowName =
     load h
       \<lparr>s_project = proj, s_locale = [], s_selectedFlowId = None, s_selectedNodeId = None,
        s_globalVars = globalVariables, s_localVars = Map.empty, s_variations = [],
        s_isJumping = False, s_activeSubFlows = activeSubFlows, s_random = rnd\<rparr>
       proj flowName"


section \<open>A host for the examples\<close>

text \<open>
  The theorems about all projects hold for every host. The examples need a concrete one.
  \<open>example_eval\<close> evaluates the expressions of the following form as JavaScript does:
  operands are decimal integers, \<open>true\<close>, \<open>false\<close> and reads \<open>Homer._globalVars.name\<close> or
  \<open>Homer._localVars.name\<close>; an expression is an operand or two integer operands joined by
  \<open>+\<close>, \<open>-\<close>, \<open>>\<close>, \<open><\<close> or \<open>==\<close>; a statement is an expression or an assignment
  \<open>Homer._globalVars.name = expression\<close> (also for \<open>_localVars\<close>); the parts are separated by
  single blanks. Every other text is rejected (\<open>None\<close>), so the examples only use texts of
  this form. \<open>example_stripHtml\<close> removes tags and decodes four entities; on a text without
  \<open><\<close> and \<open>&\<close> it is the identity, as the browser is.
\<close>

fun parse_nat :: "string \<Rightarrow> nat \<Rightarrow> nat option" where
  "parse_nat [] acc = Some acc"
| "parse_nat (c # cs) acc =
     (if is_digit c then parse_nat cs (10 * acc + (code c - 48)) else None)"

definition example_operand :: "string \<Rightarrow> vars \<Rightarrow> vars \<Rightarrow> jsval option" where
  "example_operand tok g l =
     (if tok = ''true'' then Some (JBool True)
      else if tok = ''false'' then Some (JBool False)
      else if starts_with ''Homer._globalVars.'' tok \<and> list_all is_word (drop 18 tok)
              \<and> drop 18 tok \<noteq> []
      then Some (read_var g (drop 18 tok))
      else if starts_with ''Homer._localVars.'' tok \<and> list_all is_word (drop 17 tok)
              \<and> drop 17 tok \<noteq> []
      then Some (read_var l (drop 17 tok))
      else if tok \<noteq> [] then map_option (\<lambda>n. JNum (int n)) (parse_nat tok 0)
      else None)"

definition example_binary :: "string \<Rightarrow> jsval \<Rightarrow> jsval \<Rightarrow> jsval option" where
  "example_binary opr a b =
     (case (a, b) of
        (JNum x, JNum y) \<Rightarrow>
          if opr = ''+'' then Some (JNum (x + y))
          else if opr = ''-'' then Some (JNum (x - y))
          else if opr = ''>'' then Some (JBool (x > y))
          else if opr = ''<'' then Some (JBool (x < y))
          else if opr = ''=='' then Some (JBool (x = y))
          else None
      | _ \<Rightarrow> None)"

definition example_expression :: "string list \<Rightarrow> vars \<Rightarrow> vars \<Rightarrow> jsval option" where
  "example_expression toks g l =
     (case toks of
        [a] \<Rightarrow> example_operand a g l
      | [a, opr, b] \<Rightarrow>
          (case (example_operand a g l, example_operand b g l) of
             (Some x, Some y) \<Rightarrow> example_binary opr x y
           | _ \<Rightarrow> None)
      | _ \<Rightarrow> None)"

definition example_eval :: "string \<Rightarrow> vars \<Rightarrow> vars \<Rightarrow> (jsval \<times> vars \<times> vars) option" where
  "example_eval str g l =
     (case split '' '' str of
        lhs # eq # rest \<Rightarrow>
          if eq = ''='' then
            (if starts_with ''Homer._globalVars.'' lhs \<and> list_all is_word (drop 18 lhs)
                \<and> drop 18 lhs \<noteq> []
             then map_option (\<lambda>v. (v, write_var g (drop 18 lhs) v, l)) (example_expression rest g l)
             else if starts_with ''Homer._localVars.'' lhs \<and> list_all is_word (drop 17 lhs)
                \<and> drop 17 lhs \<noteq> []
             then map_option (\<lambda>v. (v, g, write_var l (drop 17 lhs) v)) (example_expression rest g l)
             else None)
          else map_option (\<lambda>v. (v, g, l)) (example_expression (lhs # eq # rest) g l)
      | toks \<Rightarrow> map_option (\<lambda>v. (v, g, l)) (example_expression toks g l))"

fun remove_tags :: "string \<Rightarrow> string" where
  "remove_tags [] = []"
| "remove_tags (c # cs) =
     (if c = CHR ''<'' \<and> length (takeWhile (\<lambda>x. x \<noteq> CHR ''>'') cs) < length cs
      then remove_tags (drop (Suc (length (takeWhile (\<lambda>x. x \<noteq> CHR ''>'') cs))) cs)
      else c # remove_tags cs)"

definition example_stripHtml :: "string \<Rightarrow> string" where
  "example_stripHtml s =
     replace_lit False ''&amp;'' ''&''
       (replace_lit False ''&nbsp;'' [char_of (160::nat)]
          (replace_lit False ''&gt;'' ''>''
             (replace_lit False ''&lt;'' ''<'' (remove_tags s))))"

definition example_host :: host where
  "example_host = \<lparr>h_eval = example_eval, h_stripHtml = example_stripHtml\<rparr>"

section \<open>Notions used in the statements\<close>

text \<open>A reference that points to a node of the project.\<close>

definition valid_node :: "state \<Rightarrow> nodeRef \<Rightarrow> bool" where
  "valid_node s r \<longleftrightarrow>
     fst r < length (p_flows (s_project s))
     \<and> snd r < length (f_nodes (p_flows (s_project s) ! fst r))"

text \<open>Successive calls of \<open>getAvailableNodeElement(nodeId)\<close>: the elements selected.\<close>

fun selections :: "nat \<Rightarrow> state \<Rightarrow> string option \<Rightarrow> error + (elementRef option list \<times> state)" where
  "selections 0 s nodeId = Inr ([], s)"
| "selections (Suc k) s nodeId =
     (case getAvailableNodeElement s nodeId of
        Inl e \<Rightarrow> Inl e
      | Inr (element, s') \<Rightarrow>
          (case selections k s' nodeId of
             Inl e \<Rightarrow> Inl e
           | Inr (elements, s'') \<Rightarrow> Inr (element # elements, s'')))"

text \<open>The first \<open>k\<close> elements, and only they, are visited.\<close>

definition visited_prefix :: "nat \<Rightarrow> nodeElement list \<Rightarrow> bool" where
  "visited_prefix k es \<longleftrightarrow>
     k \<le> length es
     \<and> map e_visited es = replicate k True @ replicate (length es - k) False"

text \<open>
  \<open>nodeId\<close> names, in the selected flow, the text node \<open>nr\<close> with cycle type \<open>Loop\<close> and \<open>N\<close>
  elements, the first \<open>k\<close> of which are the visited ones. After \<open>load\<close> no element is visited
  (\<open>k = 0\<close>), and a selection leads from one such state to another.
\<close>

definition loop_text_node :: "state \<Rightarrow> string option \<Rightarrow> nodeRef \<Rightarrow> nat \<Rightarrow> nat \<Rightarrow> bool" where
  "loop_text_node s nodeId nr N k \<longleftrightarrow>
     getNode s nodeId None = Inr (Some nr)
     \<and> n_type (node_at s nr) = NodeType_text
     \<and> n_cycleType (node_at s nr) = CycleType_loop
     \<and> length (n_elements (node_at s nr)) = N
     \<and> visited_prefix k (n_elements (node_at s nr))"

text \<open>The state with the cursor moved to a flow and a node.\<close>

definition cursor_at :: "string \<Rightarrow> string \<Rightarrow> state \<Rightarrow> state" where
  "cursor_at flowId nodeId s = s\<lparr>s_selectedFlowId := Some flowId, s_selectedNodeId := Some nodeId\<rparr>"

text \<open>What the host sees of a call of \<open>nextNode\<close>: the result and the cursor afterwards.\<close>

definition outcome ::
  "error + (nextResult \<times> state) \<Rightarrow> (nextResult \<times> string option \<times> string option) option" where
  "outcome r =
     (case r of
        Inl e \<Rightarrow> None
      | Inr (x, s') \<Rightarrow> Some (x, s_selectedFlowId s', s_selectedNodeId s'))"

text \<open>References that point to an element and to an object with localized contents.\<close>

definition valid_element :: "state \<Rightarrow> elementRef \<Rightarrow> bool" where
  "valid_element s r \<longleftrightarrow>
     valid_node s (fst r, fst (snd r))
     \<and> snd (snd r) < length (n_elements (node_at s (fst r, fst (snd r))))"

definition valid_target :: "state \<Rightarrow> target \<Rightarrow> bool" where
  "valid_target s t =
     (case t of
        ElementRef r \<Rightarrow> valid_element s r
      | LabelRef i \<Rightarrow> i < length (p_labels (s_project s)))"

text \<open>
  What \<open>getLocalizedContent\<close> leaves behind: the contents of the object at the positions
  \<open>is\<close> that are for the locale are marked as translated.
\<close>

definition marked :: "target \<Rightarrow> string \<Rightarrow> nat list \<Rightarrow> state \<Rightarrow> state" where
  "marked t localeCode is s =
     fold (\<lambda>i s. if lc_localeCode (target_contents s t ! i) = localeCode
                  then set_notTranslated t i False s else s) is s"

text \<open>No element of the project is visited.\<close>

definition no_element_visited :: "state \<Rightarrow> bool" where
  "no_element_visited s \<longleftrightarrow> (\<forall>r. valid_element s r \<longrightarrow> \<not> e_visited (element_at s r))"

text \<open>
  \<open>load\<close> passes the value of every variable of type \<open>bool\<close> through \<open>eval\<close>, and what the
  evaluation of a string does is up to the string. \<open>evals_pure\<close> says that every such
  evaluation in the loop of \<open>load\<close>, started with the global table \<open>g\<close> and the local table
  \<open>l\<close>, leaves both tables as they are, as the evaluation of \<open>true\<close> and \<open>false\<close> does.
\<close>

fun evals_pure :: "host \<Rightarrow> variable list \<Rightarrow> vars \<Rightarrow> vars \<Rightarrow> bool" where
  "evals_pure h [] g l = True"
| "evals_pure h (v # vs) g l =
     (let g1 = (if v_type v \<noteq> ''separator'' \<and> \<not> truthy (read_var g (v_key v))
                then write_var g (v_key v) (v_value v) else g)
      in if v_type v = ''bool'' then
           (case read_var g1 (v_key v) of
              JStr str \<Rightarrow>
                (case h_eval h str g1 l of
                   None \<Rightarrow> True
                 | Some (x, g2, l2) \<Rightarrow>
                     g2 = g1 \<and> l2 = l \<and> evals_pure h vs (write_var g1 (v_key v) x) l)
            | x \<Rightarrow> evals_pure h vs (write_var g1 (v_key v) x) l)
         else evals_pure h vs g1 l)"

text \<open>A value that is a string; no variable of type \<open>bool\<close> has the key \<open>k\<close>; no other
  variable, separators apart, has the key of \<open>v\<close>.\<close>

fun is_string :: "jsval \<Rightarrow> bool" where
  "is_string (JStr str) = True"
| "is_string _ = False"

definition no_bool_for :: "variable list \<Rightarrow> string \<Rightarrow> bool" where
  "no_bool_for vs k \<longleftrightarrow> list_all (\<lambda>w. v_key w = k \<longrightarrow> v_type w \<noteq> ''bool'') vs"

definition declared_once :: "variable list \<Rightarrow> variable \<Rightarrow> bool" where
  "declared_once vs v \<longleftrightarrow>
     list_all (\<lambda>w. v_type w \<noteq> ''separator'' \<and> v_key w = v_key v \<longrightarrow> w = v) vs"

text \<open>
  The traversal of a condition node in the words of the claim. \<open>evaluate_conditions\<close>
  evaluates the condition of every element, in order and whatever the earlier results were:
  it returns the truth values of the results and the state with all effects applied.
  \<open>connection_of_first\<close> is the connection of the first element that was truthy and has a
  connection.
\<close>

fun evaluate_conditions ::
  "host \<Rightarrow> nodeRef \<Rightarrow> nat list \<Rightarrow> state \<Rightarrow> error + (bool list \<times> state)" where
  "evaluate_conditions h nr [] s = Inr ([], s)"
| "evaluate_conditions h nr (i # is) s =
     (case getOriginalText h s (ElementRef (fst nr, snd nr, i)) True True (s_locale s) of
        Inl e \<Rightarrow> Inl e
      | Inr (condition, s1) \<Rightarrow>
          (case h_eval h condition (s_globalVars s1) (s_localVars s1) of
             None \<Rightarrow> Inl EvalError
           | Some (result, g, l) \<Rightarrow>
               (case evaluate_conditions h nr is (s1\<lparr>s_globalVars := g, s_localVars := l\<rparr>) of
                  Inl e \<Rightarrow> Inl e
                | Inr (bs, s') \<Rightarrow> Inr (truthy result # bs, s'))))"

definition connection_of_element :: "state \<Rightarrow> nodeRef \<Rightarrow> nat \<Rightarrow> connection option" where
  "connection_of_element s nr i =
     getConnectionsByElementId (node_at s nr) (Some (e_id (element_at s (fst nr, snd nr, i))))"

fun connection_of_first :: "state \<Rightarrow> nodeRef \<Rightarrow> (nat \<times> bool) list \<Rightarrow> connection option" where
  "connection_of_first s nr [] = None"
| "connection_of_first s nr ((i, b) # rest) =
     (if b \<and> connection_of_element s nr i \<noteq> None then connection_of_element s nr i
      else connection_of_first s nr rest)"

text \<open>The selected node is the condition node \<open>nr\<close>.\<close>

definition at_condition_node :: "state \<Rightarrow> nodeRef \<Rightarrow> bool" where
  "at_condition_node s nr \<longleftrightarrow>
     getNode s None None = Inr (Some nr) \<and> n_type (node_at s nr) = NodeType_condition"

text \<open>
  An element bears the marker when its text in the locale of the parser contains \<open>[+]\<close>.
  An element of type text or choices renders empty when \<open>parsedText\<close>, called as the filter
  of \<open>getAvailableChoices\<close> calls it, returns the empty text. An element stays out of the
  choices when it bears the marker, or is visited and, if it is flagged as hidden for having
  been empty, still renders empty. The choices of a node are exhausted when every element
  stays out at the moment the filter comes to it. The fallback choices are the elements
  that bear the marker or have \<open>_ifNoMore\<close> set already.
\<close>

definition bears_marker :: "state \<Rightarrow> elementRef \<Rightarrow> bool" where
  "bears_marker s r \<longleftrightarrow>
     (case find_last (\<lambda>c. lc_localeCode c = s_locale s) (e_localizedContents (element_at s r)) of
        None \<Rightarrow> False
      | Some j \<Rightarrow> ifNoMoreRegExp (lc_text (e_localizedContents (element_at s r) ! j)) \<noteq> [])"

definition renders_empty :: "host \<Rightarrow> elementRef \<Rightarrow> state \<Rightarrow> bool" where
  "renders_empty h r s \<longleftrightarrow>
     (case getOriginalText h s (ElementRef r) False False (s_locale s) of
        Inl e \<Rightarrow> True
      | Inr (content, s1) \<Rightarrow>
          (case parsedText h s1 (Some r) False of
             Inl e \<Rightarrow> True
           | Inr (rendered, s2) \<Rightarrow> rendered = []))"

definition stays_out :: "host \<Rightarrow> elementRef \<Rightarrow> state \<Rightarrow> bool" where
  "stays_out h r s \<longleftrightarrow>
     bears_marker s r
     \<or> (e_visited (element_at s r)
        \<and> (e_wasHiddenBecauseEmpty (element_at s r)
             \<and> (e_type (element_at s r) = NodeType_text
                 \<or> e_type (element_at s r) = NodeType_choices)
            \<longrightarrow> renders_empty h r s))"

fun choices_exhausted :: "host \<Rightarrow> nodeRef \<Rightarrow> nat list \<Rightarrow> state \<Rightarrow> bool" where
  "choices_exhausted h nr [] s = True"
| "choices_exhausted h nr (i # is) s =
     (stays_out h (fst nr, snd nr, i) s
      \<and> (case availableChoices_callback h (fst nr, snd nr, i) s of
           Inl e \<Rightarrow> True
         | Inr (keep, s1) \<Rightarrow> choices_exhausted h nr is s1))"

definition fallback_choices :: "state \<Rightarrow> nodeRef \<Rightarrow> elementRef list" where
  "fallback_choices s nr =
     map (\<lambda>i. (fst nr, snd nr, i))
       (filter (\<lambda>i. bears_marker s (fst nr, snd nr, i)
                     \<or> e_ifNoMore (element_at s (fst nr, snd nr, i)))
          [0 ..< length (n_elements (node_at s nr))])"

text \<open>
  Where the runtime draws random numbers: for a variation of type \<open>RND\<close> or \<open>SRND\<close>, in a
  node of type \<open>Random\<close>, and in a text or sequence node whose cycle type is \<open>Random\<close> or
  \<open>Smart Random\<close>. The following predicates say that a project has none of them.
\<close>

definition random_free_block :: "string \<Rightarrow> bool" where
  "random_free_block variation \<longleftrightarrow>
     variation_type variation \<noteq> ''RND'' \<and> variation_type variation \<noteq> ''SRND''"

definition no_random_blocks :: "project \<Rightarrow> bool" where
  "no_random_blocks p \<longleftrightarrow>
     list_all (\<lambda>f. list_all (\<lambda>n. list_all (\<lambda>e. list_all (\<lambda>c.
         list_all random_free_block (variationsRegExp (lc_text c)))
       (e_localizedContents e)) (n_elements n)) (f_nodes f)) (p_flows p)"

definition no_random_nodes :: "project \<Rightarrow> bool" where
  "no_random_nodes p \<longleftrightarrow>
     list_all (\<lambda>f. list_all (\<lambda>n. n_type n \<noteq> NodeType_random) (f_nodes f)) (p_flows p)"

definition no_random_cycles :: "project \<Rightarrow> bool" where
  "no_random_cycles p \<longleftrightarrow>
     list_all (\<lambda>f. list_all (\<lambda>n. n_cycleType n \<noteq> CycleType_random
                                   \<and> n_cycleType n \<noteq> CycleType_smartRandom) (f_nodes f))
       (p_flows p)"

definition deterministic_project :: "project \<Rightarrow> bool" where
  "deterministic_project p \<longleftrightarrow> no_random_blocks p \<and> no_random_nodes p \<and> no_random_cycles p"

text \<open>The same for a parser: its project has no such node, and no persisted variation is of
  type \<open>RND\<close> or \<open>SRND\<close>.\<close>

definition deterministic_state :: "state \<Rightarrow> bool" where
  "deterministic_state s \<longleftrightarrow>
     no_random_nodes (s_project s) \<and> no_random_cycles (s_project s)
     \<and> list_all (\<lambda>v. var_type v \<noteq> ''RND'' \<and> var_type v \<noteq> ''SRND'') (s_variations s)"

text \<open>A result with the remaining random numbers replaced.\<close>

definition with_random :: "nat list \<Rightarrow> error + ('a \<times> state) \<Rightarrow> error + ('a \<times> state)" where
  "with_random rnd result =
     (case result of Inl e \<Rightarrow> Inl e | Inr (x, s) \<Rightarrow> Inr (x, s\<lparr>s_random := rnd\<rparr>))"

text \<open>
  A run: \<open>nextNode(elementId)\<close> is called for each argument in turn, and after each call that
  returns a node the text is rendered with \<open>getParsedText()\<close>. The run lists what each call
  returned and the text; it ends with the exception when a call throws.
\<close>

fun run ::
  "nat \<Rightarrow> host \<Rightarrow> string option list \<Rightarrow> state \<Rightarrow> (error + nextResult \<times> string) list" where
  "run fuel h [] s = []"
| "run fuel h (elementId # rest) s =
     (case nextNode fuel h s elementId of
        Inl e \<Rightarrow> [Inl e]
      | Inr (r, s1) \<Rightarrow>
          (case (case r of
                   ReturnNode nr \<Rightarrow> getParsedText h s1 None False
                 | _ \<Rightarrow> Inr ([], s1)) of
             Inl e \<Rightarrow> [Inl e]
           | Inr (rendered, s2) \<Rightarrow> Inr (r, rendered) # run fuel h rest s2))"

text \<open>A run of a freshly constructed parser; the static table \<open>HomerParser.globalVariables\<close>,
  the static \<open>activeSubFlows\<close> and the random numbers to come are given.\<close>

definition fresh_run ::
  "nat \<Rightarrow> host \<Rightarrow> vars \<Rightarrow> (string option \<times> string) list \<Rightarrow> nat list \<Rightarrow> project
     \<Rightarrow> string option list \<Rightarrow> error + (error + nextResult \<times> string) list" where
  "fresh_run fuel h globalVariables activeSubFlows rnd proj elementIds =
     (case HomerParser_constructor h globalVariables activeSubFlows rnd proj None of
        Inl e \<Rightarrow> Inl e
      | Inr s \<Rightarrow> Inr (run fuel h elementIds s))"

text \<open>The connection that the traversal takes, given the truth values of the conditions:
  that of the first truthy element with a connection, and the fail connection when there is
  no such element.\<close>

definition condition_connection :: "state \<Rightarrow> nodeRef \<Rightarrow> bool list \<Rightarrow> connection option" where
  "condition_connection s nr bs =
     (case connection_of_first s nr (zip [0 ..< length (n_elements (node_at s nr))] bs) of
        Some c \<Rightarrow> Some c
      | None \<Rightarrow> getFailedConnection (node_at s nr))"

section \<open>Example projects\<close>

text \<open>Objects as they come from a project file: the flags of the runtime are not set.\<close>

definition example_content :: "string \<Rightarrow> string \<Rightarrow> localizedContent" where
  "example_content localeCode txt =
     \<lparr>lc_localeCode = localeCode, lc_text = txt, lc_notTranslated = None\<rparr>"

definition example_element ::
  "string \<Rightarrow> string \<Rightarrow> nodeType \<Rightarrow> localizedContent list \<Rightarrow> nodeElement" where
  "example_element elementId nodeId ty contents =
     \<lparr>e_id = elementId, e_nodeId = nodeId, e_type = ty, e_localizedContents = contents,
      e_visited = False, e_justOnce = False, e_ifNoMore = False,
      e_wasHiddenBecauseEmpty = False\<rparr>"

definition example_node ::
  "string \<Rightarrow> nodeType \<Rightarrow> cycleType \<Rightarrow> nodeElement list \<Rightarrow> connection list \<Rightarrow> node" where
  "example_node nodeId ty cycle elements connections =
     \<lparr>n_id = nodeId, n_type = ty, n_cycleType = cycle, n_translatable = True,
      n_elements = elements, n_connections = connections, n_jumpTo = None,
      n_previousNodeId = None\<rparr>"

definition example_connection :: "string \<Rightarrow> nodeType \<Rightarrow> string option \<Rightarrow> connection" where
  "example_connection target ty elementId =
     \<lparr>c_to = target, c_type = ty, c_nodeElementId = elementId\<rparr>"

definition example_project ::
  "string \<Rightarrow> node list \<Rightarrow> variable list \<Rightarrow> label list \<Rightarrow> project" where
  "example_project loc nodes variables labels =
     \<lparr>p_apiVersion = ''1.4'', p_locale = loc, p_mainLocale = ''en'',
      p_flowGroups = [\<lparr>fg_flowIds = [''f1'']\<rparr>],
      p_flows = [\<lparr>f_id = ''f1'', f_name = ''Main'', f_slug = ''main'', f_nodes = nodes\<rparr>],
      p_variables = variables, p_labels = labels\<rparr>"

text \<open>A parser constructed for a project, with an empty \<open>HomerParser.globalVariables\<close>;
  \<open>None\<close> when the constructor throws.\<close>

definition fresh_parser :: "project \<Rightarrow> state option" where
  "fresh_parser p =
     (case HomerParser_constructor example_host Map.empty [] [] p None of
        Inl e \<Rightarrow> None
      | Inr s \<Rightarrow> Some s)"

text \<open>The call ends with the given exception.\<close>

definition throws :: "error \<Rightarrow> error + 'a \<Rightarrow> bool" where
  "throws e r = (case r of Inl e' \<Rightarrow> e' = e | Inr x \<Rightarrow> False)"

subsection \<open>A text that is translated with an empty text\<close>

text \<open>The main locale is \<open>en\<close>, the project runs in \<open>it\<close>. The text element \<open>e1\<close> has the main
  text \<open>Hello\<close> and an empty Italian text; the element \<open>e2\<close> has no Italian content at all.\<close>

definition fallback_project :: project where
  "fallback_project =
     example_project ''it''
       [example_node ''n0'' NodeType_start CycleType_none []
          [example_connection ''n1'' NodeType_other None],
        example_node ''n1'' NodeType_text CycleType_list
          [example_element ''e1'' ''n1'' NodeType_text
             [example_content ''en'' ''Hello'', example_content ''it'' []],
           example_element ''e2'' ''n1'' NodeType_text
             [example_content ''en'' ''Good morning'']]
          []]
       []
       [\<lparr>l_key = ''title'', l_localizedContents = [example_content ''en'' ''Title'']\<rparr>]"

text \<open>The rendering of an element with the flags \<open>_notTranslated\<close> of its contents afterwards.\<close>

definition rendering ::
  "state option \<Rightarrow> elementRef \<Rightarrow> (error + string \<times> bool option list) option" where
  "rendering parser r =
     map_option
       (\<lambda>s. case getParsedText example_host s (Some r) False of
               Inl e \<Rightarrow> Inl e
             | Inr (txt, s') \<Rightarrow>
                 Inr (txt, map lc_notTranslated (e_localizedContents (element_at s' r))))
       parser"

subsection \<open>A condition that cannot be parsed\<close>

text \<open>The condition node \<open>n1\<close> has one element with the text \<open>$count >\<close>, which becomes the
  expression \<open>Homer._globalVars.count >\<close>: a syntax error for \<open>eval\<close>.\<close>

definition malformed_project :: project where
  "malformed_project =
     example_project ''en''
       [example_node ''n0'' NodeType_start CycleType_none []
          [example_connection ''n1'' NodeType_other None],
        example_node ''n1'' NodeType_condition CycleType_none
          [example_element ''e1'' ''n1'' NodeType_condition [example_content ''en'' ''$count >'']]
          [example_connection ''n2'' NodeType_other (Some ''e1''),
           example_connection ''n2'' NodeType_failCondition None],
        example_node ''n2'' NodeType_text CycleType_list
          [example_element ''e2'' ''n2'' NodeType_text [example_content ''en'' ''zero'']]
          []]
       [\<lparr>v_key = ''count'', v_value = JNum 0, v_type = ''int''\<rparr>]
       []"

subsection \<open>A list variation\<close>

text \<open>The text of the element \<open>e1\<close> is exactly the block \<open>[[LIST a|b|c]]\<close>.\<close>

definition list_project :: project where
  "list_project =
     example_project ''en''
       [example_node ''n0'' NodeType_start CycleType_none []
          [example_connection ''n1'' NodeType_other None],
        example_node ''n1'' NodeType_text CycleType_list
          [example_element ''e1'' ''n1'' NodeType_text [example_content ''en'' ''[[LIST a|b|c]]'']]
          []]
       [] []"

text \<open>Successive calls of \<open>getParsedText(element)\<close>: the texts returned.\<close>

fun renderings :: "nat \<Rightarrow> state \<Rightarrow> elementRef \<Rightarrow> error + string list" where
  "renderings 0 s r = Inr []"
| "renderings (Suc k) s r =
     (case getParsedText example_host s (Some r) False of
        Inl e \<Rightarrow> Inl e
      | Inr (txt, s') \<Rightarrow>
          (case renderings k s' r of Inl e \<Rightarrow> Inl e | Inr txts \<Rightarrow> Inr (txt # txts)))"

definition renderings_of :: "project \<Rightarrow> nat \<Rightarrow> elementRef \<Rightarrow> (error + string list) option" where
  "renderings_of p k r = map_option (\<lambda>s. renderings k s r) (fresh_parser p)"

text \<open>The text between \<open><variation>\<close> and \<open></variation>\<close>, when the rendering is such a text.\<close>

definition between_markers :: "string \<Rightarrow> string option" where
  "between_markers rendered =
     (if starts_with ''<variation>'' rendered
         \<and> starts_with (rev ''</variation>'') (rev rendered)
         \<and> 23 \<le> length rendered
      then Some (take (length rendered - 23) (drop 11 rendered))
      else None)"

subsection \<open>A text node that loops\<close>

text \<open>The text node \<open>n1\<close> has the cycle type \<open>Loop\<close> and the elements \<open>A\<close> and \<open>B\<close>.\<close>

definition loop_project :: project where
  "loop_project =
     example_project ''en''
       [example_node ''n0'' NodeType_start CycleType_none []
          [example_connection ''n1'' NodeType_other None],
        example_node ''n1'' NodeType_text CycleType_loop
          [example_element ''e1'' ''n1'' NodeType_text [example_content ''en'' ''A''],
           example_element ''e2'' ''n1'' NodeType_text [example_content ''en'' ''B'']]
          []]
       [] []"

subsection \<open>A jump to a flow that does not exist\<close>

text \<open>The node \<open>n1\<close> jumps to the node \<open>nowhere\<close> of the flow \<open>missing\<close>.\<close>

definition jump_project :: project where
  "jump_project =
     example_project ''en''
       [example_node ''n0'' NodeType_start CycleType_none []
          [example_connection ''n1'' NodeType_other None],
        (example_node ''n1'' NodeType_jumpToNode CycleType_none [] [])
          \<lparr>n_jumpTo := Some (''missing'', ''nowhere'')\<rparr>]
       [] []"

text \<open>The parser for this project, started at the node \<open>n1\<close> (\<open>start("n1")\<close>).\<close>

definition jump_state :: state where
  "jump_state =
     (case start (the (fresh_parser jump_project)) (Some ''n1'') None of
        Inr s \<Rightarrow> s
      | Inl e \<Rightarrow> the (fresh_parser jump_project))"

subsection \<open>A counter\<close>

text \<open>
  The project declares the variable \<open>count\<close> with the value 0. The variables node \<open>n1\<close>
  increments it and sets the local variable \<open>seen\<close>; the text node \<open>n2\<close> shows the counter.
\<close>

definition counter_project :: project where
  "counter_project =
     example_project ''en''
       [example_node ''n0'' NodeType_start CycleType_none []
          [example_connection ''n1'' NodeType_other None],
        example_node ''n1'' NodeType_variables CycleType_none
          [example_element ''e1'' ''n1'' NodeType_variables
             [example_content ''en'' ''{$count = $count + 1}''],
           example_element ''e2'' ''n1'' NodeType_variables
             [example_content ''en'' ''{%seen = 1}'']]
          [example_connection ''n2'' NodeType_other None],
        example_node ''n2'' NodeType_text CycleType_list
          [example_element ''e3'' ''n2'' NodeType_text [example_content ''en'' ''count={$count}'']]
          []]
       [\<lparr>v_key = ''count'', v_value = JNum 0, v_type = ''int''\<rparr>]
       []"

text \<open>A run: the parser is constructed with the given static variable table, \<open>nextNode()\<close>
  is called once and the text of the node is rendered (\<open>getParsedText()\<close>). The result is the
  returned node, the text and the state at the end.\<close>

definition counter_run :: "vars \<Rightarrow> (nextResult \<times> string \<times> state) option" where
  "counter_run globalVariables =
     (case HomerParser_constructor example_host globalVariables [] [] counter_project None of
        Inl e \<Rightarrow> None
      | Inr s \<Rightarrow>
          (case nextNode 10 example_host s None of
             Inl e \<Rightarrow> None
           | Inr (r, s1) \<Rightarrow>
               (case getParsedText example_host s1 None False of
                  Inl e \<Rightarrow> None
                | Inr (txt, s2) \<Rightarrow> Some (r, txt, s2))))"

text \<open>Two runs in the same page: the second parser is constructed with the static table as
  the first run left it. The result is the returned node and the text of either run.\<close>

definition two_counter_runs ::
  "((nextResult \<times> string) \<times> (nextResult \<times> string)) option" where
  "two_counter_runs =
     (case counter_run Map.empty of
        None \<Rightarrow> None
      | Some (r1, txt1, s1) \<Rightarrow>
          (case counter_run (s_globalVars s1) of
             None \<Rightarrow> None
           | Some (r2, txt2, s2) \<Rightarrow> Some ((r1, txt1), (r2, txt2))))"

text \<open>A parser for the counter project in which the counter is 1 and the local variable
  \<open>seen\<close> is set, as after a first run.\<close>

definition prior_state :: state where
  "prior_state =
     \<lparr>s_project = counter_project, s_locale = ''en'', s_selectedFlowId = Some ''f1'',
      s_selectedNodeId = Some ''n2'', s_globalVars = [''count'' \<mapsto> JNum 1],
      s_localVars = [''seen'' \<mapsto> JNum 1], s_variations = [], s_isJumping = False,
      s_activeSubFlows = [(Some ''f1'', ''n9'')], s_random = []\<rparr>"

text \<open>
  A project with the variables \<open>count = 0\<close>, \<open>level = 3\<close> and \<open>constructor = 7\<close> of type \<open>int\<close>
  and the variable \<open>ready\<close> of type \<open>bool\<close> with the value \<open>"true"\<close>, and the state after
  loading it into the parser above.
\<close>

definition settings_project :: project where
  "settings_project =
     example_project ''en''
       [example_node ''n0'' NodeType_start CycleType_none []
          [example_connection ''n1'' NodeType_other None],
        example_node ''n1'' NodeType_text CycleType_list
          [example_element ''e1'' ''n1'' NodeType_text [example_content ''en'' ''Hello'']]
          []]
       [\<lparr>v_key = ''count'', v_value = JNum 0, v_type = ''int''\<rparr>,
        \<lparr>v_key = ''level'', v_value = JNum 3, v_type = ''int''\<rparr>,
        \<lparr>v_key = ''ready'', v_value = JStr ''true'', v_type = ''bool''\<rparr>,
        \<lparr>v_key = ''constructor'', v_value = JNum 7, v_type = ''int''\<rparr>]
       []"

definition reloaded :: state where
  "reloaded = projr (load example_host prior_state settings_project None)"

text \<open>The variables \<open>count\<close> and \<open>seen\<close> after a call that returns a state.\<close>

definition count_and_seen :: "error + state \<Rightarrow> (jsval option \<times> jsval option) option" where
  "count_and_seen r =
     (case r of
        Inl e \<Rightarrow> None
      | Inr s \<Rightarrow> Some (s_globalVars s ''count'', s_localVars s ''seen''))"

subsection \<open>A sub-flow\<close>

text \<open>
  The sub-flow node \<open>s1\<close> has a connection of type \<open>SubFlow\<close> to the text \<open>t1\<close> (\<open>inside\<close>) and
  another connection to the text \<open>t2\<close> (\<open>after\<close>); \<open>t1\<close> has no outgoing connection. In
  \<open>subflow_project\<close> the start node leads to \<open>s1\<close>. In \<open>jump_subflow_project\<close> the start node
  leads to a jump to the choice node \<open>c1\<close>, whose only choice renders as the empty text,
  and the fail connection of \<open>c1\<close> leads to \<open>s1\<close>.
\<close>

definition subflow_nodes :: "node list" where
  "subflow_nodes =
     [example_node ''s1'' NodeType_subFlow CycleType_none []
        [example_connection ''t1'' NodeType_subFlow None,
         example_connection ''t2'' NodeType_other None],
      example_node ''t1'' NodeType_text CycleType_list
        [example_element ''e1'' ''t1'' NodeType_text [example_content ''en'' ''inside'']] [],
      example_node ''t2'' NodeType_text CycleType_list
        [example_element ''e2'' ''t2'' NodeType_text [example_content ''en'' ''after'']] []]"

definition subflow_project :: project where
  "subflow_project =
     example_project ''en''
       (example_node ''n0'' NodeType_start CycleType_none []
          [example_connection ''s1'' NodeType_other None]
        # subflow_nodes)
       [] []"

definition jump_subflow_project :: project where
  "jump_subflow_project =
     example_project ''en''
       ([example_node ''n0'' NodeType_start CycleType_none []
           [example_connection ''j1'' NodeType_other None],
         (example_node ''j1'' NodeType_jumpToNode CycleType_none [] [])
           \<lparr>n_jumpTo := Some (''f1'', ''c1'')\<rparr>,
         example_node ''c1'' NodeType_choices CycleType_none
           [example_element ''e0'' ''c1'' NodeType_choices [example_content ''en'' ''[TODO later]'']]
           [example_connection ''s1'' NodeType_failCondition None]]
        @ subflow_nodes)
       [] []"

text \<open>Calls of \<open>nextNode()\<close> one after the other: after each call, the id of the returned
  node (\<open>None\<close> when no node is returned) and \<open>activeSubFlows\<close>.\<close>

fun walk ::
  "nat \<Rightarrow> state \<Rightarrow> error + (string option \<times> (string option \<times> string) list) list" where
  "walk 0 s = Inr []"
| "walk (Suc k) s =
     (case nextNode 20 example_host s None of
        Inl e \<Rightarrow> Inl e
      | Inr (r, s') \<Rightarrow>
          (case walk k s' of
             Inl e \<Rightarrow> Inl e
           | Inr rest \<Rightarrow>
               Inr (((case r of ReturnNode nr \<Rightarrow> Some (n_id (node_at s' nr)) | _ \<Rightarrow> None),
                     s_activeSubFlows s') # rest)))"

definition walk_of :: "project \<Rightarrow> nat \<Rightarrow> (error + (string option \<times> (string option \<times> string) list) list) option" where
  "walk_of p k = map_option (walk k) (fresh_parser p)"

subsection \<open>Conditions\<close>

text \<open>
  The variables are \<open>aa = 1\<close> and \<open>bb = 0\<close>. In \<open>condition_project\<close> the condition node \<open>c1\<close> has
  the elements \<open>$aa > 0\<close>, connected to \<open>t1\<close>, and \<open>$bb = 5\<close>, connected to \<open>t2\<close>. In
  \<open>dangling_project\<close> the element \<open>$aa > 0\<close> has no connection; the second element is
  \<open>$bb > 0\<close>, connected to \<open>t2\<close>, and the fail connection leads to \<open>t3\<close>.
\<close>

definition condition_variables :: "variable list" where
  "condition_variables =
     [\<lparr>v_key = ''aa'', v_value = JNum 1, v_type = ''int''\<rparr>,
      \<lparr>v_key = ''bb'', v_value = JNum 0, v_type = ''int''\<rparr>]"

definition condition_texts :: "node list" where
  "condition_texts =
     [example_node ''t1'' NodeType_text CycleType_list
        [example_element ''x1'' ''t1'' NodeType_text [example_content ''en'' ''first'']] [],
      example_node ''t2'' NodeType_text CycleType_list
        [example_element ''x2'' ''t2'' NodeType_text [example_content ''en'' ''second'']] [],
      example_node ''t3'' NodeType_text CycleType_list
        [example_element ''x3'' ''t3'' NodeType_text [example_content ''en'' ''failed'']] []]"

definition condition_project :: project where
  "condition_project =
     example_project ''en''
       ([example_node ''n0'' NodeType_start CycleType_none []
           [example_connection ''c1'' NodeType_other None],
         example_node ''c1'' NodeType_condition CycleType_none
           [example_element ''e1'' ''c1'' NodeType_condition [example_content ''en'' ''$aa > 0''],
            example_element ''e2'' ''c1'' NodeType_condition [example_content ''en'' ''$bb = 5'']]
           [example_connection ''t1'' NodeType_other (Some ''e1''),
            example_connection ''t2'' NodeType_other (Some ''e2''),
            example_connection ''t3'' NodeType_failCondition None]]
        @ condition_texts)
       condition_variables []"

definition dangling_project :: project where
  "dangling_project =
     example_project ''en''
       ([example_node ''n0'' NodeType_start CycleType_none []
           [example_connection ''c1'' NodeType_other None],
         example_node ''c1'' NodeType_condition CycleType_none
           [example_element ''e1'' ''c1'' NodeType_condition [example_content ''en'' ''$aa > 0''],
            example_element ''e2'' ''c1'' NodeType_condition [example_content ''en'' ''$bb > 0'']]
           [example_connection ''t2'' NodeType_other (Some ''e2''),
            example_connection ''t3'' NodeType_failCondition None]]
        @ condition_texts)
       condition_variables []"

text \<open>The parser of a project, started at the node \<open>c1\<close>.\<close>

definition at_c1 :: "project \<Rightarrow> state" where
  "at_c1 p =
     (case start (the (fresh_parser p)) (Some ''c1'') None of
        Inr s \<Rightarrow> s
      | Inl e \<Rightarrow> the (fresh_parser p))"

text \<open>The evaluation of the conditions of \<open>c1\<close>, and what a call of \<open>nextNode()\<close> at \<open>c1\<close>
  yields: the id of the node returned and the variable \<open>bb\<close> afterwards.\<close>

definition c1_conditions :: "state \<Rightarrow> error + (bool list \<times> state)" where
  "c1_conditions s =
     evaluate_conditions example_host (0, 1) [0 ..< length (n_elements (node_at s (0, 1)))] s"

definition condition_walk :: "state \<Rightarrow> (string option \<times> jsval option) option" where
  "condition_walk s =
     (case nextNode 20 example_host s None of
        Inl e \<Rightarrow> None
      | Inr (r, s') \<Rightarrow>
          Some ((case r of ReturnNode nr \<Rightarrow> Some (n_id (node_at s' nr)) | _ \<Rightarrow> None),
                s_globalVars s' ''bb''))"

subsection \<open>Choices\<close>

text \<open>
  The choice node \<open>c1\<close> of \<open>shop_project\<close> offers \<open>[IF $gold > 5 ? "Buy" : ""]\<close> and \<open>[+] Work\<close>;
  the latter leads to the variables node \<open>v1\<close>, which adds 10 to \<open>gold\<close>, and on to the text
  \<open>t1\<close>. The variable \<open>gold\<close> is 0 at the beginning.
\<close>

definition shop_project :: project where
  "shop_project =
     example_project ''en''
       [example_node ''n0'' NodeType_start CycleType_none []
          [example_connection ''c1'' NodeType_other None],
        example_node ''c1'' NodeType_choices CycleType_none
          [example_element ''e1'' ''c1'' NodeType_choices
             [example_content ''en''
                (''[IF $gold > 5 '' @ [CHR 0x3F, CHR 0x20, CHR 0x22] @ ''Buy''
                  @ [CHR 0x22] @ '' : '' @ [CHR 0x22, CHR 0x22] @ '']'')],
           example_element ''e2'' ''c1'' NodeType_choices [example_content ''en'' ''[+] Work'']]
          [example_connection ''t1'' NodeType_other (Some ''e1''),
           example_connection ''v1'' NodeType_other (Some ''e2'')],
        example_node ''v1'' NodeType_variables CycleType_none
          [example_element ''x0'' ''v1'' NodeType_variables
             [example_content ''en'' ''{$gold = $gold + 10}'']]
          [example_connection ''t1'' NodeType_other None],
        example_node ''t1'' NodeType_text CycleType_list
          [example_element ''x1'' ''t1'' NodeType_text [example_content ''en'' ''done'']] []]
       [\<lparr>v_key = ''gold'', v_value = JNum 0, v_type = ''int''\<rparr>] []"

text \<open>The parser of a project after \<open>nextNode()\<close>, which arrives at \<open>c1\<close>, and
  \<open>nextNode(elementId)\<close>, which takes the choice and arrives at \<open>t1\<close>.\<close>

definition after_choice :: "project \<Rightarrow> string \<Rightarrow> state option" where
  "after_choice p elementId =
     (case fresh_parser p of
        None \<Rightarrow> None
      | Some s \<Rightarrow>
          (case nextNode 20 example_host s None of
             Inl e \<Rightarrow> None
           | Inr (r1, s1) \<Rightarrow>
               (case nextNode 20 example_host s1 (Some elementId) of
                  Inl e \<Rightarrow> None
                | Inr (r2, s2) \<Rightarrow> Some s2)))"

text \<open>What a call \<open>getAvailableChoices("c1")\<close> finds and returns: for every element of \<open>c1\<close> its
  id, whether it bears the marker and whether it is visited, before the call, and the ids
  of the elements returned.\<close>

definition choices_report ::
  "state option \<Rightarrow> ((string \<times> bool \<times> bool) list \<times> string list) option" where
  "choices_report parser =
     (case parser of
        None \<Rightarrow> None
      | Some s \<Rightarrow>
          (case getAvailableChoices example_host s (Some ''c1'') of
             Inl e \<Rightarrow> None
           | Inr (rs, s') \<Rightarrow>
               Some (map (\<lambda>i. (e_id (element_at s (0, 1, i)), bears_marker s (0, 1, i),
                                e_visited (element_at s (0, 1, i))))
                       [0 ..< length (n_elements (node_at s (0, 1)))],
                     map (\<lambda>r. e_id (element_at s' r)) rs)))"

text \<open>The parser of \<open>shop_project\<close> after \<open>nextNode()\<close>, which arrives at \<open>c1\<close>.\<close>

definition shop_state :: state where
  "shop_state =
     (case nextNode 20 example_host (the (fresh_parser shop_project)) None of
        Inr (r, s) \<Rightarrow> s
      | Inl e \<Rightarrow> the (fresh_parser shop_project))"

subsection \<open>A looping text node with an element marked by the host\<close>

text \<open>
  The text node \<open>n1\<close> has the cycle type \<open>Loop\<close> and the elements \<open>e1\<close>, \<open>e2\<close> and \<open>e3\<close>, and
  leads to the text node \<open>n2\<close>. \<open>visited_flags\<close> are the flags of the elements of \<open>n1\<close>, and
  \<open>selected_positions\<close> are the positions of the elements that successive calls of
  \<open>getAvailableNodeElement("n1")\<close> select.
\<close>

definition loop3_project :: project where
  "loop3_project =
     example_project ''en''
       [example_node ''n0'' NodeType_start CycleType_none []
          [example_connection ''n1'' NodeType_other None],
        example_node ''n1'' NodeType_text CycleType_loop
          [example_element ''e1'' ''n1'' NodeType_text [example_content ''en'' ''A''],
           example_element ''e2'' ''n1'' NodeType_text [example_content ''en'' ''B''],
           example_element ''e3'' ''n1'' NodeType_text [example_content ''en'' ''C'']]
          [example_connection ''n2'' NodeType_other None],
        example_node ''n2'' NodeType_text CycleType_list
          [example_element ''x1'' ''n2'' NodeType_text [example_content ''en'' ''end'']] []]
       [] []"

definition visited_flags :: "state option \<Rightarrow> bool list option" where
  "visited_flags parser = map_option (\<lambda>s. map e_visited (n_elements (node_at s (0, 1)))) parser"

definition selected_positions :: "nat \<Rightarrow> state option \<Rightarrow> nat option list option" where
  "selected_positions k parser =
     (case parser of
        None \<Rightarrow> None
      | Some s \<Rightarrow>
          (case selections k s (Some ''n1'') of
             Inl e \<Rightarrow> None
           | Inr (elements, s') \<Rightarrow> Some (map (map_option (\<lambda>r. snd (snd r))) elements)))"

section \<open>Basic facts\<close>


lemma find_last_from_Some:
  "find_last_from P xs i found = Some j \<Longrightarrow>
     found = Some j \<or> (i \<le> j \<and> j < i + length xs \<and> P (xs ! (j - i)))"
proof (induction xs arbitrary: i found)
  case Nil
  then show ?case by simp
next
  case (Cons x xs)
  from Cons.prems have "find_last_from P xs (Suc i) (if P x then Some i else found) = Some j"
    by simp
  from Cons.IH [OF this] show ?case
    by (auto split: if_splits simp: nth_Cons' Suc_diff_le)
qed

lemma find_last_SomeD: "find_last P xs = Some j \<Longrightarrow> j < length xs \<and> P (xs ! j)"
  unfolding find_last_def by (drule find_last_from_Some) simp

lemma find_last_from_map_cong:
  "map P xs = map Q ys \<Longrightarrow> find_last_from P xs i found = find_last_from Q ys i found"
proof (induction xs arbitrary: ys i found)
  case Nil
  then show ?case by simp
next
  case (Cons x xs)
  then obtain y ys' where ys: "ys = y # ys'" "P x = Q y" "map P xs = map Q ys'"
    by (cases ys) auto
  with Cons.IH [of ys'] show ?case by simp
qed

lemma find_last_map_cong: "map P xs = map Q ys \<Longrightarrow> find_last P xs = find_last Q ys"
  unfolding find_last_def by (rule find_last_from_map_cong)

lemma map_update_same: "f y = f (xs ! i) \<Longrightarrow> map f (xs[i := y]) = map f xs"
  by (cases "i < length xs") (simp_all add: map_update list_update_same_conv list_update_beyond)


lemma nth_list_update_if:
  "xs[i := x] ! j = (if i = j \<and> i < length xs then x else xs ! j)"
  by (cases "i < length xs") (simp_all add: nth_list_update list_update_beyond)

lemma find_last_field_cong:
  "map f xs = map f ys \<Longrightarrow> find_last (\<lambda>x. P (f x)) xs = find_last (\<lambda>x. P (f x)) ys"
proof (rule find_last_map_cong)
  assume "map f xs = map f ys"
  then have "map P (map f xs) = map P (map f ys)" by simp
  then show "map (\<lambda>x. P (f x)) xs = map (\<lambda>x. P (f x)) ys" by (simp add: comp_def)
qed

lemma update_node_fields [simp]:
  "s_locale (update_node r g s) = s_locale s"
  "s_selectedFlowId (update_node r g s) = s_selectedFlowId s"
  "s_selectedNodeId (update_node r g s) = s_selectedNodeId s"
  "s_globalVars (update_node r g s) = s_globalVars s"
  "s_localVars (update_node r g s) = s_localVars s"
  "s_variations (update_node r g s) = s_variations s"
  "s_isJumping (update_node r g s) = s_isJumping s"
  "s_activeSubFlows (update_node r g s) = s_activeSubFlows s"
  "s_random (update_node r g s) = s_random s"
  "p_locale (s_project (update_node r g s)) = p_locale (s_project s)"
  "p_mainLocale (s_project (update_node r g s)) = p_mainLocale (s_project s)"
  "p_flowGroups (s_project (update_node r g s)) = p_flowGroups (s_project s)"
  "p_variables (s_project (update_node r g s)) = p_variables (s_project s)"
  "p_labels (s_project (update_node r g s)) = p_labels (s_project s)"
  by (simp_all add: update_node_def)

lemma length_flows_update_node [simp]:
  "length (p_flows (s_project (update_node r g s))) = length (p_flows (s_project s))"
  by (simp add: update_node_def)

lemma flow_names_update_node [simp]:
  "map f_id (p_flows (s_project (update_node r g s))) = map f_id (p_flows (s_project s))"
  "map f_name (p_flows (s_project (update_node r g s))) = map f_name (p_flows (s_project s))"
  "map f_slug (p_flows (s_project (update_node r g s))) = map f_slug (p_flows (s_project s))"
  by (simp_all add: update_node_def map_update_same)

lemma nodes_update_node:
  "f_nodes (p_flows (s_project (update_node r g s)) ! fi) =
     (if fi = fst r \<and> fst r < length (p_flows (s_project s))
      then (f_nodes (p_flows (s_project s) ! fi))[snd r := g (node_at s r)]
      else f_nodes (p_flows (s_project s) ! fi))"
  by (simp add: update_node_def nth_list_update_if)

lemma length_nodes_update_node [simp]:
  "length (f_nodes (p_flows (s_project (update_node r g s)) ! fi)) =
     length (f_nodes (p_flows (s_project s) ! fi))"
  by (simp add: nodes_update_node)

lemma valid_node_update_node [simp]: "valid_node (update_node r g s) r' = valid_node s r'"
  by (simp add: valid_node_def)

lemma node_at_update_node:
  "node_at (update_node r g s) r' =
     (if r' = r \<and> valid_node s r then g (node_at s r) else node_at s r')"
  by (cases r; cases r') (auto simp: node_at_def nodes_update_node valid_node_def nth_list_update_if)

lemma find_last_flows_update_node:
  "find_last (\<lambda>f. P (f_id f)) (p_flows (s_project (update_node r g s))) =
     find_last (\<lambda>f. P (f_id f)) (p_flows (s_project s))"
  "find_last (\<lambda>f. P (f_name f)) (p_flows (s_project (update_node r g s))) =
     find_last (\<lambda>f. P (f_name f)) (p_flows (s_project s))"
  "find_last (\<lambda>f. P (f_slug f)) (p_flows (s_project (update_node r g s))) =
     find_last (\<lambda>f. P (f_slug f)) (p_flows (s_project s))"
  by (rule find_last_field_cong, simp)+

lemma getSelectedFlow_update_node [simp]:
  "getSelectedFlow (update_node r g s) = getSelectedFlow s"
  unfolding getSelectedFlow_def
  using find_last_flows_update_node(1) [where P = "\<lambda>i. Some i = s_selectedFlowId s"]
  by simp

lemma getFlow_update_node [simp]: "getFlow (update_node r g s) x = getFlow s x"
  by (simp only: getFlow_def find_last_flows_update_node [where P = "\<lambda>i. i = x"])

lemma getNode_update_node:
  assumes "\<And>n. n_id (g n) = n_id n"
  shows "getNode (update_node r g s) a b = getNode s a b"
proof -
  have "map n_id (f_nodes (p_flows (s_project (update_node r g s)) ! fi)) =
        map n_id (f_nodes (p_flows (s_project s) ! fi))" for fi
    by (simp add: nodes_update_node map_update_same assms node_at_def)
  then have "find_last (\<lambda>n. n_id n = nid) (f_nodes (p_flows (s_project (update_node r g s)) ! fi)) =
        find_last (\<lambda>n. n_id n = nid) (f_nodes (p_flows (s_project s) ! fi))" for fi nid
    by (rule find_last_field_cong [where f = n_id and P = "\<lambda>i. i = nid"])
  then show ?thesis by (simp add: getNode_def cong: option.case_cong)
qed

lemma getNode_valid:
  assumes "getNode s a b = Inr (Some nr)"
  shows "valid_node s nr"
proof -
  from assms obtain fi where fi: "(if is_set b then getFlow s (the b) else getSelectedFlow s) = Some fi"
    by (auto simp: getNode_def Let_def split: option.splits)
  have "fi < length (p_flows (s_project s))"
    using fi by (auto simp: getFlow_def getSelectedFlow_def split: if_splits option.splits
        dest: find_last_SomeD)
  moreover from assms fi obtain ni nid where
    "nr = (fi, ni)" "find_last (\<lambda>n. n_id n = nid) (f_nodes (p_flows (s_project s) ! fi)) = Some ni"
    by (auto simp: getNode_def Let_def split: option.splits)
  ultimately show ?thesis by (auto simp: valid_node_def dest: find_last_SomeD)
qed

lemma visited_prefix_iff:
  "visited_prefix k es \<longleftrightarrow>
     k \<le> length es \<and> (\<forall>i < length es. e_visited (es ! i) \<longleftrightarrow> i < k)"
  by (auto simp: visited_prefix_def list_eq_iff_nth_eq nth_append)

lemma unvisited_prefix:
  assumes "visited_prefix k es"
  shows "unvisited es = [k ..< length es]"
proof -
  have "filter (\<lambda>i. \<not> e_visited (es ! i)) [0 ..< length es] = filter (\<lambda>i. \<not> i < k) [0 ..< length es]"
    using assms by (intro filter_cong) (auto simp: visited_prefix_iff)
  also have "\<dots> = [k ..< length es]"
  proof -
    have "[0 ..< length es] = [0 ..< k] @ [k ..< length es]"
      using assms by (metis le0 upt_add_eq_append le_add_diff_inverse visited_prefix_iff)
    then show ?thesis by simp
  qed
  finally show ?thesis by (simp add: unvisited_def)
qed

lemma visited_prefix_set_visited:
  assumes "visited_prefix k es" "k < length es"
  shows "visited_prefix (Suc k) (set_visited True k es)"
  using assms by (auto simp: visited_prefix_iff set_visited_def nth_list_update_if less_Suc_eq)

lemma visited_prefix_reset: "visited_prefix 0 (reset_visited es)"
  by (simp add: visited_prefix_iff reset_visited_def)

lemma length_set_visited [simp]: "length (set_visited b i es) = length es"
  by (simp add: set_visited_def)

lemma length_reset_visited [simp]: "length (reset_visited es) = length es"
  by (simp add: reset_visited_def)

text \<open>One selection in a text node that cycles as a loop.\<close>

lemma availableNodeElement_loop:
  assumes "visited_prefix k es" "es \<noteq> []"
  shows "\<exists>es'. availableNodeElement NodeType_text CycleType_loop es s
            = Inr (Some (k mod length es), es', s)
          \<and> length es' = length es \<and> visited_prefix (Suc (k mod length es)) es'"
proof (cases "k < length es")
  case True
  with assms have "unvisited es = k # [Suc k ..< length es]"
    by (simp add: unvisited_prefix upt_conv_Cons)
  with True assms show ?thesis
    by (simp add: availableNodeElement_def visited_prefix_set_visited)
next
  case False
  with assms have k: "k = length es" by (simp add: visited_prefix_iff)
  with assms have "unvisited es = []" by (simp add: unvisited_prefix)
  moreover have "[0 ..< length es] = 0 # [Suc 0 ..< length es]"
    using assms by (simp add: upt_conv_Cons)
  moreover have "visited_prefix (Suc 0) (set_visited True 0 (reset_visited es))"
    using visited_prefix_set_visited [OF visited_prefix_reset, of es] assms by simp
  ultimately show ?thesis using assms k
    by (simp add: availableNodeElement_def)
qed

subsection \<open>Selections in a loop\<close>


lemma getAvailableNodeElement_loop:
  assumes "loop_text_node s nodeId nr N k" "0 < N"
  shows "\<exists>s'. getAvailableNodeElement s nodeId = Inr (Some (fst nr, snd nr, k mod N), s')
           \<and> loop_text_node s' nodeId nr N (Suc (k mod N))"
proof -
  let ?n = "node_at s nr"
  from assms have node: "getNode s nodeId None = Inr (Some nr)"
    and ty: "n_type ?n = NodeType_text" and cy: "n_cycleType ?n = CycleType_loop"
    and len: "length (n_elements ?n) = N" and pre: "visited_prefix k (n_elements ?n)"
    by (simp_all add: loop_text_node_def)
  from len assms(2) have ne: "n_elements ?n \<noteq> []" by auto
  from availableNodeElement_loop [OF pre ne, of s] len obtain es' where
    sel: "availableNodeElement NodeType_text CycleType_loop (n_elements ?n) s
            = Inr (Some (k mod N), es', s)"
    and len': "length es' = N" and pre': "visited_prefix (Suc (k mod N)) es'"
    by auto
  let ?s' = "update_node nr (\<lambda>n. n\<lparr>n_elements := es'\<rparr>) s"
  have valid: "valid_node s nr" using node by (rule getNode_valid)
  have "getAvailableNodeElement s nodeId = Inr (Some (fst nr, snd nr, k mod N), ?s')"
    using node ty cy sel by (simp add: getAvailableNodeElement_def)
  moreover have "getNode ?s' nodeId None = Inr (Some nr)"
    using node by (simp add: getNode_update_node)
  moreover have "node_at ?s' nr = ?n\<lparr>n_elements := es'\<rparr>"
    using valid by (simp add: node_at_update_node)
  ultimately show ?thesis using ty cy len' pre'
    by (simp add: loop_text_node_def)
qed

lemma selections_loop:
  assumes "loop_text_node s nodeId nr N k" "0 < N"
  shows "\<exists>sels s'. selections m s nodeId = Inr (sels, s') \<and> length sels = m
           \<and> (\<forall>i < m. sels ! i = Some (fst nr, snd nr, (k + i) mod N))"
  using assms(1)
proof (induction m arbitrary: s k)
  case 0
  then show ?case by simp
next
  case (Suc m)
  from getAvailableNodeElement_loop [OF Suc.prems assms(2)] obtain s1 where
    first: "getAvailableNodeElement s nodeId = Inr (Some (fst nr, snd nr, k mod N), s1)"
    and inv: "loop_text_node s1 nodeId nr N (Suc (k mod N))"
    by blast
  from Suc.IH [OF inv] obtain sels s' where
    rest: "selections m s1 nodeId = Inr (sels, s')" and len: "length sels = m"
    and nth: "\<forall>i < m. sels ! i = Some (fst nr, snd nr, (Suc (k mod N) + i) mod N)"
    by blast
  have "selections (Suc m) s nodeId = Inr (Some (fst nr, snd nr, k mod N) # sels, s')"
    using first rest by simp
  moreover have "(Some (fst nr, snd nr, k mod N) # sels) ! i = Some (fst nr, snd nr, (k + i) mod N)"
    if "i < Suc m" for i
  proof (cases i)
    case 0
    then show ?thesis by simp
  next
    case (Suc j)
    with that nth have "sels ! j = Some (fst nr, snd nr, (Suc (k mod N) + j) mod N)" by simp
    moreover have "(Suc (k mod N) + j) mod N = (k + Suc j) mod N"
      by (metis add_Suc add_Suc_right mod_add_left_eq)
    ultimately show ?thesis using Suc by simp
  qed
  ultimately show ?case using len by auto
qed

subsection \<open>The current node\<close>


lemma node_at_cursor [simp]:
  "node_at (s\<lparr>s_selectedFlowId := a\<rparr>) r = node_at s r"
  "node_at (s\<lparr>s_selectedNodeId := b\<rparr>) r = node_at s r"
  "node_at (cursor_at f n s) r = node_at s r"
  by (simp_all add: node_at_def cursor_at_def)

lemma getSelectedFlow_getFlow:
  assumes "getSelectedFlow s = Some fi" "s_selectedFlowId s = Some x"
  shows "getFlow s x = Some fi"
proof -
  have "(\<lambda>f. Some (f_id f) = Some x) = (\<lambda>f. f_id f = x)" by auto
  with assms show ?thesis by (simp add: getSelectedFlow_def getFlow_def)
qed

text \<open>The node that \<open>nextNode\<close> takes as the current one is the selected node.\<close>

lemma getNode_current:
  assumes "getNode s None None = Inr (Some cur)"
  shows "getNode s (s_selectedNodeId s) (s_selectedFlowId s) = Inr (Some cur)"
proof -
  from assms obtain fi where fi: "getSelectedFlow s = Some fi"
    by (auto simp: getNode_def split: option.splits)
  have "(if is_set (s_selectedFlowId s) then getFlow s (the (s_selectedFlowId s))
         else getSelectedFlow s) = Some fi"
    using fi by (cases "s_selectedFlowId s") (auto simp: getSelectedFlow_getFlow)
  with assms fi show ?thesis by (simp add: getNode_def)
qed

lemma getNode_id:
  assumes "getNode s None None = Inr (Some cur)"
  shows "s_selectedNodeId s = Some (n_id (node_at s cur))"
  using assms
  by (auto simp: getNode_def node_at_def split: option.splits dest!: find_last_SomeD)

lemma getNode_by_id:
  assumes "getNode s None None = Inr (Some cur)"
  shows "getNode s (Some (n_id (node_at s cur))) None = Inr (Some cur)"
proof -
  have "getNode s (Some i) None = getNode s None None" if "s_selectedNodeId s = Some i" for i
    using that by (simp add: getNode_def split: option.splits)
  from this [OF getNode_id [OF assms]] assms show ?thesis by simp
qed

lemma getNodeElement_current:
  assumes "getNode s None None = Inr (Some cur)"
  shows "\<exists>el. getNodeElement s (n_id (node_at s cur)) elementId = Inr el"
  using getNode_by_id [OF assms] by (simp add: getNodeElement_def split: list.splits)

lemma nextNode_round_bad_jump:
  assumes cur: "getNode s None None = Inr (Some cur)"
    and sel: "s_selectedNodeId s \<noteq> Some ''THE END''"
    and ty: "n_type (node_at s cur) = NodeType_jumpToNode"
    and jt: "n_jumpTo (node_at s cur) = Some (flowId, nodeId)"
    and missing: "\<not> nodeExists (cursor_at flowId nodeId s) nodeId (Some flowId)"
  shows "nextNode_round h s elementId = Inr (Return (ReturnNode cur), cursor_at flowId nodeId s)"
proof -
  note some = getNode_id [OF cur]
  from getNodeElement_current [OF cur] obtain el where
    el: "getNodeElement s (n_id (node_at s cur)) elementId = Inr el" by blast
  have conn: "getAvailableConnections h s elementId = Inr (NoConnection, cursor_at flowId nodeId s)"
    using cur ty jt by (simp add: getAvailableConnections_def cursor_at_def)
  show ?thesis
    using sel some getNode_current [OF cur] el conn ty jt missing
    by (simp add: nextNode_round_def)
qed

subsection \<open>Updates of elements\<close>


lemma main_locale_differs_never [simp]: "main_locale_differs s localeCode = False"
  by (simp add: main_locale_differs_def strict_eq_def js_not_def)

lemma update_element_fields [simp]:
  "s_locale (update_element r g s) = s_locale s"
  "s_selectedFlowId (update_element r g s) = s_selectedFlowId s"
  "s_selectedNodeId (update_element r g s) = s_selectedNodeId s"
  "s_globalVars (update_element r g s) = s_globalVars s"
  "s_localVars (update_element r g s) = s_localVars s"
  "s_variations (update_element r g s) = s_variations s"
  "s_isJumping (update_element r g s) = s_isJumping s"
  "s_activeSubFlows (update_element r g s) = s_activeSubFlows s"
  "s_random (update_element r g s) = s_random s"
  "p_locale (s_project (update_element r g s)) = p_locale (s_project s)"
  "p_mainLocale (s_project (update_element r g s)) = p_mainLocale (s_project s)"
  "p_flowGroups (s_project (update_element r g s)) = p_flowGroups (s_project s)"
  "p_variables (s_project (update_element r g s)) = p_variables (s_project s)"
  "p_labels (s_project (update_element r g s)) = p_labels (s_project s)"
  by (simp_all add: update_element_def)

lemma valid_node_update_element [simp]:
  "valid_node (update_element r g s) r' = valid_node s r'"
  by (simp add: update_element_def)

lemma getNode_update_element [simp]: "getNode (update_element r g s) a b = getNode s a b"
  by (simp add: update_element_def getNode_update_node)

lemma getSelectedFlow_update_element [simp]:
  "getSelectedFlow (update_element r g s) = getSelectedFlow s"
  by (simp add: update_element_def)

lemma getFlow_update_element [simp]: "getFlow (update_element r g s) x = getFlow s x"
  by (simp add: update_element_def)

text \<open>An update of an element changes the elements of its node only, and of the node
  nothing but the elements.\<close>

lemma node_at_update_element:
  "node_at (update_element r g s) nr =
     (if nr = (fst r, fst (snd r)) \<and> valid_node s nr
      then (node_at s nr)\<lparr>n_elements :=
             (n_elements (node_at s nr))[snd (snd r) := g (n_elements (node_at s nr) ! snd (snd r))]\<rparr>
      else node_at s nr)"
  by (auto simp: update_element_def node_at_update_node)

lemma node_fields_update_element [simp]:
  "n_id (node_at (update_element r g s) nr) = n_id (node_at s nr)"
  "n_type (node_at (update_element r g s) nr) = n_type (node_at s nr)"
  "n_cycleType (node_at (update_element r g s) nr) = n_cycleType (node_at s nr)"
  "n_translatable (node_at (update_element r g s) nr) = n_translatable (node_at s nr)"
  "n_connections (node_at (update_element r g s) nr) = n_connections (node_at s nr)"
  "n_jumpTo (node_at (update_element r g s) nr) = n_jumpTo (node_at s nr)"
  "n_previousNodeId (node_at (update_element r g s) nr) = n_previousNodeId (node_at s nr)"
  "length (n_elements (node_at (update_element r g s) nr)) = length (n_elements (node_at s nr))"
  by (simp_all add: node_at_update_element)

lemma valid_element_update_element [simp]:
  "valid_element (update_element r g s) r' = valid_element s r'"
  by (simp add: valid_element_def)

lemma element_at_update_element:
  "element_at (update_element r g s) r' =
     (if r' = r \<and> valid_element s r then g (element_at s r) else element_at s r')"
  by (cases r; cases r')
     (auto simp: element_at_def node_at_update_element valid_element_def nth_list_update_if)

subsection \<open>Updates of localized contents\<close>


lemma update_target_contents_fields [simp]:
  "s_locale (update_target_contents t g s) = s_locale s"
  "s_selectedFlowId (update_target_contents t g s) = s_selectedFlowId s"
  "s_selectedNodeId (update_target_contents t g s) = s_selectedNodeId s"
  "s_globalVars (update_target_contents t g s) = s_globalVars s"
  "s_localVars (update_target_contents t g s) = s_localVars s"
  "s_variations (update_target_contents t g s) = s_variations s"
  "s_isJumping (update_target_contents t g s) = s_isJumping s"
  "s_activeSubFlows (update_target_contents t g s) = s_activeSubFlows s"
  "s_random (update_target_contents t g s) = s_random s"
  "p_locale (s_project (update_target_contents t g s)) = p_locale (s_project s)"
  "p_mainLocale (s_project (update_target_contents t g s)) = p_mainLocale (s_project s)"
  "p_flowGroups (s_project (update_target_contents t g s)) = p_flowGroups (s_project s)"
  "p_variables (s_project (update_target_contents t g s)) = p_variables (s_project s)"
  by (simp_all add: update_target_contents_def split: target.splits)

lemma getNode_label_update [simp]:
  "getNode (s\<lparr>s_project := (s_project s)\<lparr>p_labels := ls\<rparr>\<rparr>) a b = getNode s a b"
  by (simp add: getNode_def getFlow_def getSelectedFlow_def cong: option.case_cong if_cong)

lemma valid_label_update [simp]:
  "valid_node (s\<lparr>s_project := (s_project s)\<lparr>p_labels := ls\<rparr>\<rparr>) nr = valid_node s nr"
  "valid_element (s\<lparr>s_project := (s_project s)\<lparr>p_labels := ls\<rparr>\<rparr>) r = valid_element s r"
  by (simp_all add: valid_node_def valid_element_def node_at_def)

lemma node_at_label_update [simp]:
  "node_at (s\<lparr>s_project := (s_project s)\<lparr>p_labels := ls\<rparr>\<rparr>) nr = node_at s nr"
  by (simp add: node_at_def)

lemma element_at_label_update [simp]:
  "element_at (s\<lparr>s_project := (s_project s)\<lparr>p_labels := ls\<rparr>\<rparr>) r = element_at s r"
  by (simp add: element_at_def)

lemma getNode_update_target_contents [simp]:
  "getNode (update_target_contents t g s) a b = getNode s a b"
  by (simp add: update_target_contents_def split: target.splits)

lemma node_fields_update_target_contents [simp]:
  "n_id (node_at (update_target_contents t g s) nr) = n_id (node_at s nr)"
  "n_type (node_at (update_target_contents t g s) nr) = n_type (node_at s nr)"
  "n_cycleType (node_at (update_target_contents t g s) nr) = n_cycleType (node_at s nr)"
  "n_translatable (node_at (update_target_contents t g s) nr) = n_translatable (node_at s nr)"
  "n_connections (node_at (update_target_contents t g s) nr) = n_connections (node_at s nr)"
  "n_jumpTo (node_at (update_target_contents t g s) nr) = n_jumpTo (node_at s nr)"
  "length (n_elements (node_at (update_target_contents t g s) nr)) = length (n_elements (node_at s nr))"
  by (simp_all add: update_target_contents_def split: target.splits)

text \<open>An update of the contents of an object changes these contents only.\<close>

lemma element_at_update_target_contents:
  "element_at (update_target_contents t g s) r =
     (if t = ElementRef r \<and> valid_element s r
      then (element_at s r)\<lparr>e_localizedContents := g (e_localizedContents (element_at s r))\<rparr>
      else element_at s r)"
  by (auto simp: update_target_contents_def element_at_update_element split: target.splits)

lemma element_fields_update_target_contents [simp]:
  "e_id (element_at (update_target_contents t g s) r) = e_id (element_at s r)"
  "e_nodeId (element_at (update_target_contents t g s) r) = e_nodeId (element_at s r)"
  "e_type (element_at (update_target_contents t g s) r) = e_type (element_at s r)"
  "e_visited (element_at (update_target_contents t g s) r) = e_visited (element_at s r)"
  "e_justOnce (element_at (update_target_contents t g s) r) = e_justOnce (element_at s r)"
  "e_ifNoMore (element_at (update_target_contents t g s) r) = e_ifNoMore (element_at s r)"
  "e_wasHiddenBecauseEmpty (element_at (update_target_contents t g s) r)
     = e_wasHiddenBecauseEmpty (element_at s r)"
  by (simp_all add: element_at_update_target_contents)

lemma labels_update_target_contents:
  "p_labels (s_project (update_target_contents (ElementRef r) g s)) = p_labels (s_project s)"
  "p_labels (s_project (update_target_contents (LabelRef i) g s)) =
     (p_labels (s_project s))[i := (p_labels (s_project s) ! i)\<lparr>l_localizedContents :=
        g (l_localizedContents (p_labels (s_project s) ! i))\<rparr>]"
  by (simp_all add: update_target_contents_def)

lemma valid_element_update_target_contents [simp]:
  "valid_element (update_target_contents t g s) r = valid_element s r"
  by (cases t) (simp_all add: update_target_contents_def)

lemma valid_target_update_target_contents [simp]:
  "valid_target (update_target_contents t g s) t' = valid_target s t'"
  by (cases t; cases t') (simp_all add: valid_target_def labels_update_target_contents)

lemma target_contents_update_target_contents:
  "target_contents (update_target_contents t g s) t' =
     (if t' = t \<and> valid_target s t then g (target_contents s t) else target_contents s t')"
  by (cases t; cases t')
     (auto simp: target_contents_def valid_target_def element_at_update_target_contents
        labels_update_target_contents nth_list_update_if)

lemma target_nodeId_update_target_contents [simp]:
  "target_nodeId (update_target_contents t g s) t' = target_nodeId s t'"
  by (cases t') (simp_all add: target_nodeId_def)

lemma contents_set_notTranslated [simp]:
  "length (target_contents (set_notTranslated t i b s) t') = length (target_contents s t')"
  "lc_localeCode (target_contents (set_notTranslated t i b s) t' ! j)
     = lc_localeCode (target_contents s t' ! j)"
  "lc_text (target_contents (set_notTranslated t i b s) t' ! j) = lc_text (target_contents s t' ! j)"
  by (simp_all add: set_notTranslated_def target_contents_update_target_contents nth_list_update_if)

subsection \<open>Localized content\<close>


lemma find_last_from_append:
  "find_last_from P (xs @ ys) i found =
     find_last_from P ys (i + length xs) (find_last_from P xs i found)"
  by (induction xs arbitrary: i found) simp_all

lemma find_last_snoc:
  "find_last P (xs @ [x]) = (if P x then Some (length xs) else find_last P xs)"
  by (simp add: find_last_def find_last_from_append)

lemma fold_upt_find_last:
  "fold (\<lambda>i c. if P (xs ! i) then Some i else c) [0 ..< length xs] None = find_last P xs"
proof (induction xs rule: rev_induct)
  case Nil
  then show ?case by (simp add: find_last_def)
next
  case (snoc x xs)
  have "fold (\<lambda>i c. if P ((xs @ [x]) ! i) then Some i else c) [0 ..< length xs] None
        = fold (\<lambda>i c. if P (xs ! i) then Some i else c) [0 ..< length xs] None"
    by (rule fold_cong) (auto simp: nth_append)
  with snoc show ?case by (simp add: find_last_snoc)
qed

lemma marked_preserves:
  assumes "\<And>i b s. f (set_notTranslated t i b s) = f s"
  shows "f (marked t localeCode is s) = f s"
  unfolding marked_def by (induction "is" arbitrary: s) (simp_all add: assms)

lemma set_notTranslated_fields [simp]:
  "s_locale (set_notTranslated t i b s) = s_locale s"
  "s_selectedFlowId (set_notTranslated t i b s) = s_selectedFlowId s"
  "s_selectedNodeId (set_notTranslated t i b s) = s_selectedNodeId s"
  "s_globalVars (set_notTranslated t i b s) = s_globalVars s"
  "s_localVars (set_notTranslated t i b s) = s_localVars s"
  "s_variations (set_notTranslated t i b s) = s_variations s"
  "s_isJumping (set_notTranslated t i b s) = s_isJumping s"
  "s_activeSubFlows (set_notTranslated t i b s) = s_activeSubFlows s"
  "s_random (set_notTranslated t i b s) = s_random s"
  "p_locale (s_project (set_notTranslated t i b s)) = p_locale (s_project s)"
  "p_mainLocale (s_project (set_notTranslated t i b s)) = p_mainLocale (s_project s)"
  "p_flowGroups (s_project (set_notTranslated t i b s)) = p_flowGroups (s_project s)"
  "p_variables (s_project (set_notTranslated t i b s)) = p_variables (s_project s)"
  "getNode (set_notTranslated t i b s) x y = getNode s x y"
  "valid_element (set_notTranslated t i b s) r = valid_element s r"
  "valid_target (set_notTranslated t i b s) t' = valid_target s t'"
  "target_nodeId (set_notTranslated t i b s) t' = target_nodeId s t'"
  "n_id (node_at (set_notTranslated t i b s) nr) = n_id (node_at s nr)"
  "n_type (node_at (set_notTranslated t i b s) nr) = n_type (node_at s nr)"
  "n_cycleType (node_at (set_notTranslated t i b s) nr) = n_cycleType (node_at s nr)"
  "n_translatable (node_at (set_notTranslated t i b s) nr) = n_translatable (node_at s nr)"
  "n_connections (node_at (set_notTranslated t i b s) nr) = n_connections (node_at s nr)"
  "n_jumpTo (node_at (set_notTranslated t i b s) nr) = n_jumpTo (node_at s nr)"
  "length (n_elements (node_at (set_notTranslated t i b s) nr)) = length (n_elements (node_at s nr))"
  "e_id (element_at (set_notTranslated t i b s) r) = e_id (element_at s r)"
  "e_nodeId (element_at (set_notTranslated t i b s) r) = e_nodeId (element_at s r)"
  "e_type (element_at (set_notTranslated t i b s) r) = e_type (element_at s r)"
  "e_visited (element_at (set_notTranslated t i b s) r) = e_visited (element_at s r)"
  "e_justOnce (element_at (set_notTranslated t i b s) r) = e_justOnce (element_at s r)"
  "e_ifNoMore (element_at (set_notTranslated t i b s) r) = e_ifNoMore (element_at s r)"
  "e_wasHiddenBecauseEmpty (element_at (set_notTranslated t i b s) r)
     = e_wasHiddenBecauseEmpty (element_at s r)"
  by (simp_all add: set_notTranslated_def)

lemma marked_fields [simp]:
  "s_locale (marked t L is s) = s_locale s"
  "s_selectedFlowId (marked t L is s) = s_selectedFlowId s"
  "s_selectedNodeId (marked t L is s) = s_selectedNodeId s"
  "s_globalVars (marked t L is s) = s_globalVars s"
  "s_localVars (marked t L is s) = s_localVars s"
  "s_variations (marked t L is s) = s_variations s"
  "s_isJumping (marked t L is s) = s_isJumping s"
  "s_activeSubFlows (marked t L is s) = s_activeSubFlows s"
  "s_random (marked t L is s) = s_random s"
  "p_locale (s_project (marked t L is s)) = p_locale (s_project s)"
  "p_mainLocale (s_project (marked t L is s)) = p_mainLocale (s_project s)"
  "p_flowGroups (s_project (marked t L is s)) = p_flowGroups (s_project s)"
  "p_variables (s_project (marked t L is s)) = p_variables (s_project s)"
  "getNode (marked t L is s) x y = getNode s x y"
  "valid_element (marked t L is s) r = valid_element s r"
  "valid_target (marked t L is s) t' = valid_target s t'"
  "target_nodeId (marked t L is s) t' = target_nodeId s t'"
  "n_id (node_at (marked t L is s) nr) = n_id (node_at s nr)"
  "n_type (node_at (marked t L is s) nr) = n_type (node_at s nr)"
  "n_cycleType (node_at (marked t L is s) nr) = n_cycleType (node_at s nr)"
  "n_translatable (node_at (marked t L is s) nr) = n_translatable (node_at s nr)"
  "n_connections (node_at (marked t L is s) nr) = n_connections (node_at s nr)"
  "n_jumpTo (node_at (marked t L is s) nr) = n_jumpTo (node_at s nr)"
  "length (n_elements (node_at (marked t L is s) nr)) = length (n_elements (node_at s nr))"
  "e_id (element_at (marked t L is s) r) = e_id (element_at s r)"
  "e_nodeId (element_at (marked t L is s) r) = e_nodeId (element_at s r)"
  "e_type (element_at (marked t L is s) r) = e_type (element_at s r)"
  "e_visited (element_at (marked t L is s) r) = e_visited (element_at s r)"
  "e_justOnce (element_at (marked t L is s) r) = e_justOnce (element_at s r)"
  "e_ifNoMore (element_at (marked t L is s) r) = e_ifNoMore (element_at s r)"
  "e_wasHiddenBecauseEmpty (element_at (marked t L is s) r)
     = e_wasHiddenBecauseEmpty (element_at s r)"
  "length (target_contents (marked t L is s) t') = length (target_contents s t')"
  "lc_localeCode (target_contents (marked t L is s) t' ! j) = lc_localeCode (target_contents s t' ! j)"
  "lc_text (target_contents (marked t L is s) t' ! j) = lc_text (target_contents s t' ! j)"
  by (rule marked_preserves, simp)+

lemma localizedContents_forEach_eq:
  "localizedContents_forEach retry t L is c s =
     Inr (fold (\<lambda>i c. if lc_localeCode (target_contents s t ! i) = L then Some i else c) is c,
          marked t L is s)"
proof (induction "is" arbitrary: c s)
  case Nil
  then show ?case by (simp add: marked_def)
next
  case (Cons i "is")
  show ?case by (simp add: Cons.IH marked_def)
qed

lemma getLocalizedContent_depth_eq:
  "getLocalizedContent_depth (Suc k) s t L =
     (case getNode s (target_nodeId s t) None of
        Inl e \<Rightarrow> Inl e
      | Inr node \<Rightarrow>
          Inr (find_last (\<lambda>c. lc_localeCode c = L) (target_contents s t),
               marked t L [0 ..< length (target_contents s t)] s))"
  using fold_upt_find_last [where P = "\<lambda>c. lc_localeCode c = L" and xs = "target_contents s t"]
  by (simp add: localizedContents_forEach_eq split: sum.splits)

text \<open>
  \<open>getLocalizedContent\<close> never retries with the main locale: it returns the last content
  whose locale is the requested one, if any, and marks the contents for that locale as
  translated.
\<close>

lemma getLocalizedContent_eq:
  "getLocalizedContent s t L =
     (case getNode s (target_nodeId s t) None of
        Inl e \<Rightarrow> Inl e
      | Inr node \<Rightarrow>
          Inr (find_last (\<lambda>c. lc_localeCode c = L) (target_contents s t),
               marked t L [0 ..< length (target_contents s t)] s))"
  unfolding getLocalizedContent_def numeral_2_eq_2 by (rule getLocalizedContent_depth_eq)



subsection \<open>The project alone determines nodes and elements\<close>

lemma node_at_field_update [simp]:
  "node_at (s_locale_update f1 s) nr = node_at s nr"
  "node_at (s_selectedFlowId_update f2 s) nr = node_at s nr"
  "node_at (s_selectedNodeId_update f3 s) nr = node_at s nr"
  "node_at (s_globalVars_update f4 s) nr = node_at s nr"
  "node_at (s_localVars_update f5 s) nr = node_at s nr"
  "node_at (s_variations_update f6 s) nr = node_at s nr"
  "node_at (s_isJumping_update f7 s) nr = node_at s nr"
  "node_at (s_activeSubFlows_update f8 s) nr = node_at s nr"
  "node_at (s_random_update f9 s) nr = node_at s nr"
  by (simp_all add: node_at_def)

lemma valid_node_field_update [simp]:
  "valid_node (s_locale_update f1 s) nr = valid_node s nr"
  "valid_node (s_selectedFlowId_update f2 s) nr = valid_node s nr"
  "valid_node (s_selectedNodeId_update f3 s) nr = valid_node s nr"
  "valid_node (s_globalVars_update f4 s) nr = valid_node s nr"
  "valid_node (s_localVars_update f5 s) nr = valid_node s nr"
  "valid_node (s_variations_update f6 s) nr = valid_node s nr"
  "valid_node (s_isJumping_update f7 s) nr = valid_node s nr"
  "valid_node (s_activeSubFlows_update f8 s) nr = valid_node s nr"
  "valid_node (s_random_update f9 s) nr = valid_node s nr"
  by (simp_all add: valid_node_def)

lemma element_at_field_update [simp]:
  "element_at (s_locale_update f1 s) r = element_at s r"
  "element_at (s_selectedFlowId_update f2 s) r = element_at s r"
  "element_at (s_selectedNodeId_update f3 s) r = element_at s r"
  "element_at (s_globalVars_update f4 s) r = element_at s r"
  "element_at (s_localVars_update f5 s) r = element_at s r"
  "element_at (s_variations_update f6 s) r = element_at s r"
  "element_at (s_isJumping_update f7 s) r = element_at s r"
  "element_at (s_activeSubFlows_update f8 s) r = element_at s r"
  "element_at (s_random_update f9 s) r = element_at s r"
  by (simp_all add: element_at_def)

lemma valid_element_field_update [simp]:
  "valid_element (s_locale_update f1 s) r = valid_element s r"
  "valid_element (s_selectedFlowId_update f2 s) r = valid_element s r"
  "valid_element (s_selectedNodeId_update f3 s) r = valid_element s r"
  "valid_element (s_globalVars_update f4 s) r = valid_element s r"
  "valid_element (s_localVars_update f5 s) r = valid_element s r"
  "valid_element (s_variations_update f6 s) r = valid_element s r"
  "valid_element (s_isJumping_update f7 s) r = valid_element s r"
  "valid_element (s_activeSubFlows_update f8 s) r = valid_element s r"
  "valid_element (s_random_update f9 s) r = valid_element s r"
  by (simp_all add: valid_element_def)

lemma target_contents_field_update [simp]:
  "target_contents (s_locale_update f1 s) t = target_contents s t"
  "target_contents (s_selectedFlowId_update f2 s) t = target_contents s t"
  "target_contents (s_selectedNodeId_update f3 s) t = target_contents s t"
  "target_contents (s_globalVars_update f4 s) t = target_contents s t"
  "target_contents (s_localVars_update f5 s) t = target_contents s t"
  "target_contents (s_variations_update f6 s) t = target_contents s t"
  "target_contents (s_isJumping_update f7 s) t = target_contents s t"
  "target_contents (s_activeSubFlows_update f8 s) t = target_contents s t"
  "target_contents (s_random_update f9 s) t = target_contents s t"
  by (simp_all add: target_contents_def split: target.splits)

lemma valid_target_field_update [simp]:
  "valid_target (s_locale_update f1 s) t = valid_target s t"
  "valid_target (s_selectedFlowId_update f2 s) t = valid_target s t"
  "valid_target (s_selectedNodeId_update f3 s) t = valid_target s t"
  "valid_target (s_globalVars_update f4 s) t = valid_target s t"
  "valid_target (s_localVars_update f5 s) t = valid_target s t"
  "valid_target (s_variations_update f6 s) t = valid_target s t"
  "valid_target (s_isJumping_update f7 s) t = valid_target s t"
  "valid_target (s_activeSubFlows_update f8 s) t = valid_target s t"
  "valid_target (s_random_update f9 s) t = valid_target s t"
  by (simp_all add: valid_target_def split: target.splits)

lemma target_nodeId_field_update [simp]:
  "target_nodeId (s_locale_update f1 s) t = target_nodeId s t"
  "target_nodeId (s_selectedFlowId_update f2 s) t = target_nodeId s t"
  "target_nodeId (s_selectedNodeId_update f3 s) t = target_nodeId s t"
  "target_nodeId (s_globalVars_update f4 s) t = target_nodeId s t"
  "target_nodeId (s_localVars_update f5 s) t = target_nodeId s t"
  "target_nodeId (s_variations_update f6 s) t = target_nodeId s t"
  "target_nodeId (s_isJumping_update f7 s) t = target_nodeId s t"
  "target_nodeId (s_activeSubFlows_update f8 s) t = target_nodeId s t"
  "target_nodeId (s_random_update f9 s) t = target_nodeId s t"
  by (simp_all add: target_nodeId_def split: target.splits)

subsection \<open>Loading\<close>


lemma read_var_write_var_effective:
  assumes "\<not> truthy (read_var m k)"
  shows "read_var (write_var m k v) k' = (if k' = k then v else read_var m k')"
  using assms by (auto simp: read_var_def write_var_def object_prototype_keys_def split: option.splits)

lemma read_var_write_var_other:
  assumes "k' \<noteq> k"
  shows "read_var (write_var m k v) k' = read_var m k'"
  using assms by (simp add: read_var_def write_var_def)

lemma read_var_write_back:
  "read_var (write_var m k (read_var m k)) k' = read_var m k'"
  by (auto simp: read_var_def write_var_def object_prototype_keys_def split: option.splits)

text \<open>One round of the loop of \<open>load\<close> whose evaluation, if any, is pure.\<close>

lemma load_variables_step:
  assumes run: "load_variables h (v # vs) s = Inr s'"
    and pure: "evals_pure h (v # vs) (s_globalVars s) (s_localVars s)"
  obtains g1 where
    "load_variables h vs (s\<lparr>s_globalVars := g1\<rparr>) = Inr s'"
    "evals_pure h vs g1 (s_localVars s)"
    "\<And>k. k \<noteq> v_key v \<Longrightarrow> read_var g1 k = read_var (s_globalVars s) k"
    "v_type v = ''separator'' \<Longrightarrow> read_var g1 (v_key v) = read_var (s_globalVars s) (v_key v)"
    "v_type v \<noteq> ''separator'' \<Longrightarrow> truthy (read_var (s_globalVars s) (v_key v))
       \<Longrightarrow> v_type v \<noteq> ''bool'' \<or> \<not> is_string (read_var (s_globalVars s) (v_key v))
       \<Longrightarrow> read_var g1 (v_key v) = read_var (s_globalVars s) (v_key v)"
    "v_type v \<noteq> ''separator'' \<Longrightarrow> \<not> truthy (read_var (s_globalVars s) (v_key v))
       \<Longrightarrow> v_type v \<noteq> ''bool'' \<or> \<not> is_string (v_value v)
       \<Longrightarrow> read_var g1 (v_key v) = v_value v"
proof -
  let ?g = "s_globalVars s" and ?k = "v_key v"
  define g0 where "g0 = (if v_type v \<noteq> ''separator'' \<and> \<not> truthy (read_var ?g ?k)
      then write_var ?g ?k (v_value v) else ?g)"
  have g0_other: "read_var g0 k = read_var ?g k" if "k \<noteq> ?k" for k
    using that by (simp add: g0_def read_var_write_var_other)
  have g0_here: "read_var g0 ?k =
      (if v_type v \<noteq> ''separator'' \<and> \<not> truthy (read_var ?g ?k) then v_value v
       else read_var ?g ?k)"
    by (simp add: g0_def read_var_write_var_effective)
  show thesis
  proof (cases "v_type v = ''bool''")
    case False
    from run False have "load_variables h vs (s\<lparr>s_globalVars := g0\<rparr>) = Inr s'"
      by (auto simp: g0_def Let_def split: if_splits)
    moreover from pure False have "evals_pure h vs g0 (s_localVars s)"
      by (simp add: g0_def Let_def)
    ultimately show ?thesis
      using False g0_other g0_here by (intro that [of g0]) auto
  next
    case True
    then have nosep: "v_type v \<noteq> ''separator''" by auto
    show ?thesis
    proof (cases "is_string (read_var g0 ?k)")
      case False
      let ?g1 = "write_var g0 ?k (read_var g0 ?k)"
      from False run True have "load_variables h vs (s\<lparr>s_globalVars := ?g1\<rparr>) = Inr s'"
        by (cases "read_var g0 ?k") (auto simp: g0_def Let_def split: if_splits)
      moreover from False pure True have "evals_pure h vs ?g1 (s_localVars s)"
        by (cases "read_var g0 ?k") (auto simp: g0_def Let_def split: if_splits)
      moreover have "read_var ?g1 k = read_var g0 k" for k
        by (rule read_var_write_back)
      ultimately show ?thesis
        using False g0_other g0_here True
        by (intro that [of ?g1]) (auto split: if_splits)
    next
      case str: True
      then obtain code where code: "read_var g0 ?k = JStr code"
        by (cases "read_var g0 ?k") auto
      from run True code obtain x g2 l2 where
        ev: "h_eval h code g0 (s_localVars s) = Some (x, g2, l2)"
        and rest: "load_variables h vs
            (s\<lparr>s_globalVars := write_var g2 ?k x, s_localVars := l2\<rparr>) = Inr s'"
        by (auto simp: g0_def Let_def split: if_splits option.splits)
      from pure True code ev have same: "g2 = g0" "l2 = s_localVars s"
        and later: "evals_pure h vs (write_var g0 ?k x) (s_localVars s)"
        by (auto simp: g0_def Let_def split: if_splits)
      let ?g1 = "write_var g0 ?k x"
      from rest same have "load_variables h vs (s\<lparr>s_globalVars := ?g1\<rparr>) = Inr s'"
        by simp
      moreover have "read_var ?g1 k = read_var ?g k" if "k \<noteq> ?k" for k
        using that g0_other by (simp add: read_var_write_var_other)
      ultimately show ?thesis
        using later str g0_here True nosep
        by (intro that [of ?g1]) (auto split: if_splits)
    qed
  qed
qed

lemma load_variables_locals:
  assumes "load_variables h vs s = Inr s'"
    and "evals_pure h vs (s_globalVars s) (s_localVars s)"
  shows "s_localVars s' = s_localVars s"
  using assms
proof (induction vs arbitrary: s)
  case Nil
  then show ?case by simp
next
  case (Cons v vs)
  from load_variables_step [OF Cons.prems] obtain g1 where
    "load_variables h vs (s\<lparr>s_globalVars := g1\<rparr>) = Inr s'"
    "evals_pure h vs g1 (s_localVars s)"
    by blast
  with Cons.IH [of "s\<lparr>s_globalVars := g1\<rparr>"] show ?case by simp
qed

lemma load_variables_kept:
  assumes "load_variables h vs s = Inr s'"
    and "evals_pure h vs (s_globalVars s) (s_localVars s)"
    and "truthy (read_var (s_globalVars s) k)"
    and "(\<forall>w \<in> set vs. v_key w = k \<longrightarrow> v_type w \<noteq> ''bool'')
         \<or> \<not> is_string (read_var (s_globalVars s) k)"
  shows "read_var (s_globalVars s') k = read_var (s_globalVars s) k"
  using assms
proof (induction vs arbitrary: s)
  case Nil
  then show ?case by simp
next
  case (Cons v vs)
  show ?case
  proof (rule load_variables_step [OF Cons.prems(1,2)])
    fix g1
    assume run: "load_variables h vs (s\<lparr>s_globalVars := g1\<rparr>) = Inr s'"
    and pure: "evals_pure h vs g1 (s_localVars s)"
    and other: "\<And>k. k \<noteq> v_key v \<Longrightarrow> read_var g1 k = read_var (s_globalVars s) k"
    and sep: "v_type v = ''separator'' \<Longrightarrow> read_var g1 (v_key v) = read_var (s_globalVars s) (v_key v)"
    and kept: "v_type v \<noteq> ''separator'' \<Longrightarrow> truthy (read_var (s_globalVars s) (v_key v))
       \<Longrightarrow> v_type v \<noteq> ''bool'' \<or> \<not> is_string (read_var (s_globalVars s) (v_key v))
       \<Longrightarrow> read_var g1 (v_key v) = read_var (s_globalVars s) (v_key v)"
    have same: "read_var g1 k = read_var (s_globalVars s) k"
    proof (cases "v_key v = k")
      case False
      then show ?thesis by (simp add: other)
    next
      case True
      show ?thesis
      proof (cases "v_type v = ''separator''")
        case True
        with sep \<open>v_key v = k\<close> show ?thesis by simp
      next
        case False
        with kept True Cons.prems(3,4) show ?thesis by auto
      qed
    qed
    have "read_var (s_globalVars s') k = read_var (s_globalVars (s\<lparr>s_globalVars := g1\<rparr>)) k"
      using run pure Cons.prems(3,4) same by (intro Cons.IH) auto
    with same show ?case by simp
  qed
qed

lemma load_variables_settled:
  assumes "load_variables h vs s = Inr s'"
    and "evals_pure h vs (s_globalVars s) (s_localVars s)"
    and "read_var (s_globalVars s) (v_key v) = v_value v"
    and "\<forall>w \<in> set vs. v_type w \<noteq> ''separator'' \<and> v_key w = v_key v \<longrightarrow> w = v"
    and "v_type v \<noteq> ''bool'' \<or> \<not> is_string (v_value v)"
  shows "read_var (s_globalVars s') (v_key v) = v_value v"
  using assms(1-4)
proof (induction vs arbitrary: s)
  case Nil
  then show ?case by simp
next
  case (Cons w ws)
  show ?case
  proof (rule load_variables_step [OF Cons.prems(1,2)])
    fix g1
    assume run: "load_variables h ws (s\<lparr>s_globalVars := g1\<rparr>) = Inr s'"
    and pure: "evals_pure h ws g1 (s_localVars s)"
    and other: "\<And>k. k \<noteq> v_key w \<Longrightarrow> read_var g1 k = read_var (s_globalVars s) k"
    and sep: "v_type w = ''separator'' \<Longrightarrow> read_var g1 (v_key w) = read_var (s_globalVars s) (v_key w)"
    and kept: "v_type w \<noteq> ''separator'' \<Longrightarrow> truthy (read_var (s_globalVars s) (v_key w))
       \<Longrightarrow> v_type w \<noteq> ''bool'' \<or> \<not> is_string (read_var (s_globalVars s) (v_key w))
       \<Longrightarrow> read_var g1 (v_key w) = read_var (s_globalVars s) (v_key w)"
    and seed: "v_type w \<noteq> ''separator'' \<Longrightarrow> \<not> truthy (read_var (s_globalVars s) (v_key w))
       \<Longrightarrow> v_type w \<noteq> ''bool'' \<or> \<not> is_string (v_value w)
       \<Longrightarrow> read_var g1 (v_key w) = v_value w"
    have same: "read_var g1 (v_key v) = v_value v"
    proof (cases "v_key w = v_key v")
      case False
      then show ?thesis using other [of "v_key v"] Cons.prems(3) by simp
    next
      case True
      show ?thesis
      proof (cases "v_type w = ''separator''")
        case True
        with sep \<open>v_key w = v_key v\<close> Cons.prems(3) show ?thesis by simp
      next
        case False
        with True Cons.prems(4) have w: "w = v" by simp
        show ?thesis
        proof (cases "truthy (v_value v)")
          case True
          with kept False w Cons.prems(3) assms(5) show ?thesis by auto
        next
          case False
          with seed \<open>v_type w \<noteq> ''separator''\<close> w Cons.prems(3) assms(5) show ?thesis by auto
        qed
      qed
    qed
    show ?case
      using run pure same Cons.prems(4) by (intro Cons.IH) auto
  qed
qed

lemma load_variables_declared:
  assumes "load_variables h vs s = Inr s'"
    and "evals_pure h vs (s_globalVars s) (s_localVars s)"
    and "v \<in> set vs" and "v_type v \<noteq> ''separator''"
    and "\<not> truthy (read_var (s_globalVars s) (v_key v))"
    and "\<forall>w \<in> set vs. v_type w \<noteq> ''separator'' \<and> v_key w = v_key v \<longrightarrow> w = v"
    and "v_type v \<noteq> ''bool'' \<or> \<not> is_string (v_value v)"
  shows "read_var (s_globalVars s') (v_key v) = v_value v"
  using assms(1-3,5,6)
proof (induction vs arbitrary: s)
  case Nil
  then show ?case by simp
next
  case (Cons w ws)
  show ?case
  proof (rule load_variables_step [OF Cons.prems(1,2)])
    fix g1
    assume run: "load_variables h ws (s\<lparr>s_globalVars := g1\<rparr>) = Inr s'"
    and pure: "evals_pure h ws g1 (s_localVars s)"
    and other: "\<And>k. k \<noteq> v_key w \<Longrightarrow> read_var g1 k = read_var (s_globalVars s) k"
    and sep: "v_type w = ''separator'' \<Longrightarrow> read_var g1 (v_key w) = read_var (s_globalVars s) (v_key w)"
    and seed: "v_type w \<noteq> ''separator'' \<Longrightarrow> \<not> truthy (read_var (s_globalVars s) (v_key w))
       \<Longrightarrow> v_type w \<noteq> ''bool'' \<or> \<not> is_string (v_value w)
       \<Longrightarrow> read_var g1 (v_key w) = v_value w"
    show ?case
    proof (cases "w = v")
      case True
      with seed assms(4,7) Cons.prems(4) have "read_var g1 (v_key v) = v_value v" by auto
      with run pure Cons.prems(5) show ?thesis
        by (intro load_variables_settled [of h ws "s\<lparr>s_globalVars := g1\<rparr>" s' v] assms(7)) auto
    next
      case False
      with Cons.prems(3) have mem: "v \<in> set ws" by simp
      have "read_var g1 (v_key v) = read_var (s_globalVars s) (v_key v)"
      proof (cases "v_key w = v_key v")
        case diff: False
        then show ?thesis using other [of "v_key v"] by simp
      next
        case True
        with False Cons.prems(5) have "v_type w = ''separator''" by auto
        with sep True show ?thesis by simp
      qed
      with run pure mem Cons.prems(4,5) Cons.IH [of "s\<lparr>s_globalVars := g1\<rparr>"]
      show ?thesis by simp
    qed
  qed
qed

lemma element_at_reset_all_visited:
  assumes "valid_element (s\<lparr>s_project := reset_all_visited p\<rparr>) r"
  shows "\<not> e_visited (element_at (s\<lparr>s_project := reset_all_visited p\<rparr>) r)"
proof -
  obtain a b c where r: "r = (a, b, c)" by (cases r) auto
  let ?s = "s\<lparr>s_project := reset_all_visited p\<rparr>"
  from assms r have a: "a < length (p_flows p)"
    by (simp add: valid_element_def valid_node_def reset_all_visited_def)
  then have nodes: "f_nodes (p_flows (s_project ?s) ! a) =
      map (\<lambda>n. n\<lparr>n_elements := reset_visited (n_elements n)\<rparr>) (f_nodes (p_flows p ! a))"
    by (simp add: reset_all_visited_def)
  with assms r have b: "b < length (f_nodes (p_flows p ! a))"
    by (simp add: valid_element_def valid_node_def)
  with nodes have els: "n_elements (node_at ?s (a, b)) =
      reset_visited (n_elements (f_nodes (p_flows p ! a) ! b))"
    by (simp add: node_at_def)
  with assms r have "c < length (n_elements (f_nodes (p_flows p ! a) ! b))"
    by (simp add: valid_element_def)
  with els r show ?thesis by (simp add: element_at_def reset_visited_def)
qed

lemma InitializeVariations_forEach_preserves:
  assumes "\<And>t L is s. f (marked t L is s) = f s"
    and "\<And>v s. f (s\<lparr>s_variations := v\<rparr>) = f s"
    and "InitializeVariations_forEach rs s = Inr s'"
  shows "f s' = f s"
  using assms(3)
proof (induction rs arbitrary: s)
  case Nil
  then show ?case by simp
next
  case (Cons r rs)
  show ?case
  proof (cases "e_localizedContents (element_at s r) = []")
    case True
    with Cons show ?thesis by simp
  next
    case False
    with Cons.prems obtain c s1 where
      c: "getLocalizedContent s (ElementRef r) (s_locale s) = Inr (c, s1)"
      by (auto split: sum.splits)
    then have s1: "s1 = marked (ElementRef r) (s_locale s)
                      [0 ..< length (target_contents s (ElementRef r))] s"
      by (auto simp: getLocalizedContent_eq split: sum.splits)
    from Cons.prems False c obtain v where
      "InitializeVariations_forEach rs (s1\<lparr>s_variations := v\<rparr>) = Inr s'"
      by (auto simp: Let_def)
    from Cons.IH [OF this] have "f s' = f (s1\<lparr>s_variations := v\<rparr>)" .
    with s1 show ?thesis by (simp add: assms(1,2))
  qed
qed

lemma start_cursor_only:
  assumes "start s nodeId flowName = Inr s'"
  shows "\<exists>a b. s' = s\<lparr>s_selectedFlowId := a, s_selectedNodeId := b\<rparr>"
  using assms
  by (auto simp: start_def Let_def split: sum.splits option.splits list.splits if_splits)


lemma load_variables_vars_only:
  assumes "load_variables h vs s = Inr s'"
  shows "s' = s\<lparr>s_globalVars := s_globalVars s', s_localVars := s_localVars s'\<rparr>"
  using assms
proof (induction vs arbitrary: s)
  case Nil
  then show ?case by simp
next
  case (Cons v vs)
  from Cons.prems obtain s1 where
    s1: "load_variables h vs s1 = Inr s'"
      "s1 = s\<lparr>s_globalVars := s_globalVars s1, s_localVars := s_localVars s1\<rparr>"
    by (auto simp: Let_def split: if_splits jsval.splits option.splits)
  from Cons.IH [OF s1(1)] have "s' = s1\<lparr>s_globalVars := s_globalVars s', s_localVars := s_localVars s'\<rparr>" .
  also have "\<dots> = s\<lparr>s_globalVars := s_globalVars s', s_localVars := s_localVars s'\<rparr>"
    by (subst s1(2)) simp
  finally show ?case .
qed

lemma load_frame:
  assumes "load h s proj flowName = Inr s'"
  shows "\<exists>fi s3 s5 a b.
           load_variables h (p_variables proj)
               (s\<lparr>s_project := proj, s_selectedFlowId := Some (f_id (p_flows proj ! fi)),
                  s_locale := p_locale proj\<rparr>) = Inr s3
           \<and> (s5 = s3\<lparr>s_project := reset_all_visited (s_project s3)\<rparr>
               \<or> InitializeVariations (s3\<lparr>s_project := reset_all_visited (s_project s3)\<rparr>) = Inr s5)
           \<and> s' = s5\<lparr>s_selectedFlowId := a, s_selectedNodeId := b, s_activeSubFlows := []\<rparr>"
proof -
  from assms obtain fi s3 s5 s6 where
    lv: "load_variables h (p_variables proj)
               (s\<lparr>s_project := proj, s_selectedFlowId := Some (f_id (p_flows proj ! fi)),
                  s_locale := p_locale proj\<rparr>) = Inr s3"
    and iv: "(if s_variations s3 = []
              then InitializeVariations (s3\<lparr>s_project := reset_all_visited (s_project s3)\<rparr>)
              else Inr (s3\<lparr>s_project := reset_all_visited (s_project s3)\<rparr>)) = Inr s5"
    and st: "start s5 None (Some (f_name (p_flows proj ! fi))) = Inr s6"
    and s': "s' = s6\<lparr>s_activeSubFlows := []\<rparr>"
    by (auto simp: load_def Let_def split: option.splits sum.splits)
  from start_cursor_only [OF st] obtain a b where
    "s6 = s5\<lparr>s_selectedFlowId := a, s_selectedNodeId := b\<rparr>" by blast
  with s' have "s' = s5\<lparr>s_selectedFlowId := a, s_selectedNodeId := b, s_activeSubFlows := []\<rparr>"
    by simp
  moreover from iv have "s5 = s3\<lparr>s_project := reset_all_visited (s_project s3)\<rparr>
      \<or> InitializeVariations (s3\<lparr>s_project := reset_all_visited (s_project s3)\<rparr>) = Inr s5"
    by (auto split: if_splits)
  ultimately show ?thesis using lv by blast
qed

lemma InitializeVariations_preserves:
  assumes "\<And>t L is s. f (marked t L is s) = f s"
    and "\<And>v s. f (s\<lparr>s_variations := v\<rparr>) = f s"
    and "InitializeVariations s = Inr s'"
  shows "f s' = f s"
  using InitializeVariations_forEach_preserves [of f, OF assms(1,2)] assms(2,3)
  by (simp add: InitializeVariations_def)

subsection \<open>Condition nodes\<close>


lemma getOriginalText_state:
  assumes "getOriginalText h s t cleaned resolve L = Inr (txt, s')"
  shows "s' = marked t L [0 ..< length (target_contents s t)] s"
  using assms
  by (auto simp: getOriginalText_def getLocalizedContent_eq Let_def split: sum.splits option.splits)

lemma connection_of_element_cong:
  assumes "n_connections (node_at s' nr) = n_connections (node_at s nr)"
    and "e_id (element_at s' (fst nr, snd nr, i)) = e_id (element_at s (fst nr, snd nr, i))"
  shows "connection_of_element s' nr i = connection_of_element s nr i"
  using assms by (simp add: connection_of_element_def getConnectionsByElementId_def)

lemma connection_of_first_cong:
  assumes "n_connections (node_at s' nr) = n_connections (node_at s nr)"
    and "\<And>r. e_id (element_at s' r) = e_id (element_at s r)"
  shows "connection_of_first s' nr xs = connection_of_first s nr xs"
proof (induction xs)
  case Nil
  then show ?case by simp
next
  case (Cons x xs)
  obtain i b where x: "x = (i, b)" by (cases x)
  have "connection_of_element s' nr i = connection_of_element s nr i"
    using assms by (intro connection_of_element_cong) simp_all
  with Cons x show ?case by auto
qed

lemma condition_forEach_eq:
  "condition_forEach h nr is found s =
     (case evaluate_conditions h nr is s of
        Inl e \<Rightarrow> Inl e
      | Inr (bs, s') \<Rightarrow>
          Inr ((case found of
                  Some c \<Rightarrow> Some c
                | None \<Rightarrow> connection_of_first s nr (zip is bs)), s'))"
proof (induction "is" arbitrary: found s)
  case Nil
  then show ?case by (simp split: option.splits)
next
  case (Cons i "is")
  show ?case
  proof (cases "getOriginalText h s (ElementRef (fst nr, snd nr, i)) True True (s_locale s)")
    case (Inl e)
    then show ?thesis by simp
  next
    case (Inr p)
    obtain condition s1 where p: "p = (condition, s1)" by (cases p)
    from getOriginalText_state [OF Inr [unfolded p]]
    have s1: "s1 = marked (ElementRef (fst nr, snd nr, i)) (s_locale s)
                    [0 ..< length (target_contents s (ElementRef (fst nr, snd nr, i)))] s" .
    show ?thesis
    proof (cases "h_eval h condition (s_globalVars s1) (s_localVars s1)")
      case None
      with Inr p show ?thesis by simp
    next
      case (Some q)
      obtain result g l where q: "q = (result, g, l)" by (cases q)
      let ?s2 = "s1\<lparr>s_globalVars := g, s_localVars := l\<rparr>"
      have same: "connection_of_first ?s2 nr xs = connection_of_first s nr xs" for xs
        by (rule connection_of_first_cong) (simp_all add: s1)
      have here: "getConnectionsByElementId (node_at s1 nr)
                    (Some (e_id (element_at s1 (fst nr, snd nr, i))))
                  = connection_of_element s nr i"
        unfolding connection_of_element_def [symmetric]
        by (rule connection_of_element_cong) (simp_all add: s1)
      show ?thesis
        using Inr p Some q
        by (auto simp: Cons.IH same here split: sum.splits option.splits)
    qed
  qed
qed

lemma evaluate_conditions_frame:
  assumes "evaluate_conditions h nr is s = Inr (bs, s')"
  shows "length bs = length is \<and> n_connections (node_at s' nr') = n_connections (node_at s nr')"
  using assms
proof (induction "is" arbitrary: s bs)
  case Nil
  then show ?case by simp
next
  case (Cons i "is")
  from Cons.prems obtain condition s1 result g l bs' where
    orig: "getOriginalText h s (ElementRef (fst nr, snd nr, i)) True True (s_locale s)
            = Inr (condition, s1)"
    and rest: "evaluate_conditions h nr is (s1\<lparr>s_globalVars := g, s_localVars := l\<rparr>) = Inr (bs', s')"
    and bs: "bs = truthy result # bs'"
    by (auto split: sum.splits option.splits)
  from getOriginalText_state [OF orig] Cons.IH [OF rest] bs show ?case by simp
qed

subsection \<open>Choices\<close>


lemma random_index_preserves:
  assumes "\<And>s v. f (s\<lparr>s_random := v\<rparr>) = f s"
    and "random_index n s = (k, s')"
  shows "f s' = f s"
  using assms(2) by (auto simp: random_index_def assms(1) split: list.splits)

lemma nextVariationContent_preserves:
  assumes "\<And>s v. f (s\<lparr>s_random := v\<rparr>) = f s"
    and "nextVariationContent pv vs s = (c, pv', s')"
  shows "f s' = f s"
  using assms(2)
  by (auto simp: nextVariationContent_def Let_def
      dest: random_index_preserves [of f, OF assms(1)]
      split: if_splits list.splits prod.splits)

lemma nextVariationContent_type:
  assumes "nextVariationContent pv vs s = (c, pv', s')"
  shows "var_type pv' = var_type pv \<and> s_variations s' = s_variations s"
  using assms random_index_preserves [of s_variations]
  by (auto simp: nextVariationContent_def Let_def split: if_splits list.splits prod.splits)

lemma getElementVariations_bound:
  assumes "idx < length (getElementVariations s eid)"
  shows "getElementVariations s eid ! idx < length (s_variations s)"
proof -
  from assms have "getElementVariations s eid ! idx \<in> set (getElementVariations s eid)"
    by (rule nth_mem)
  then show ?thesis by (simp add: getElementVariations_def)
qed

text \<open>The loop over the variation blocks replaces persisted variations by variations of
  the same type, and may draw random numbers.\<close>

lemma variations_forEach_preserves:
  assumes "\<And>s v. f (s\<lparr>s_random := v\<rparr>) = f s"
    and "\<And>s pos pv. pos < length (s_variations s) \<Longrightarrow> var_type pv = var_type (s_variations s ! pos)
           \<Longrightarrow> f (s\<lparr>s_variations := (s_variations s)[pos := pv]\<rparr>) = f s"
    and "variations_forEach eid bs idx out s = Inr (out', s')"
  shows "f s' = f s"
  using assms(3)
proof (induction bs arbitrary: idx out s)
  case Nil
  then show ?case by simp
next
  case (Cons b bs)
  let ?pos = "getElementVariations s eid ! idx"
  from Cons.prems have idx: "idx < length (getElementVariations s eid)"
    by (auto simp: Let_def split: if_splits)
  obtain c pv s1 where
    nv: "nextVariationContent (s_variations s ! ?pos) (variation_values b) s = (c, pv, s1)"
    by (cases "nextVariationContent (s_variations s ! ?pos) (variation_values b) s") auto
  note ty = nextVariationContent_type [OF nv]
  have s1: "f s1 = f s"
    by (rule nextVariationContent_preserves [of f, OF assms(1) nv])
  let ?s2 = "s1\<lparr>s_variations := (s_variations s1)[?pos := pv]\<rparr>"
  have "f ?s2 = f s1"
    using getElementVariations_bound [OF idx] ty by (intro assms(2)) simp_all
  moreover from Cons.prems idx nv obtain out1 where
    "variations_forEach eid bs (Suc idx) out1 ?s2 = Inr (out', s')"
    by (auto simp: Let_def)
  from Cons.IH [OF this] have "f s' = f ?s2" .
  ultimately show ?case using s1 by simp
qed

lemma try_eval_preserves:
  assumes "\<And>s v. f (s\<lparr>s_globalVars := v\<rparr>) = f s"
    and "\<And>s v. f (s\<lparr>s_localVars := v\<rparr>) = f s"
    and "try_eval h str s = (v, s')"
  shows "f s' = f s"
  using assms(3) by (auto simp: try_eval_def assms(1,2) split: option.splits)

lemma conditionals_forEach_preserves:
  assumes "\<And>s v. f (s\<lparr>s_globalVars := v\<rparr>) = f s"
    and "\<And>s v. f (s\<lparr>s_localVars := v\<rparr>) = f s"
    and "conditionals_forEach h bs out s = Inr (out', s')"
  shows "f s' = f s"
  using assms(3)
proof (induction bs arbitrary: out s)
  case Nil
  then show ?case by simp
next
  case (Cons b bs)
  then show ?case
    by (auto simp: Let_def
        dest!: Cons.IH try_eval_preserves [of f, OF assms(1,2)]
        split: if_splits prod.splits list.splits)
qed

lemma variableBlocks_forEach_preserves:
  assumes "\<And>s v. f (s\<lparr>s_globalVars := v\<rparr>) = f s"
    and "\<And>s v. f (s\<lparr>s_localVars := v\<rparr>) = f s"
    and "variableBlocks_forEach h ty fe bs out s = (out', s')"
  shows "f s' = f s"
  using assms(3)
proof (induction bs arbitrary: out s)
  case Nil
  then show ?case by simp
next
  case (Cons b bs)
  then show ?case
    by (auto simp: Let_def
        dest!: Cons.IH try_eval_preserves [of f, OF assms(1,2)]
        split: if_splits prod.splits option.splits)
qed

lemma parsedText_element_preserves:
  assumes result: "parsedText_element h s r fe = Inr (txt, s')"
    and f: "\<And>s v. f (s\<lparr>s_random := v\<rparr>) = f s"
      "\<And>s pos pv. pos < length (s_variations s) \<Longrightarrow> var_type pv = var_type (s_variations s ! pos)
           \<Longrightarrow> f (s\<lparr>s_variations := (s_variations s)[pos := pv]\<rparr>) = f s"
      "\<And>s v. f (s\<lparr>s_globalVars := v\<rparr>) = f s"
      "\<And>s v. f (s\<lparr>s_localVars := v\<rparr>) = f s"
      "\<And>t i b s. f (set_notTranslated t i b s) = f s"
      "\<And>s. f (update_element r (\<lambda>e. e\<lparr>e_justOnce := True\<rparr>) s) = f s"
      "\<And>s0. bears_marker s r \<Longrightarrow> f (update_element r (\<lambda>e. e\<lparr>e_ifNoMore := True\<rparr>) s0) = f s0"
  shows "f s' = f s"
proof -
  let ?lc = "getLocalizedContent s (ElementRef r) (s_locale s)"
  from result obtain i s0 where lc: "?lc = Inr (Some i, s0)"
    by (cases ?lc) (auto simp: parsedText_element_def split: option.splits)
  then have s0: "f s0 = f s"
    by (auto simp: getLocalizedContent_eq split: sum.splits intro: marked_preserves f(5))
  define content where "content = lc_text (e_localizedContents (element_at s0 r) ! i)"
  from lc have "ifNoMoreRegExp content \<noteq> [] \<Longrightarrow> bears_marker s r"
    using marked_fields(34) [of "ElementRef r" "s_locale s" _ s "ElementRef r" i]
    by (auto simp: getLocalizedContent_eq bears_marker_def content_def target_contents_def
        split: sum.splits)
  note f7 = f(7) [OF this]
  let ?v = "variations_forEach (e_id (element_at s0 r)) (variationsRegExp content) 0 content s0"
  from result lc obtain out1 s1 where v: "?v = Inr (out1, s1)"
    by (cases ?v) (auto simp: parsedText_element_def content_def)
  have s1: "f s1 = f s0"
    by (rule variations_forEach_preserves [of f, OF f(1,2) v])
  let ?c = "conditionals_forEach h (conditionalInsideTextRegExp content) out1 s1"
  from result lc v obtain out2 s2 where c: "?c = Inr (out2, s2)"
    by (cases ?c) (auto simp: parsedText_element_def content_def)
  have s2: "f s2 = f s1"
    by (rule conditionals_forEach_preserves [of f, OF f(3,4) c])
  from result lc v c f7 have "f s' = f s2"
    unfolding content_def parsedText_element_def
    by (auto simp: Let_def f(6) simp del: fold_simps split: prod.splits
        dest!: variableBlocks_forEach_preserves [of f, OF f(3,4)])
  with s2 s1 s0 show ?thesis by simp
qed

lemma bears_marker_cong:
  assumes "s_locale s' = s_locale s"
    and "map (\<lambda>c. (lc_localeCode c, lc_text c)) (e_localizedContents (element_at s' r))
         = map (\<lambda>c. (lc_localeCode c, lc_text c)) (e_localizedContents (element_at s r))"
  shows "bears_marker s' r = bears_marker s r"
proof -
  let ?cs' = "e_localizedContents (element_at s' r)" and ?cs = "e_localizedContents (element_at s r)"
  from assms(2) have len: "length ?cs' = length ?cs"
    by (rule map_eq_imp_length_eq)
  from assms(2) have nth: "lc_localeCode (?cs' ! j) = lc_localeCode (?cs ! j)
      \<and> lc_text (?cs' ! j) = lc_text (?cs ! j)" if "j < length ?cs" for j
    using that len by (metis (mono_tags, lifting) nth_map prod.inject)
  have "map (\<lambda>c. lc_localeCode c = s_locale s) ?cs' = map (\<lambda>c. lc_localeCode c = s_locale s) ?cs"
    using len nth by (auto simp: list_eq_iff_nth_eq)
  then have fl: "find_last (\<lambda>c. lc_localeCode c = s_locale s) ?cs'
      = find_last (\<lambda>c. lc_localeCode c = s_locale s) ?cs"
    by (rule find_last_map_cong)
  show ?thesis
    using nth find_last_SomeD [of "\<lambda>c. lc_localeCode c = s_locale s" ?cs]
    by (auto simp: bears_marker_def assms(1) fl split: option.splits)
qed

lemma bears_marker_field_update [simp]:
  "bears_marker (s\<lparr>s_random := v1\<rparr>) r = bears_marker s r"
  "bears_marker (s\<lparr>s_variations := v2\<rparr>) r = bears_marker s r"
  "bears_marker (s\<lparr>s_globalVars := v3\<rparr>) r = bears_marker s r"
  "bears_marker (s\<lparr>s_localVars := v4\<rparr>) r = bears_marker s r"
  by (simp_all add: bears_marker_def cong: option.case_cong)

lemma bears_marker_set_notTranslated [simp]:
  "bears_marker (set_notTranslated t i b s) r = bears_marker s r"
proof (rule bears_marker_cong)
  show "s_locale (set_notTranslated t i b s) = s_locale s" by simp
  show "map (\<lambda>c. (lc_localeCode c, lc_text c)) (e_localizedContents (element_at (set_notTranslated t i b s) r))
      = map (\<lambda>c. (lc_localeCode c, lc_text c)) (e_localizedContents (element_at s r))"
    using contents_set_notTranslated [of t i b s "ElementRef r"]
    by (auto simp: list_eq_iff_nth_eq target_contents_def)
qed

lemma bears_marker_update_element:
  assumes "\<And>e. e_localizedContents (g e) = e_localizedContents e"
  shows "bears_marker (update_element r g s) r' = bears_marker s r'"
  by (rule bears_marker_cong) (simp_all add: element_at_update_element assms)

lemma valid_node_set_notTranslated [simp]:
  "valid_node (set_notTranslated t i b s) nr = valid_node s nr"
  by (cases t) (simp_all add: set_notTranslated_def update_target_contents_def)

text \<open>What a function of the state has to ignore for the callback of \<open>getAvailableChoices\<close>
  on the element \<open>r\<close> not to change it.\<close>

lemma availableChoices_callback_preserves:
  assumes result: "availableChoices_callback h r s = Inr (keep, s')"
    and f: "\<And>s v. f (s\<lparr>s_random := v\<rparr>) = f s"
      "\<And>s pos pv. pos < length (s_variations s) \<Longrightarrow> var_type pv = var_type (s_variations s ! pos)
           \<Longrightarrow> f (s\<lparr>s_variations := (s_variations s)[pos := pv]\<rparr>) = f s"
      "\<And>s v. f (s\<lparr>s_globalVars := v\<rparr>) = f s"
      "\<And>s v. f (s\<lparr>s_localVars := v\<rparr>) = f s"
      "\<And>t i b s. f (set_notTranslated t i b s) = f s"
      "\<And>g s. (\<And>e. e_localizedContents (g e) = e_localizedContents e)
         \<Longrightarrow> f (update_element r g s) = f s"
  shows "f s' = f s"
proof -
  let ?o = "getOriginalText h s (ElementRef r) False False (s_locale s)"
  from result obtain content s1 where orig: "?o = Inr (content, s1)"
    by (cases ?o) (auto simp: availableChoices_callback_def)
  have s1: "f s1 = f s"
    unfolding getOriginalText_state [OF orig] by (rule marked_preserves) (rule f(5))
  have p: "f s2 = f s1" if "parsedText h s1 (Some r) False = Inr (out, s2)" for out s2
    using that unfolding parsedText_def
    by (auto intro!: parsedText_element_preserves [of h s1 r False out s2 f] f)
  from result orig have "f s' = f s1"
    by (auto simp: availableChoices_callback_def Let_def f(6) dest!: p
        split: if_splits sum.splits)
  with s1 show ?thesis by simp
qed

lemma getOriginalText_marker:
  assumes "getOriginalText h s (ElementRef r) False False (s_locale s) = Inr (content, s1)"
  shows "(ifNoMoreRegExp content \<noteq> []) = bears_marker s r"
  using assms marked_fields(34) [of "ElementRef r" "s_locale s" _ s "ElementRef r"]
  by (auto simp: getOriginalText_def getLocalizedContent_eq bears_marker_def target_contents_def
      split: sum.splits option.splits)


text \<open>The callback on an element that stays out: the element is not kept, and \<open>_ifNoMore\<close>
  is set if it bears the marker.\<close>

lemma availableChoices_callback_exhausted:
  assumes result: "availableChoices_callback h r s = Inr (keep, s')"
    and valid: "valid_element s r"
    and ex: "stays_out h r s"
  shows "\<not> keep \<and> e_ifNoMore (element_at s' r) = (bears_marker s r \<or> e_ifNoMore (element_at s r))"
proof -
  let ?o = "getOriginalText h s (ElementRef r) False False (s_locale s)"
  from result obtain content s1 where orig: "?o = Inr (content, s1)"
    by (cases ?o) (auto simp: availableChoices_callback_def)
  note s1 = getOriginalText_state [OF orig]
  note marker = getOriginalText_marker [OF orig]
  have bears1: "bears_marker s1 r = bears_marker s r"
    unfolding s1 by (rule marked_preserves) simp
  let ?p = "if e_type (element_at s1 r) = NodeType_text \<or> e_type (element_at s1 r) = NodeType_choices
            then (case parsedText h s1 (Some r) False of
                    Inl e \<Rightarrow> Inl e
                  | Inr (out, s2) \<Rightarrow>
                      Inr (if out = [] \<and> \<not> e_visited (element_at s2 r)
                           then update_element r
                                  (\<lambda>e. e\<lparr>e_visited := True, e_wasHiddenBecauseEmpty := True\<rparr>) s2
                           else if e_wasHiddenBecauseEmpty (element_at s2 r) \<and> out \<noteq> []
                           then update_element r
                                  (\<lambda>e. e\<lparr>e_visited := False, e_wasHiddenBecauseEmpty := False\<rparr>) s2
                           else s2))
            else Inr s1"
  from result orig obtain s3 where s3: "?p = Inr s3"
    by (cases ?p) (auto simp: availableChoices_callback_def)
  from result orig s3 have s': "s' = (if bears_marker s r
      then update_element r (\<lambda>e. e\<lparr>e_ifNoMore := True, e_visited := True\<rparr>) s3 else s3)"
    and keep: "keep = (\<not> e_visited (element_at s' r))"
    by (auto simp: availableChoices_callback_def Let_def marker)
  have parsed: "valid_element s2 r
      \<and> e_visited (element_at s2 r) = e_visited (element_at s r)
      \<and> e_wasHiddenBecauseEmpty (element_at s2 r) = e_wasHiddenBecauseEmpty (element_at s r)
      \<and> (\<not> bears_marker s r \<longrightarrow> e_ifNoMore (element_at s2 r) = e_ifNoMore (element_at s r))"
    if p: "parsedText_element h s1 r False = Inr (out, s2)" for out s2
  proof (intro conjI impI)
    have "valid_element s2 r = valid_element s1 r"
      by (rule parsedText_element_preserves [OF p]) simp_all
    with valid show "valid_element s2 r" by (simp add: s1)
    have "e_visited (element_at s2 r) = e_visited (element_at s1 r)"
      by (rule parsedText_element_preserves [OF p]) (simp_all add: element_at_update_element)
    then show "e_visited (element_at s2 r) = e_visited (element_at s r)" by (simp add: s1)
    have "e_wasHiddenBecauseEmpty (element_at s2 r) = e_wasHiddenBecauseEmpty (element_at s1 r)"
      by (rule parsedText_element_preserves [OF p]) (simp_all add: element_at_update_element)
    then show "e_wasHiddenBecauseEmpty (element_at s2 r) = e_wasHiddenBecauseEmpty (element_at s r)"
      by (simp add: s1)
  next
    assume no: "\<not> bears_marker s r"
    have "e_ifNoMore (element_at s2 r) = e_ifNoMore (element_at s1 r)"
      by (rule parsedText_element_preserves [OF p])
         (simp_all add: element_at_update_element bears1 no)
    then show "e_ifNoMore (element_at s2 r) = e_ifNoMore (element_at s r)" by (simp add: s1)
  qed
  have first: "valid_element s1 r = valid_element s r"
    "e_visited (element_at s1 r) = e_visited (element_at s r)"
    "e_ifNoMore (element_at s1 r) = e_ifNoMore (element_at s r)"
    by (simp_all add: s1)
  have empty: "out = []"
    if "parsedText_element h s1 r False = Inr (out, s2)" "\<not> bears_marker s r"
      "e_wasHiddenBecauseEmpty (element_at s r)"
      "e_type (element_at s r) = NodeType_text \<or> e_type (element_at s r) = NodeType_choices"
    for out s2
    using that ex orig by (auto simp: stays_out_def renders_empty_def parsedText_def)
  have ty1: "e_type (element_at s1 r) = e_type (element_at s r)"
    by (simp add: s1)
  from ex have vis: "\<not> bears_marker s r \<Longrightarrow> e_visited (element_at s r)"
    by (auto simp: stays_out_def)
  have three: "valid_element s3 r
      \<and> (\<not> bears_marker s r \<longrightarrow> e_visited (element_at s3 r)
            \<and> e_ifNoMore (element_at s3 r) = e_ifNoMore (element_at s r))"
  proof (cases "e_type (element_at s1 r) = NodeType_text \<or> e_type (element_at s1 r) = NodeType_choices")
    case False
    with s3 have "s3 = s1" by simp
    with valid vis first show ?thesis by simp
  next
    case True
    with s3 obtain out s2 where p: "parsedText_element h s1 r False = Inr (out, s2)"
      and s3': "s3 = (if out = [] \<and> \<not> e_visited (element_at s2 r)
                           then update_element r
                                  (\<lambda>e. e\<lparr>e_visited := True, e_wasHiddenBecauseEmpty := True\<rparr>) s2
                           else if e_wasHiddenBecauseEmpty (element_at s2 r) \<and> out \<noteq> []
                           then update_element r
                                  (\<lambda>e. e\<lparr>e_visited := False, e_wasHiddenBecauseEmpty := False\<rparr>) s2
                           else s2)"
      by (auto simp: parsedText_def split: sum.splits)
    note facts = parsed [OF p]
    show ?thesis
    proof (cases "bears_marker s r")
      case True
      with facts show ?thesis by (simp add: s3')
    next
      case False
      from vis [OF False] facts have v2: "e_visited (element_at s2 r)" by simp
      have "\<not> (e_wasHiddenBecauseEmpty (element_at s2 r) \<and> out \<noteq> [])"
        using empty [OF p False] True facts by (auto simp: ty1)
      with v2 have "s3 = s2" by (auto simp: s3')
      with facts v2 False show ?thesis by simp
    qed
  qed
  then show ?thesis
    by (auto simp: keep s' element_at_update_element)
qed

lemma availableChoices_filter_exhausted:
  assumes "availableChoices_filter h nr is s = Inr (kept, s')"
    and "valid_node s nr"
    and "\<forall>i\<in>set is. i < length (n_elements (node_at s nr))"
    and "choices_exhausted h nr is s"
  shows "kept = []
         \<and> length (n_elements (node_at s' nr)) = length (n_elements (node_at s nr))
         \<and> (\<forall>i. e_ifNoMore (element_at s' (fst nr, snd nr, i))
                  = ((i \<in> set is \<and> bears_marker s (fst nr, snd nr, i))
                     \<or> e_ifNoMore (element_at s (fst nr, snd nr, i))))"
  using assms
proof (induction "is" arbitrary: s kept)
  case Nil
  then show ?case by simp
next
  case (Cons i "is")
  let ?r = "\<lambda>j. (fst nr, snd nr, j)"
  from Cons.prems(1) obtain keep s1 kept' where
    cb: "availableChoices_callback h (?r i) s = Inr (keep, s1)"
    and rest: "availableChoices_filter h nr is s1 = Inr (kept', s')"
    and kept: "kept = (if keep then [i] else []) @ kept'"
    by (auto split: sum.splits)
  from Cons.prems(2,3) have valid: "valid_element s (?r i)"
    by (simp add: valid_element_def)
  from Cons.prems(4) cb have ex: "stays_out h (?r i) s"
    and later: "choices_exhausted h nr is s1"
    by simp_all
  note here = availableChoices_callback_exhausted [OF cb valid ex]
  have node: "valid_node s1 nr = valid_node s nr"
    by (rule availableChoices_callback_preserves [OF cb]) simp_all
  have len: "length (n_elements (node_at s1 nr)) = length (n_elements (node_at s nr))"
    by (rule availableChoices_callback_preserves [OF cb]) simp_all
  have bears: "bears_marker s1 r = bears_marker s r" for r
    by (rule availableChoices_callback_preserves [OF cb])
       (simp_all add: bears_marker_update_element)
  have other: "e_ifNoMore (element_at s1 (?r j)) = e_ifNoMore (element_at s (?r j))"
    if "j \<noteq> i" for j
    by (rule availableChoices_callback_preserves [OF cb])
       (simp_all add: element_at_update_element that)
  have ih: "kept' = []
      \<and> length (n_elements (node_at s' nr)) = length (n_elements (node_at s1 nr))
      \<and> (\<forall>j. e_ifNoMore (element_at s' (?r j))
               = ((j \<in> set is \<and> bears_marker s1 (?r j)) \<or> e_ifNoMore (element_at s1 (?r j))))"
  proof (rule Cons.IH [OF rest _ _ later])
    from Cons.prems(2) show "valid_node s1 nr" by (simp add: node)
    from Cons.prems(3) show "\<forall>j\<in>set is. j < length (n_elements (node_at s1 nr))"
      by (simp add: len)
  qed
  show ?case
  proof (intro conjI allI)
    from here kept ih show "kept = []" by simp
    from ih show "length (n_elements (node_at s' nr)) = length (n_elements (node_at s nr))"
      by (simp add: len)
    fix j
    show "e_ifNoMore (element_at s' (?r j))
        = ((j \<in> set (i # is) \<and> bears_marker s (?r j)) \<or> e_ifNoMore (element_at s (?r j)))"
    proof (cases "j = i")
      case True
      with ih here show ?thesis by (auto simp: bears)
    next
      case False
      with ih other [OF False] show ?thesis by (simp add: bears)
    qed
  qed
qed

subsection \<open>The traversal of a condition node\<close>


lemma evaluate_conditions_preserves:
  assumes "\<And>t L is s. f (marked t L is s) = f s"
    and "\<And>s g l. f (s\<lparr>s_globalVars := g, s_localVars := l\<rparr>) = f s"
    and "evaluate_conditions h nr is s = Inr (bs, s')"
  shows "f s' = f s"
  using assms(3)
proof (induction "is" arbitrary: s bs)
  case Nil
  then show ?case by simp
next
  case (Cons i "is")
  from Cons.prems obtain condition s1 result g l bs' where
    orig: "getOriginalText h s (ElementRef (fst nr, snd nr, i)) True True (s_locale s)
            = Inr (condition, s1)"
    and rest: "evaluate_conditions h nr is (s1\<lparr>s_globalVars := g, s_localVars := l\<rparr>) = Inr (bs', s')"
    by (auto split: sum.splits option.splits)
  from Cons.IH [OF rest] getOriginalText_state [OF orig] show ?case
    by (simp add: assms(1,2))
qed

lemma getAvailableConnections_condition:
  assumes "at_condition_node s nr"
  shows "getAvailableConnections h s elementId =
     (case evaluate_conditions h nr [0 ..< length (n_elements (node_at s nr))] s of
        Inl e \<Rightarrow> Inl e
      | Inr (bs, s') \<Rightarrow>
          Inr ((case connection_of_first s nr
                       (zip [0 ..< length (n_elements (node_at s nr))] bs) of
                  Some c \<Rightarrow> Connection c
                | None \<Rightarrow> of_option (getFailedConnection (node_at s nr))),
               s'))"
proof -
  from assms have node: "getNode s None None = Inr (Some nr)"
    and ty: "n_type (node_at s nr) = NodeType_condition"
    by (simp_all add: at_condition_node_def)
  have failed: "getFailedConnection (node_at s' nr) = getFailedConnection (node_at s nr)"
    if "evaluate_conditions h nr is s = Inr (bs, s')" for "is" bs s'
    using evaluate_conditions_frame [OF that, of nr] by (simp add: getFailedConnection_def)
  show ?thesis
    using node ty
    by (auto simp: getAvailableConnections_def condition_forEach_eq failed
        split: sum.splits option.splits)
qed

lemma nextNode_round_condition:
  assumes at: "at_condition_node s nr"
    and sel: "s_selectedNodeId s \<noteq> Some ''THE END''"
    and jump: "\<not> s_isJumping s"
    and ev: "evaluate_conditions h nr [0 ..< length (n_elements (node_at s nr))] s = Inr (bs, s')"
    and conn: "condition_connection s nr bs = Some c"
    and dest: "c_to c \<noteq> []"
  shows "nextNode_round h s None = enterTarget h nr (s'\<lparr>s_selectedNodeId := Some (c_to c)\<rparr>)"
proof -
  from at have cur: "getNode s None None = Inr (Some nr)"
    and ty: "n_type (node_at s nr) = NodeType_condition"
    by (simp_all add: at_condition_node_def)
  note some = getNode_id [OF cur]
  have el: "getNodeElement s (n_id (node_at s nr)) None = Inr None"
    using getNode_by_id [OF cur] by (simp add: getNodeElement_def)
  have ty': "n_type (node_at s' nr) = NodeType_condition"
    using evaluate_conditions_preserves [of "\<lambda>s. n_type (node_at s nr)", OF _ _ ev] ty by simp
  have jump': "\<not> s_isJumping s'"
    using evaluate_conditions_preserves [of s_isJumping, OF _ _ ev] jump by simp
  have failed: "getFailedConnection (node_at s' nr) = getFailedConnection (node_at s nr)"
    using evaluate_conditions_frame [OF ev, of nr] by (simp add: getFailedConnection_def)
  from conn have available: "(let available =
        (case connection_of_first s nr (zip [0 ..< length (n_elements (node_at s nr))] bs) of
           Some c \<Rightarrow> Connection c
         | None \<Rightarrow> of_option (getFailedConnection (node_at s nr)))
      in if available = NoConnection then of_option (getFailedConnection (node_at s' nr))
         else available) = Connection c"
    by (auto simp: condition_connection_def failed split: option.splits)
  show ?thesis
    using sel some getNode_current [OF cur] el ty' jump' dest available
    by (simp add: nextNode_round_def getAvailableConnections_condition [OF at] ev Let_def)
qed

subsection \<open>The host of the examples\<close>

lemma split_true: "split '' '' ''true'' = [''true'']"
  by code_simp

lemma example_eval_true: "example_eval ''true'' g l = Some (JBool True, g, l)"
  by (simp add: example_eval_def split_true example_expression_def example_operand_def)

section \<open>Locale fallback\<close>

text \<open>
  C1. The claim: when an element has no content for the requested locale, or an empty one,
  and has a non-empty main-locale content, \<open>getParsedText\<close> returns the rendering of the
  main-locale content and marks it as not translated. In the source the test for "the main
  locale is different" never holds, so the fallback never happens: for the element \<open>e1\<close>
  (Italian text empty, main text \<open>Hello\<close>) the rendering in \<open>it\<close> is the empty text, the main
  content is not marked, and the Italian content is marked as translated.
\<close>

theorem C1_no_fallback_to_main_locale:
  "rendering (fresh_parser fallback_project) (0, 1, 0) = Some (Inr ([], [None, Some False]))"
  by code_simp

section \<open>Exceptions\<close>

text \<open>
  C9. The claim: no call of the public functions throws on missing translations, absent
  localized content or malformed expressions. In the source \<open>getLocalizedContent\<close> returns
  \<open>null\<close> when the object has no content for the locale, and \<open>parsedText\<close>,
  \<open>getOriginalText\<close> and \<open>getLabel\<close> read \<open>_text\<close> of the result without a test
  (\<open>InitializeVariations\<close> does test it); the condition case of \<open>getAvailableConnections\<close>
  calls \<open>eval\<close> outside of any \<open>try\<close> (\<open>parsedText\<close> has one around each \<open>eval\<close>). So, in
  the project that runs in \<open>it\<close>, rendering the element \<open>e2\<close> (no Italian content), reading
  its original text and reading the label \<open>title\<close> throw a type error, and \<open>nextNode\<close> throws
  on the condition \<open>$count >\<close>.
\<close>

theorem C9_missing_content_and_malformed_condition_throw:
  "(case fresh_parser fallback_project of
      None \<Rightarrow> False
    | Some s \<Rightarrow>
        throws TypeError (getParsedText example_host s (Some (0, 1, 1)) False)
        \<and> throws TypeError
            (getOriginalText example_host s (ElementRef (0, 1, 1)) False False (s_locale s))
        \<and> throws TypeError (getLabel s ''title'' (s_locale s)))
   \<and> (case fresh_parser malformed_project of
        None \<Rightarrow> False
      | Some s \<Rightarrow> throws EvalError (nextNode 10 example_host s None))"
  by code_simp

section \<open>The list variation\<close>

lemma list_variation_renderings:
  "renderings_of list_project 5 (0, 1, 0) =
     Some (Inr [''<variation> a</variation>'', ''<variation>b</variation>'',
                ''<variation>c</variation>'', ''<variation>c</variation>'',
                ''<variation>c</variation>''])"
  by code_simp

text \<open>
  C7, as the source has it. For the element whose text is exactly \<open>[[LIST a|b|c]]\<close>, each of
  five successive calls of \<open>getParsedText\<close> returns a value between \<open><variation>\<close> and
  \<open></variation>\<close>, and the values are \<open>a\<close> (apart from blanks around it), \<open>b\<close>, \<open>c\<close>, \<open>c\<close>, \<open>c\<close>:
  the first persisted value is taken each time, and when none is left the last value of the
  block is emitted.
\<close>

theorem C7_list_variation_renderings:
  "(case renderings_of list_project 5 (0, 1, 0) of
      Some (Inr rendered) \<Rightarrow>
        map (map_option trim \<circ> between_markers) rendered
          = [Some ''a'', Some ''b'', Some ''c'', Some ''c'', Some ''c'']
        \<and> map between_markers (tl rendered) = [Some ''b'', Some ''c'', Some ''c'', Some ''c'']
    | _ \<Rightarrow> False)"
  unfolding list_variation_renderings by code_simp

text \<open>C7 as claimed: the five renderings are not the bare values \<open>a, b, c, c, c\<close>; the second
  one, for instance, is \<open>b\<close> between the variation markers.\<close>

theorem C7_counterexample:
  "renderings_of list_project 5 (0, 1, 0) \<noteq> Some (Inr [''a'', ''b'', ''c'', ''c'', ''c''])
   \<and> map_option (map_sum id (\<lambda>rendered. rendered ! 1)) (renderings_of list_project 5 (0, 1, 0))
       = Some (Inr ''<variation>b</variation>'')"
  unfolding list_variation_renderings by simp

section \<open>Loop closure\<close>

text \<open>
  C8, as the source has it. In a text node with cycle type \<open>Loop\<close> and \<open>N\<close> elements of which
  the visited ones are the first \<open>k\<close> (\<open>k = 0\<close> after \<open>load\<close>, and a selection leads from one
  such state to another), \<open>2N\<close> successive selections by \<open>getAvailableNodeElement\<close> all return
  an element, and the \<open>i\<close>-th and the \<open>(N+i)\<close>-th selected elements are the same: the \<open>i\<close>-th
  selection, counted from 0, is the element at position \<open>(k + i) mod N\<close>, that is the first
  element not visited, or the first element after the visited flags were all reset.
\<close>

theorem C8_loop_closure:
  assumes "loop_text_node s nodeId nr N k"
  shows "\<exists>sels s'. selections (2 * N) s nodeId = Inr (sels, s') \<and> length sels = 2 * N
           \<and> (\<forall>i < N. sels ! i = sels ! (N + i)
                        \<and> sels ! i = Some (fst nr, snd nr, (k + i) mod N))"
proof (cases "N = 0")
  case True
  then show ?thesis by simp
next
  case False
  then have "0 < N" by simp
  from selections_loop [OF assms this, of "2 * N"] obtain sels s' where
    sel: "selections (2 * N) s nodeId = Inr (sels, s')" and len: "length sels = 2 * N"
    and nth: "\<forall>i < 2 * N. sels ! i = Some (fst nr, snd nr, (k + i) mod N)"
    by blast
  have "sels ! i = sels ! (N + i) \<and> sels ! i = Some (fst nr, snd nr, (k + i) mod N)"
    if "i < N" for i
  proof -
    from that nth have "sels ! i = Some (fst nr, snd nr, (k + i) mod N)" by simp
    moreover from that nth have "sels ! (N + i) = Some (fst nr, snd nr, (k + (N + i)) mod N)"
      by simp
    moreover have "(k + (N + i)) mod N = (k + i) mod N"
      by (metis add.assoc add.commute mod_add_self2)
    ultimately show ?thesis by simp
  qed
  with sel len show ?thesis by blast
qed

text \<open>The node \<open>n1\<close> of the example, right after \<open>load\<close>: four selections.\<close>

theorem C8_loop_closure_witness:
  "loop_text_node (the (fresh_parser loop_project)) (Some ''n1'') (0, 1) 2 0
   \<and> (\<exists>sels s'. selections (2 * 2) (the (fresh_parser loop_project)) (Some ''n1'') = Inr (sels, s')
         \<and> length sels = 2 * 2
         \<and> (\<forall>i < 2. sels ! i = sels ! (2 + i)
                      \<and> sels ! i = Some (fst ((0, 1)::nodeRef), snd ((0, 1)::nodeRef), (0 + i) mod 2)))"
proof -
  have h: "loop_text_node (the (fresh_parser loop_project)) (Some ''n1'') (0, 1) 2 0"
    by code_simp
  show ?thesis by (rule conjI [OF h C8_loop_closure [OF h]])
qed

text \<open>
  C8 as claimed: after \<open>nextNode()\<close> and \<open>nextNode("e2")\<close> the element \<open>e2\<close> of the looping text
  node \<open>n1\<close> of the example is the only visited one. Six selections then take the elements at
  the positions 0, 2, 0, 1, 2, 0: the first one and the fourth one differ.
\<close>

theorem C8_counterexample:
  "visited_flags (after_choice loop3_project ''e2'') = Some [False, True, False]
   \<and> selected_positions 6 (after_choice loop3_project ''e2'')
       = Some [Some 0, Some 2, Some 0, Some 1, Some 2, Some 0]"
  by code_simp

section \<open>A jump without target\<close>

text \<open>
  C2. The claim: when the current node is a jump node whose target does not exist,
  \<open>nextNode\<close> returns the current node and leaves the cursor unchanged. In the source the
  current node is returned, but the cursor is not where it was: \<open>getAvailableConnections\<close>
  has set \<open>_selectedFlowId\<close> and \<open>_selectedNodeId\<close> to the target before \<open>nextNode\<close> tests
  whether the target exists, and the branch that gives the jump up does not set them back.
  Every other return of \<open>nextNode\<close> leaves the cursor on the node it returns. Nothing else
  of the state changes.
\<close>

theorem C2_bad_jump_returns_current_node:
  assumes "getNode s None None = Inr (Some cur)"
    and "s_selectedNodeId s \<noteq> Some ''THE END''"
    and "n_type (node_at s cur) = NodeType_jumpToNode"
    and "n_jumpTo (node_at s cur) = Some (flowId, nodeId)"
    and "\<not> nodeExists (cursor_at flowId nodeId s) nodeId (Some flowId)"
  shows "nextNode (Suc fuel) h s elementId = Inr (ReturnNode cur, cursor_at flowId nodeId s)"
  using nextNode_round_bad_jump [OF assms] by simp

text \<open>In the example the cursor is at \<open>(f1, n1)\<close> before the call and at \<open>(missing, nowhere)\<close>
  after it, where no flow is selected any more and \<open>getNode()\<close> throws.\<close>

theorem C2_bad_jump_witness:
  "getNode jump_state None None = Inr (Some (0, 1))
   \<and> s_selectedNodeId jump_state \<noteq> Some ''THE END''
   \<and> n_type (node_at jump_state (0, 1)) = NodeType_jumpToNode
   \<and> n_jumpTo (node_at jump_state (0, 1)) = Some (''missing'', ''nowhere'')
   \<and> \<not> nodeExists (cursor_at ''missing'' ''nowhere'' jump_state) ''nowhere'' (Some ''missing'')
   \<and> nextNode (Suc 0) example_host jump_state None
       = Inr (ReturnNode (0, 1), cursor_at ''missing'' ''nowhere'' jump_state)
   \<and> (s_selectedFlowId jump_state, s_selectedNodeId jump_state) = (Some ''f1'', Some ''n1'')
   \<and> outcome (nextNode 1 example_host jump_state None)
       = Some (ReturnNode (0, 1), Some ''missing'', Some ''nowhere'')
   \<and> getSelectedFlow (cursor_at ''missing'' ''nowhere'' jump_state) = None
   \<and> throws TypeError (getNode (cursor_at ''missing'' ''nowhere'' jump_state) None None)"
proof -
  have h1: "getNode jump_state None None = Inr (Some (0, 1))" by code_simp
  have h2: "s_selectedNodeId jump_state \<noteq> Some ''THE END''" by code_simp
  have h3: "n_type (node_at jump_state (0, 1)) = NodeType_jumpToNode" by code_simp
  have h4: "n_jumpTo (node_at jump_state (0, 1)) = Some (''missing'', ''nowhere'')" by code_simp
  have h5: "\<not> nodeExists (cursor_at ''missing'' ''nowhere'' jump_state) ''nowhere'' (Some ''missing'')"
    by code_simp
  have h6: "(s_selectedFlowId jump_state, s_selectedNodeId jump_state) = (Some ''f1'', Some ''n1'')"
    by code_simp
  have h7: "outcome (nextNode 1 example_host jump_state None)
       = Some (ReturnNode (0, 1), Some ''missing'', Some ''nowhere'')"
    by code_simp
  have h8: "getSelectedFlow (cursor_at ''missing'' ''nowhere'' jump_state) = None" by code_simp
  have h9: "throws TypeError (getNode (cursor_at ''missing'' ''nowhere'' jump_state) None None)"
    by code_simp
  show ?thesis
    by (intro conjI h1 h2 h3 h4 h5 h6 h7 h8 h9
        C2_bad_jump_returns_current_node [OF h1 h2 h3 h4 h5])
qed


section \<open>Loading a project\<close>




section \<open>Sub-flows\<close>

text \<open>
  C5. The claim: entering a sub-flow node that is not on the stack pushes the calling
  position and takes the connection of type \<open>SubFlow\<close>; when the flow then reaches a node
  without outgoing connection, the next call pops the entry and goes on with the other
  connection of the sub-flow node. The first example shows just that: \<open>t1\<close> is returned with
  \<open>(f1, s1)\<close> on the stack, then \<open>t2\<close> with the stack empty. In the second example the
  sub-flow node is entered right after a jump to a choice node without available choice:
  \<open>nextNode\<close> follows the fail connection of the choice and calls itself before it resets
  \<open>_isJumping\<close>, and with the flag still set the next round does not move the cursor. The entry
  is pushed, but the connection of type \<open>SubFlow\<close> is not taken: the first node returned is
  \<open>t2\<close>, with the stack empty again, and \<open>t1\<close> is never reached.
\<close>

theorem C5_subflow_skipped_after_jump:
  "walk_of subflow_project 2
     = Some (Inr [(Some ''t1'', [(Some ''f1'', ''s1'')]), (Some ''t2'', [])])
   \<and> walk_of jump_subflow_project 1 = Some (Inr [(Some ''t2'', [])])"
  by code_simp

section \<open>Condition nodes\<close>

text \<open>
  C10, as the source has it. When \<open>nextNode()\<close> is at a condition node, no jump is under way
  and the evaluations complete, the condition of every element is evaluated, in order and
  whether or not an earlier one was truthy, so the effects of all of them are applied to
  the variable tables. The connection taken is that of the first element that was truthy
  and has a connection, and the fail connection when there is no such element: the cursor
  moves to the target of that connection, and \<open>nextNode\<close> goes on from there as it does
  after every move.
\<close>

theorem C10_condition_node:
  assumes "at_condition_node s nr"
    and "s_selectedNodeId s \<noteq> Some ''THE END''"
    and "\<not> s_isJumping s"
    and "evaluate_conditions h nr [0 ..< length (n_elements (node_at s nr))] s = Inr (bs, s')"
    and "condition_connection s nr bs = Some c"
    and "c_to c \<noteq> []"
  shows "nextNode (Suc fuel) h s None =
     (case enterTarget h nr (s'\<lparr>s_selectedNodeId := Some (c_to c)\<rparr>) of
        Inl e \<Rightarrow> Inl e
      | Inr (Return r, s'') \<Rightarrow> Inr (r, s'')
      | Inr (Again, s'') \<Rightarrow> nextNode fuel h s'' None)"
  using nextNode_round_condition [OF assms] by simp

text \<open>The node \<open>c1\<close> of \<open>condition_project\<close>: both conditions are truthy, the connection of the
  first one is taken, so that \<open>t1\<close> is returned, and the assignment of the second one has
  been made (\<open>bb\<close> is 5).\<close>

theorem C10_condition_node_witness:
  "at_condition_node (at_c1 condition_project) (0, 1)
   \<and> s_selectedNodeId (at_c1 condition_project) \<noteq> Some ''THE END''
   \<and> \<not> s_isJumping (at_c1 condition_project)
   \<and> evaluate_conditions example_host (0, 1)
        [0 ..< length (n_elements (node_at (at_c1 condition_project) (0, 1)))]
        (at_c1 condition_project)
       = Inr (fst (projr (c1_conditions (at_c1 condition_project))),
              snd (projr (c1_conditions (at_c1 condition_project))))
   \<and> fst (projr (c1_conditions (at_c1 condition_project))) = [True, True]
   \<and> condition_connection (at_c1 condition_project) (0, 1)
        (fst (projr (c1_conditions (at_c1 condition_project))))
       = Some (example_connection ''t1'' NodeType_other (Some ''e1''))
   \<and> c_to (example_connection ''t1'' NodeType_other (Some ''e1'')) \<noteq> []
   \<and> nextNode (Suc 19) example_host (at_c1 condition_project) None =
       (case enterTarget example_host (0, 1)
               ((snd (projr (c1_conditions (at_c1 condition_project))))
                  \<lparr>s_selectedNodeId :=
                     Some (c_to (example_connection ''t1'' NodeType_other (Some ''e1'')))\<rparr>) of
          Inl e \<Rightarrow> Inl e
        | Inr (Return r, s'') \<Rightarrow> Inr (r, s'')
        | Inr (Again, s'') \<Rightarrow> nextNode 19 example_host s'' None)
   \<and> condition_walk (at_c1 condition_project) = Some (Some ''t1'', Some (JNum 5))"
proof -
  have h1: "at_condition_node (at_c1 condition_project) (0, 1)" by code_simp
  have h2: "s_selectedNodeId (at_c1 condition_project) \<noteq> Some ''THE END''" by code_simp
  have h3: "\<not> s_isJumping (at_c1 condition_project)" by code_simp
  have "\<not> isl (c1_conditions (at_c1 condition_project))" by code_simp
  then have h4: "evaluate_conditions example_host (0, 1)
        [0 ..< length (n_elements (node_at (at_c1 condition_project) (0, 1)))]
        (at_c1 condition_project)
       = Inr (fst (projr (c1_conditions (at_c1 condition_project))),
              snd (projr (c1_conditions (at_c1 condition_project))))"
    by (simp add: c1_conditions_def)
  have h5: "fst (projr (c1_conditions (at_c1 condition_project))) = [True, True]" by code_simp
  have h6: "condition_connection (at_c1 condition_project) (0, 1)
        (fst (projr (c1_conditions (at_c1 condition_project))))
       = Some (example_connection ''t1'' NodeType_other (Some ''e1''))"
    by code_simp
  have h7: "c_to (example_connection ''t1'' NodeType_other (Some ''e1'')) \<noteq> []" by code_simp
  have h8: "condition_walk (at_c1 condition_project) = Some (Some ''t1'', Some (JNum 5))"
    by code_simp
  show ?thesis
    by (intro conjI h1 h2 h3 h4 h5 h6 h7 h8 C10_condition_node [OF h1 h2 h3 h4 h6 h7])
qed

text \<open>C10 as claimed: in \<open>dangling_project\<close> the first condition is truthy and the second is
  not, but the element of the first has no connection, and \<open>nextNode()\<close> takes the fail
  connection and returns \<open>t3\<close>.\<close>

theorem C10_counterexample:
  "\<not> isl (c1_conditions (at_c1 dangling_project))
   \<and> fst (projr (c1_conditions (at_c1 dangling_project))) = [True, False]
   \<and> \<not> s_isJumping (at_c1 dangling_project)
   \<and> connection_of_element (at_c1 dangling_project) (0, 1) 0 = None
   \<and> map_option c_to (getFailedConnection (node_at (at_c1 dangling_project) (0, 1))) = Some ''t3''
   \<and> condition_walk (at_c1 dangling_project) = Some (Some ''t3'', Some (JNum 0))"
  by code_simp

section \<open>Choices\<close>




end
